theory Spec2Isabelle
  imports Complex_Main "HOL-Library.Product_Lexorder" "HOL-Library.List_Lexorder"
    "HOL-Library.Char_ord" "HOL-Library.Sublist" "HOL-Library.Multiset"
begin

section \<open>Data model\<close>

text \<open>
  Numbers are ideal reals; a cell of the value column is a number or pandas' missing
  value (NaN).  Arithmetic on cells propagates NaN and every comparison with NaN is false,
  as for Python floats.
\<close>

datatype num = Num real | NaN

fun nadd :: "num \<Rightarrow> num \<Rightarrow> num" where
  "nadd (Num a) (Num b) = Num (a + b)"
| "nadd _ _ = NaN"

fun nsub :: "num \<Rightarrow> num \<Rightarrow> num" where
  "nsub (Num a) (Num b) = Num (a - b)"
| "nsub _ _ = NaN"

fun nmul :: "num \<Rightarrow> num \<Rightarrow> num" where
  "nmul (Num a) (Num b) = Num (a * b)"
| "nmul _ _ = NaN"

fun ngt0 :: "num \<Rightarrow> bool" where
  "ngt0 (Num a) = (0 < a)"
| "ngt0 NaN = False"

fun neq0 :: "num \<Rightarrow> bool" where
  "neq0 (Num a) = (a = 0)"
| "neq0 NaN = False"

text \<open>
  A row holds the cells under the three role columns (\<open>x_col\<close>, \<open>category_col\<close>,
  \<open>value_col\<close>); a frame holds its column labels and its rows in order.
\<close>

record ('p, 'c) obs =
  row_x :: 'p
  row_cat :: 'c
  row_val :: num

record ('p, 'c) frame =
  columns :: "string list"
  rows :: "('p, 'c) obs list"

datatype ('p, 'c) key = ColumnKey string | PeriodKey 'p | CategoryKey 'c

datatype ('p, 'c) error =
  ValueError string
| KeyError "('p, 'c) key"
| ZeroDivisionError

text \<open>
  Hover texts: a caller's template, or the f-string built from category, period and value
  (with the scenario name in \<open>ribbon_chart.py\<close>).
\<close>

datatype ('p, 'c) hover =
  Custom string
| Default_hover 'c 'p num
| Hours_hover 'c 'p num
| Scenario_hover 'c string 'p num

record ('p, 'c, 'v) bar =
  b_x :: 'p
  b_y :: 'v
  b_base :: 'v
  b_name :: 'c
  b_marker_color :: string
  b_width :: real
  b_legendgroup :: 'c
  b_showlegend :: bool
  b_hovertemplate :: "('p, 'c) hover"

record ('c, 'v) scatter =
  s_x :: "real list"
  s_y :: "'v list"
  s_fillcolor :: string
  s_legendgroup :: 'c

text \<open>
  A figure is the list of its traces.  Of a trace the model keeps the geometry, the
  category, the colour, the legend flag and the hover text; attributes that are the same
  constant on every trace of a kind (opacity, line, fill mode, offset group) and the
  gallery's \<open>visible\<close> and \<open>meta\<close> tags are left out.
\<close>

datatype ('p, 'c, 'v) trace = Bar "('p, 'c, 'v) bar" | Scatter "('c, 'v) scatter"

datatype 'c colors_arg = ColorDict "'c \<rightharpoonup> string" | ColorList "string list" | ColorNone

section \<open>Shared helpers (pandas and numpy)\<close>

text \<open>\<open>Series.unique()\<close>: the distinct values in order of first appearance.\<close>

definition unique :: "'a list \<Rightarrow> 'a list" where
  "unique xs = rev (remdups (rev xs))"

text \<open>\<open>np.linspace(start, stop, n)\<close> with the end point included.\<close>

definition linspace :: "real \<Rightarrow> real \<Rightarrow> nat \<Rightarrow> real list" where
  "linspace start stop n =
     map (\<lambda>k. if n = 1 then start else start + real k * ((stop - start) / real (n - 1))) [0..<n]"

text \<open>
  \<open>sort_values(by=[value_col, category_col], ascending=[asc, True])\<close>: a stable
  lexicographic sort; NaN values go last whatever the direction.
\<close>

definition value_key :: "bool \<Rightarrow> num \<Rightarrow> bool \<times> real" where
  "value_key asc v = (case v of NaN \<Rightarrow> (True, 0) | Num a \<Rightarrow> (False, if asc then a else - a))"

definition sort_values :: "bool \<Rightarrow> ('p, 'c::linorder) obs list \<Rightarrow> ('p, 'c) obs list" where
  "sort_values asc rs = sort_key (\<lambda>r. (value_key asc (row_val r), row_cat r)) rs"

text \<open>
  \<open>{cat: colors[i % len(colors)] for i, cat in enumerate(categories)}\<close>; the modulus
  raises on an empty colour list as soon as there is one category.
\<close>

definition cycle_colors :: "string list \<Rightarrow> 'c list \<Rightarrow> ('p, 'c) error + ('c \<rightharpoonup> string)" where
  "cycle_colors pal cats =
     (if cats \<noteq> [] \<and> pal = [] then Inl ZeroDivisionError
      else Inr (fold (\<lambda>(i, cat) m. m(cat \<mapsto> pal ! (i mod length pal)))
                  (enumerate 0 cats) Map.empty))"

section \<open>ribbon_engine.py\<close>

definition get_sigmoid_curve ::
  "real \<Rightarrow> real \<Rightarrow> real \<Rightarrow> real \<Rightarrow> nat \<Rightarrow> real list \<times> real list" where
  "get_sigmoid_curve x1 y1 x2 y2 n_points =
     (let x = linspace 0 1 n_points;
          y = map (\<lambda>t. 1 / (1 + exp (- 10 * (t - 0.5)))) x;
          curve_x = map (\<lambda>t. x1 + t * (x2 - x1)) x;
          curve_y = map (\<lambda>s. y1 + s * (y2 - y1)) y
      in (curve_x, curve_y))"

text \<open>Step 1 of \<open>create_ribbon_chart\<close>: the first required column that is absent.\<close>

definition missing_column :: "('p, 'c) frame \<Rightarrow> string list \<Rightarrow> string option" where
  "missing_column df required_cols = find (\<lambda>col. col \<notin> set (columns df)) required_cols"

text \<open>Step 2: colour setup; \<open>palette\<close> stands for plotly's \<open>px.colors.qualitative.G10\<close>.\<close>

definition color_setup ::
  "string list \<Rightarrow> 'c colors_arg \<Rightarrow> 'c list \<Rightarrow> ('p, 'c) error + ('c \<rightharpoonup> string)" where
  "color_setup palette colors categories =
     (case colors of
        ColorDict d \<Rightarrow> Inr d
      | ColorList l \<Rightarrow> cycle_colors l categories
      | ColorNone \<Rightarrow> cycle_colors palette categories)"

text \<open>
  Step 3, inner loop: the rows of one period, already sorted.  The state is
  \<open>current_y\<close>, \<open>coords[period]\<close> and the figure's traces.

  The trace constructors \<open>go.Bar\<close> and \<open>go.Scatter\<close> are records of the arguments they are
  given.  The checks plotly itself runs on these arguments (it raises \<open>ValueError\<close> on a
  colour string it does not know and on a negative width) are outside the model: a result
  \<open>Inr\<close> is the figure of a run in which plotly accepted every argument, and an error
  \<open>Inl\<close> is the one the code of this repository raises when plotly raised none before.
\<close>

fun stack_rows ::
  "real \<Rightarrow> real \<Rightarrow> ('c \<rightharpoonup> string) \<Rightarrow> bool \<Rightarrow> string option \<Rightarrow> nat \<Rightarrow> 'p \<Rightarrow>
   ('p, 'c) obs list \<Rightarrow> real \<times> ('c \<rightharpoonup> real \<times> real) \<times> ('p, 'c, real) trace list \<Rightarrow>
   ('p, 'c) error + (('c \<rightharpoonup> real \<times> real) \<times> ('p, 'c, real) trace list)" where
  "stack_rows gap bar_width color_map show_legend hover_template p_idx period []
     (current_y, cp, tr) = Inr (cp, tr)"
| "stack_rows gap bar_width color_map show_legend hover_template p_idx period (row # rest)
     (current_y, cp, tr) =
     (let cat = row_cat row in
      case row_val row of
        NaN \<Rightarrow> stack_rows gap bar_width color_map show_legend hover_template p_idx period rest
                 (current_y, cp, tr)
      | Num v \<Rightarrow>
          if v \<le> 0 then
            stack_rows gap bar_width color_map show_legend hover_template p_idx period rest
              (current_y, cp, tr)
          else
            let y_start = current_y; y_end = current_y + v;
                h_temp = (case hover_template of
                            None \<Rightarrow> Default_hover cat period (Num v)
                          | Some s \<Rightarrow> if s = [] then Default_hover cat period (Num v)
                                       else Custom s)
            in case color_map cat of
                 None \<Rightarrow> Inl (KeyError (CategoryKey cat))
               | Some col \<Rightarrow>
                   stack_rows gap bar_width color_map show_legend hover_template p_idx period rest
                     (current_y + (v + gap), cp(cat \<mapsto> (y_start, y_end)),
                      tr @ [Bar \<lparr>b_x = period, b_y = v, b_base = y_start, b_name = cat,
                                 b_marker_color = col, b_width = bar_width,
                                 b_legendgroup = cat,
                                 b_showlegend = (p_idx = 0 \<and> show_legend),
                                 b_hovertemplate = h_temp\<rparr>]))"

text \<open>Step 3, outer loop over \<open>enumerate(periods)\<close>.\<close>

fun bar_loop ::
  "('p, 'c::linorder) obs list \<Rightarrow> real \<Rightarrow> real \<Rightarrow> ('c \<rightharpoonup> string) \<Rightarrow> bool \<Rightarrow> bool \<Rightarrow>
   string option \<Rightarrow> (nat \<times> 'p) list \<Rightarrow>
   ('p \<rightharpoonup> ('c \<rightharpoonup> real \<times> real)) \<times> ('p, 'c, real) trace list \<Rightarrow>
   ('p, 'c) error + (('p \<rightharpoonup> ('c \<rightharpoonup> real \<times> real)) \<times> ('p, 'c, real) trace list)" where
  "bar_loop df_rows gap bar_width color_map sort_ascending show_legend hover_template []
     (coords, tr) = Inr (coords, tr)"
| "bar_loop df_rows gap bar_width color_map sort_ascending show_legend hover_template
     ((p_idx, period) # rest) (coords, tr) =
     (let period_df = filter (\<lambda>r. row_x r = period) df_rows;
          period_df = sort_values sort_ascending period_df
      in case stack_rows gap bar_width color_map show_legend hover_template p_idx period
                period_df (0, Map.empty, tr) of
           Inl e \<Rightarrow> Inl e
         | Inr (cp, tr') \<Rightarrow>
             bar_loop df_rows gap bar_width color_map sort_ascending show_legend hover_template
               rest (coords(period \<mapsto> cp), tr'))"

text \<open>
  Step 4, the body of the inner loop: \<open>Inr None\<close> is \<open>continue\<close>, \<open>Inr (Some t)\<close> the
  trace that is added.
\<close>

definition ribbon ::
  "('p \<rightharpoonup> ('c \<rightharpoonup> real \<times> real)) \<Rightarrow> 'p list \<Rightarrow> ('c \<rightharpoonup> string) \<Rightarrow> real \<Rightarrow> nat \<Rightarrow> 'c \<Rightarrow>
   ('p, 'c) error + ('p, 'c, real) trace option" where
  "ribbon coords periods color_map bar_width i cat =
     (let p1 = periods ! i; p2 = periods ! (i + 1) in
      case coords p1 of
        None \<Rightarrow> Inl (KeyError (PeriodKey p1))
      | Some c1 \<Rightarrow>
         (case c1 cat of
            None \<Rightarrow> Inr None
          | Some (y1_b, y1_t) \<Rightarrow>
             (case coords p2 of
                None \<Rightarrow> Inl (KeyError (PeriodKey p2))
              | Some c2 \<Rightarrow>
                 (case c2 cat of
                    None \<Rightarrow> Inr None
                  | Some (y2_b, y2_t) \<Rightarrow>
                      let x1 = real i + bar_width / 2;
                          x2 = (real i + 1) - bar_width / 2;
                          cx = fst (get_sigmoid_curve x1 0 x2 1 30);
                          cy_t = snd (get_sigmoid_curve x1 y1_t x2 y2_t 30);
                          cy_b = snd (get_sigmoid_curve x1 y1_b x2 y2_b 30)
                      in case color_map cat of
                           None \<Rightarrow> Inl (KeyError (CategoryKey cat))
                         | Some col \<Rightarrow>
                             Inr (Some (Scatter \<lparr>s_x = cx @ rev cx, s_y = cy_t @ rev cy_b,
                                                 s_fillcolor = col, s_legendgroup = cat\<rparr>))))))"

fun ribbon_cats ::
  "('p \<rightharpoonup> ('c \<rightharpoonup> real \<times> real)) \<Rightarrow> 'p list \<Rightarrow> ('c \<rightharpoonup> string) \<Rightarrow> real \<Rightarrow> nat \<Rightarrow> 'c list \<Rightarrow>
   ('p, 'c, real) trace list \<Rightarrow> ('p, 'c) error + ('p, 'c, real) trace list" where
  "ribbon_cats coords periods color_map bar_width i [] tr = Inr tr"
| "ribbon_cats coords periods color_map bar_width i (cat # cats) tr =
     (case ribbon coords periods color_map bar_width i cat of
        Inl e \<Rightarrow> Inl e
      | Inr None \<Rightarrow> ribbon_cats coords periods color_map bar_width i cats tr
      | Inr (Some t) \<Rightarrow> ribbon_cats coords periods color_map bar_width i cats (tr @ [t]))"

fun ribbon_loop ::
  "('p \<rightharpoonup> ('c \<rightharpoonup> real \<times> real)) \<Rightarrow> 'p list \<Rightarrow> 'c list \<Rightarrow> ('c \<rightharpoonup> string) \<Rightarrow> real \<Rightarrow>
   nat list \<Rightarrow> ('p, 'c, real) trace list \<Rightarrow> ('p, 'c) error + ('p, 'c, real) trace list" where
  "ribbon_loop coords periods categories color_map bar_width [] tr = Inr tr"
| "ribbon_loop coords periods categories color_map bar_width (i # is) tr =
     (case ribbon_cats coords periods color_map bar_width i categories tr of
        Inl e \<Rightarrow> Inl e
      | Inr tr' \<Rightarrow> ribbon_loop coords periods categories color_map bar_width is tr')"

text \<open>
  \<open>create_ribbon_chart\<close> up to the end of step 4, returning the local \<open>coords\<close> together
  with the figure's traces.  Step 5 sets presentation attributes only (title, axis titles,
  colours, height) and adds no trace.
\<close>

definition engine_layout ::
  "string list \<Rightarrow> ('p::linorder, 'c::linorder) frame \<Rightarrow> string \<Rightarrow> string \<Rightarrow> string \<Rightarrow> real \<Rightarrow> real \<Rightarrow>
   'c colors_arg \<Rightarrow> bool \<Rightarrow> bool \<Rightarrow> string option \<Rightarrow>
   ('p, 'c) error + (('p \<rightharpoonup> ('c \<rightharpoonup> real \<times> real)) \<times> ('p, 'c, real) trace list)" where
  "engine_layout palette df x_col category_col value_col gap bar_width colors sort_ascending
     show_legend hover_template =
     (case missing_column df [x_col, category_col, value_col] of
        Some col \<Rightarrow> Inl (ValueError (''Missing required column: '' @ col))
      | None \<Rightarrow>
          let periods = sort (unique (map row_x (rows df)));
              categories = sort (unique (map row_cat (rows df)))
          in case color_setup palette colors categories of
               Inl e \<Rightarrow> Inl e
             | Inr color_map \<Rightarrow>
                 (case bar_loop (rows df) gap bar_width color_map sort_ascending show_legend
                         hover_template (enumerate 0 periods) (Map.empty, []) of
                    Inl e \<Rightarrow> Inl e
                  | Inr (coords, tr) \<Rightarrow>
                      (case ribbon_loop coords periods categories color_map bar_width
                              [0..<length periods - 1] tr of
                         Inl e \<Rightarrow> Inl e
                       | Inr tr' \<Rightarrow> Inr (coords, tr'))))"

definition create_ribbon_chart ::
  "string list \<Rightarrow> ('p::linorder, 'c::linorder) frame \<Rightarrow> string \<Rightarrow> string \<Rightarrow> string \<Rightarrow> real \<Rightarrow> real \<Rightarrow>
   'c colors_arg \<Rightarrow> bool \<Rightarrow> bool \<Rightarrow> string option \<Rightarrow>
   ('p, 'c) error + ('p, 'c, real) trace list" where
  "create_ribbon_chart palette df x_col category_col value_col gap bar_width colors
     sort_ascending show_legend hover_template =
     map_sum id snd
       (engine_layout palette df x_col category_col value_col gap bar_width colors
          sort_ascending show_legend hover_template)"

section \<open>employee_hours_chart.py\<close>

text \<open>
  The copy of \<open>get_sigmoid_curve\<close> in \<open>employee_hours_chart.py\<close> and in
  \<open>ribbon_chart.py\<close> has the same text as the one of \<open>ribbon_engine.py\<close>; these two
  scripts call it on values they have not filtered, so the y values may be NaN.
\<close>

definition get_sigmoid_curve_num ::
  "real \<Rightarrow> num \<Rightarrow> real \<Rightarrow> num \<Rightarrow> nat \<Rightarrow> real list \<times> num list" where
  "get_sigmoid_curve_num x1 y1 x2 y2 n_points =
     (let x = linspace 0 1 n_points;
          y = map (\<lambda>t. 1 / (1 + exp (- 10 * (t - 0.5)))) x;
          curve_x = map (\<lambda>t. x1 + t * (x2 - x1)) x;
          curve_y = map (\<lambda>s. nadd y1 (nmul (Num s) (nsub y2 y1))) y
      in (curve_x, curve_y))"

text \<open>
  \<open>sort_values(by=value_col, ascending=True)\<close>: one key, NaN last.  With a single key
  pandas sorts with its default \<open>quicksort\<close>, which is not stable: the order of rows with
  equal values is left to the sorting routine.  The model takes that order as a
  parameter: \<open>tie_rank rs r\<close> is the rank the routine gives row \<open>r\<close> of \<open>rs\<close> among the rows
  with its value.  Whatever \<open>tie_rank\<close> is, the result is a rearrangement of the rows in
  ascending order of value, and every such rearrangement is the result for some
  \<open>tie_rank\<close>; where no two rows have the same value \<open>tie_rank\<close> plays no part.
\<close>

definition sort_by_value ::
  "(('p, 'c) obs list \<Rightarrow> ('p, 'c) obs \<Rightarrow> nat) \<Rightarrow> ('p, 'c) obs list \<Rightarrow> ('p, 'c) obs list" where
  "sort_by_value tie_rank rs = sort_key (\<lambda>r. (value_key True (row_val r), tie_rank rs r)) rs"

text \<open>The inner loop of step 1: every row gets a coordinate entry and a bar.\<close>

fun hours_stack_rows ::
  "real \<Rightarrow> real \<Rightarrow> ('c \<rightharpoonup> string) \<Rightarrow> nat \<Rightarrow> 'p \<Rightarrow> ('p, 'c) obs list \<Rightarrow>
   num \<times> ('c \<rightharpoonup> num \<times> num) \<times> ('p, 'c, num) trace list \<Rightarrow>
   ('p, 'c) error + (('c \<rightharpoonup> num \<times> num) \<times> ('p, 'c, num) trace list)" where
  "hours_stack_rows gap bar_width colors period_idx period [] (current_y, cp, tr) = Inr (cp, tr)"
| "hours_stack_rows gap bar_width colors period_idx period (row # rest) (current_y, cp, tr) =
     (let cat = row_cat row; val = row_val row;
          y_start = current_y; y_end = nadd current_y val
      in case colors cat of
           None \<Rightarrow> Inl (KeyError (CategoryKey cat))
         | Some col \<Rightarrow>
             hours_stack_rows gap bar_width colors period_idx period rest
               (nadd current_y (nadd val (Num gap)), cp(cat \<mapsto> (y_start, y_end)),
                tr @ [Bar \<lparr>b_x = period, b_y = val, b_base = y_start, b_name = cat,
                           b_marker_color = col, b_width = bar_width, b_legendgroup = cat,
                           b_showlegend = (period_idx = 0),
                           b_hovertemplate = Hours_hover cat period val\<rparr>]))"

fun hours_bar_loop ::
  "(('p, 'c) obs list \<Rightarrow> ('p, 'c) obs \<Rightarrow> nat) \<Rightarrow> ('p, 'c) frame \<Rightarrow> string \<Rightarrow> real \<Rightarrow> real \<Rightarrow> ('c \<rightharpoonup> string) \<Rightarrow> (nat \<times> 'p) list \<Rightarrow>
   ('p \<rightharpoonup> ('c \<rightharpoonup> num \<times> num)) \<times> ('p, 'c, num) trace list \<Rightarrow>
   ('p, 'c) error + (('p \<rightharpoonup> ('c \<rightharpoonup> num \<times> num)) \<times> ('p, 'c, num) trace list)" where
  "hours_bar_loop tie_rank df value_col gap bar_width colors [] (coords, tr) = Inr (coords, tr)"
| "hours_bar_loop tie_rank df value_col gap bar_width colors ((period_idx, period) # rest) (coords, tr) =
     (if value_col \<notin> set (columns df) then Inl (KeyError (ColumnKey value_col))
      else
        let period_df = sort_by_value tie_rank (filter (\<lambda>r. row_x r = period) (rows df))
        in case hours_stack_rows gap bar_width colors period_idx period period_df
                  (Num 0, Map.empty, tr) of
             Inl e \<Rightarrow> Inl e
           | Inr (cp, tr') \<Rightarrow>
               hours_bar_loop tie_rank df value_col gap bar_width colors rest (coords(period \<mapsto> cp), tr'))"

text \<open>The body of the ribbon loop: \<open>Inr None\<close> is \<open>continue\<close>.\<close>

definition hours_ribbon ::
  "('p \<rightharpoonup> ('c \<rightharpoonup> num \<times> num)) \<Rightarrow> 'p list \<Rightarrow> ('c \<rightharpoonup> string) \<Rightarrow> real \<Rightarrow> nat \<Rightarrow> 'c \<Rightarrow>
   ('p, 'c) error + ('p, 'c, num) trace option" where
  "hours_ribbon coords periods colors bar_width i cat =
     (let p1 = periods ! i; p2 = periods ! (i + 1) in
      case coords p1 of
        None \<Rightarrow> Inl (KeyError (PeriodKey p1))
      | Some c1 \<Rightarrow>
         (case c1 cat of
            None \<Rightarrow> Inr None
          | Some (y1_b, y1_t) \<Rightarrow>
             (case coords p2 of
                None \<Rightarrow> Inl (KeyError (PeriodKey p2))
              | Some c2 \<Rightarrow>
                 (case c2 cat of
                    None \<Rightarrow> Inr None
                  | Some (y2_b, y2_t) \<Rightarrow>
                      let x1 = real i + bar_width / 2;
                          x2 = (real i + 1) - bar_width / 2;
                          cx = fst (get_sigmoid_curve_num x1 (Num 0) x2 (Num 1) 30);
                          cy_t = snd (get_sigmoid_curve_num x1 y1_t x2 y2_t 30);
                          cy_b = snd (get_sigmoid_curve_num x1 y1_b x2 y2_b 30)
                      in case colors cat of
                           None \<Rightarrow> Inl (KeyError (CategoryKey cat))
                         | Some col \<Rightarrow>
                             Inr (Some (Scatter \<lparr>s_x = cx @ rev cx, s_y = cy_t @ rev cy_b,
                                                 s_fillcolor = col, s_legendgroup = cat\<rparr>))))))"

fun hours_ribbon_cats ::
  "('p \<rightharpoonup> ('c \<rightharpoonup> num \<times> num)) \<Rightarrow> 'p list \<Rightarrow> ('c \<rightharpoonup> string) \<Rightarrow> real \<Rightarrow> nat \<Rightarrow> 'c list \<Rightarrow>
   ('p, 'c, num) trace list \<Rightarrow> ('p, 'c) error + ('p, 'c, num) trace list" where
  "hours_ribbon_cats coords periods colors bar_width i [] tr = Inr tr"
| "hours_ribbon_cats coords periods colors bar_width i (cat # cats) tr =
     (case hours_ribbon coords periods colors bar_width i cat of
        Inl e \<Rightarrow> Inl e
      | Inr None \<Rightarrow> hours_ribbon_cats coords periods colors bar_width i cats tr
      | Inr (Some t) \<Rightarrow> hours_ribbon_cats coords periods colors bar_width i cats (tr @ [t]))"

fun hours_ribbon_loop ::
  "('p \<rightharpoonup> ('c \<rightharpoonup> num \<times> num)) \<Rightarrow> 'p list \<Rightarrow> 'c list \<Rightarrow> ('c \<rightharpoonup> string) \<Rightarrow> real \<Rightarrow>
   nat list \<Rightarrow> ('p, 'c, num) trace list \<Rightarrow> ('p, 'c) error + ('p, 'c, num) trace list" where
  "hours_ribbon_loop coords periods categories colors bar_width [] tr = Inr tr"
| "hours_ribbon_loop coords periods categories colors bar_width (i # is) tr =
     (case hours_ribbon_cats coords periods colors bar_width i categories tr of
        Inl e \<Rightarrow> Inl e
      | Inr tr' \<Rightarrow> hours_ribbon_loop coords periods categories colors bar_width is tr')"

text \<open>
  \<open>create_ribbon_chart\<close> of \<open>employee_hours_chart.py\<close>, with its local \<open>coords\<close>;
  \<open>palette\<close> stands for plotly's \<open>px.colors.qualitative.Prism\<close> and \<open>tie_rank\<close> for the
  order in which the sort leaves equal values.  A column that is absent makes the frame
  lookup raise \<open>KeyError\<close>.
\<close>

definition hours_layout ::
  "(('p, 'c) obs list \<Rightarrow> ('p, 'c) obs \<Rightarrow> nat) \<Rightarrow> string list \<Rightarrow> ('p, 'c) frame \<Rightarrow> string \<Rightarrow> string \<Rightarrow> string \<Rightarrow> real \<Rightarrow>
   ('p, 'c) error + (('p \<rightharpoonup> ('c \<rightharpoonup> num \<times> num)) \<times> ('p, 'c, num) trace list)" where
  "hours_layout tie_rank palette df x_col category_col value_col gap =
     (if x_col \<notin> set (columns df) then Inl (KeyError (ColumnKey x_col))
      else if category_col \<notin> set (columns df) then Inl (KeyError (ColumnKey category_col))
      else
        let periods = unique (map row_x (rows df));
            categories = unique (map row_cat (rows df))
        in case cycle_colors palette categories of
             Inl e \<Rightarrow> Inl e
           | Inr colors \<Rightarrow>
               let bar_width = 0.4 in
               (case hours_bar_loop tie_rank df value_col gap bar_width colors (enumerate 0 periods)
                       (Map.empty, []) of
                  Inl e \<Rightarrow> Inl e
                | Inr (coords, tr) \<Rightarrow>
                    (case hours_ribbon_loop coords periods categories colors bar_width
                            [0..<length periods - 1] tr of
                       Inl e \<Rightarrow> Inl e
                     | Inr tr' \<Rightarrow> Inr (coords, tr'))))"

definition create_ribbon_chart_hours ::
  "(('p, 'c) obs list \<Rightarrow> ('p, 'c) obs \<Rightarrow> nat) \<Rightarrow> string list \<Rightarrow> ('p, 'c) frame \<Rightarrow> string \<Rightarrow> string \<Rightarrow> string \<Rightarrow> real \<Rightarrow>
   ('p, 'c) error + ('p, 'c, num) trace list" where
  "create_ribbon_chart_hours tie_rank palette df x_col category_col value_col gap =
     map_sum id snd (hours_layout tie_rank palette df x_col category_col value_col gap)"

section \<open>ribbon_chart.py\<close>

text \<open>
  \<open>df.set_index([x_col, category_col]).reindex(full_index, fill_value=0).reset_index()\<close>:
  one row for every (period, category) of the product, in product order, with value 0
  where the frame has no row.  pandas refuses to reindex duplicate labels.
\<close>

definition normalize ::
  "('p, 'c) obs list \<Rightarrow> 'p list \<Rightarrow> 'c list \<Rightarrow> ('p, 'c) error + ('p, 'c) obs list" where
  "normalize df_rows periods categories =
     (if \<not> distinct (map (\<lambda>r. (row_x r, row_cat r)) df_rows)
      then Inl (ValueError ''cannot handle a non-unique multi-index!'')
      else Inr (concat (map (\<lambda>p. map (\<lambda>c.
                  \<lparr>row_x = p, row_cat = c,
                   row_val = (case find (\<lambda>r. row_x r = p \<and> row_cat r = c) df_rows of
                                Some r \<Rightarrow> row_val r
                              | None \<Rightarrow> Num 0)\<rparr>) categories) periods)))"

text \<open>
  The inner loop of step 1.  The state is \<open>current_y\<close>, \<open>coords[period]\<close>,
  \<open>seen_categories\<close>, the figure's traces and \<open>traces_added\<close>.  \<open>current_y\<close> only ever
  grows by a positive value plus the gap, so it is a number; \<open>y_end\<close> may be NaN.
  A bar is drawn for a positive value only.
\<close>

fun chart_stack_rows ::
  "real \<Rightarrow> real \<Rightarrow> ('c \<rightharpoonup> string) \<Rightarrow> string \<Rightarrow> 'p \<Rightarrow> ('p, 'c) obs list \<Rightarrow>
   real \<times> ('c \<rightharpoonup> real \<times> num) \<times> 'c set \<times> ('p, 'c, num) trace list \<times> nat \<Rightarrow>
   ('p, 'c) error + (('c \<rightharpoonup> real \<times> num) \<times> 'c set \<times> ('p, 'c, num) trace list \<times> nat)" where
  "chart_stack_rows gap bar_width colors scenario_name period []
     (current_y, cp, seen_categories, tr, traces_added) =
     Inr (cp, seen_categories, tr, traces_added)"
| "chart_stack_rows gap bar_width colors scenario_name period (row # rest)
     (current_y, cp, seen_categories, tr, traces_added) =
     (let cat = row_cat row; val = row_val row;
          y_start = current_y; y_end = nadd (Num current_y) val;
          cp' = cp(cat \<mapsto> (y_start, y_end))
      in case val of
           NaN \<Rightarrow> chart_stack_rows gap bar_width colors scenario_name period rest
                    (current_y + 0, cp', seen_categories, tr, traces_added)
         | Num v \<Rightarrow>
             if 0 < v then
               let is_first = (cat \<notin> seen_categories) in
               case colors cat of
                 None \<Rightarrow> Inl (KeyError (CategoryKey cat))
               | Some col \<Rightarrow>
                   chart_stack_rows gap bar_width colors scenario_name period rest
                     (current_y + (v + gap), cp',
                      (if is_first then insert cat seen_categories else seen_categories),
                      tr @ [Bar \<lparr>b_x = period, b_y = val, b_base = Num y_start, b_name = cat,
                                 b_marker_color = col, b_width = bar_width,
                                 b_legendgroup = cat, b_showlegend = is_first,
                                 b_hovertemplate = Scenario_hover cat scenario_name period val\<rparr>],
                      traces_added + 1)
             else
               chart_stack_rows gap bar_width colors scenario_name period rest
                 (current_y + 0, cp', seen_categories, tr, traces_added))"

fun chart_bar_loop ::
  "string list \<Rightarrow> string \<Rightarrow> ('p, 'c::linorder) obs list \<Rightarrow> real \<Rightarrow> real \<Rightarrow> ('c \<rightharpoonup> string) \<Rightarrow>
   string \<Rightarrow> 'p list \<Rightarrow>
   ('p \<rightharpoonup> ('c \<rightharpoonup> real \<times> num)) \<times> 'c set \<times> ('p, 'c, num) trace list \<times> nat \<Rightarrow>
   ('p, 'c) error +
   (('p \<rightharpoonup> ('c \<rightharpoonup> real \<times> num)) \<times> 'c set \<times> ('p, 'c, num) trace list \<times> nat)" where
  "chart_bar_loop cols value_col df_norm gap bar_width colors scenario_name []
     (coords, seen_categories, tr, traces_added) =
     Inr (coords, seen_categories, tr, traces_added)"
| "chart_bar_loop cols value_col df_norm gap bar_width colors scenario_name (period # rest)
     (coords, seen_categories, tr, traces_added) =
     (if value_col \<notin> set cols then Inl (KeyError (ColumnKey value_col))
      else
        let period_df = sort_values True (filter (\<lambda>r. row_x r = period) df_norm)
        in case chart_stack_rows gap bar_width colors scenario_name period period_df
                  (0, Map.empty, seen_categories, tr, traces_added) of
             Inl e \<Rightarrow> Inl e
           | Inr (cp, seen', tr', n') \<Rightarrow>
               chart_bar_loop cols value_col df_norm gap bar_width colors scenario_name rest
                 (coords(period \<mapsto> cp), seen', tr', n'))"

text \<open>
  The body of the ribbon loop.  Periods are numbers here (the gallery's years): the
  horizontal span is computed from the period itself.
\<close>

definition chart_ribbon ::
  "(real \<rightharpoonup> ('c \<rightharpoonup> real \<times> num)) \<Rightarrow> real list \<Rightarrow> ('c \<rightharpoonup> string) \<Rightarrow> real \<Rightarrow> nat \<Rightarrow> 'c \<Rightarrow>
   (real, 'c) error + (real, 'c, num) trace option" where
  "chart_ribbon coords periods colors bar_width i cat =
     (let p1 = periods ! i; p2 = periods ! (i + 1) in
      case coords p1 of
        None \<Rightarrow> Inl (KeyError (PeriodKey p1))
      | Some c1 \<Rightarrow>
         (case c1 cat of
            None \<Rightarrow> Inl (KeyError (CategoryKey cat))
          | Some (y1_b, y1_t) \<Rightarrow>
             (case coords p2 of
                None \<Rightarrow> Inl (KeyError (PeriodKey p2))
              | Some c2 \<Rightarrow>
                 (case c2 cat of
                    None \<Rightarrow> Inl (KeyError (CategoryKey cat))
                  | Some (y2_b, y2_t) \<Rightarrow>
                      if neq0 (nsub y1_t (Num y1_b)) \<and> neq0 (nsub y2_t (Num y2_b)) then Inr None
                      else
                        let x1 = p1 + bar_width / 2;
                            x2 = p2 - bar_width / 2;
                            cx = fst (get_sigmoid_curve_num x1 (Num 0) x2 (Num 1) 30);
                            cy_t = snd (get_sigmoid_curve_num x1 y1_t x2 y2_t 30);
                            cy_b = snd (get_sigmoid_curve_num x1 (Num y1_b) x2 (Num y2_b) 30)
                        in case colors cat of
                             None \<Rightarrow> Inl (KeyError (CategoryKey cat))
                           | Some col \<Rightarrow>
                               Inr (Some (Scatter \<lparr>s_x = cx @ rev cx, s_y = cy_t @ rev cy_b,
                                                   s_fillcolor = col, s_legendgroup = cat\<rparr>))))))"

fun chart_ribbon_cats ::
  "(real \<rightharpoonup> ('c \<rightharpoonup> real \<times> num)) \<Rightarrow> real list \<Rightarrow> ('c \<rightharpoonup> string) \<Rightarrow> real \<Rightarrow> nat \<Rightarrow> 'c list \<Rightarrow>
   (real, 'c, num) trace list \<times> nat \<Rightarrow> (real, 'c) error + ((real, 'c, num) trace list \<times> nat)" where
  "chart_ribbon_cats coords periods colors bar_width i [] (tr, traces_added) =
     Inr (tr, traces_added)"
| "chart_ribbon_cats coords periods colors bar_width i (cat # cats) (tr, traces_added) =
     (case chart_ribbon coords periods colors bar_width i cat of
        Inl e \<Rightarrow> Inl e
      | Inr None \<Rightarrow> chart_ribbon_cats coords periods colors bar_width i cats (tr, traces_added)
      | Inr (Some t) \<Rightarrow>
          chart_ribbon_cats coords periods colors bar_width i cats (tr @ [t], traces_added + 1))"

fun chart_ribbon_loop ::
  "(real \<rightharpoonup> ('c \<rightharpoonup> real \<times> num)) \<Rightarrow> real list \<Rightarrow> 'c list \<Rightarrow> ('c \<rightharpoonup> string) \<Rightarrow> real \<Rightarrow>
   nat list \<Rightarrow> (real, 'c, num) trace list \<times> nat \<Rightarrow>
   (real, 'c) error + ((real, 'c, num) trace list \<times> nat)" where
  "chart_ribbon_loop coords periods categories colors bar_width [] (tr, traces_added) =
     Inr (tr, traces_added)"
| "chart_ribbon_loop coords periods categories colors bar_width (i # is) (tr, traces_added) =
     (case chart_ribbon_cats coords periods colors bar_width i categories (tr, traces_added) of
        Inl e \<Rightarrow> Inl e
      | Inr st \<Rightarrow> chart_ribbon_loop coords periods categories colors bar_width is st)"

text \<open>
  \<open>add_ribbon_scenario\<close> with its local \<open>coords\<close>: the figure's traces after the call
  and the returned \<open>traces_added\<close>.  \<open>palette\<close> stands for plotly's
  \<open>px.colors.qualitative.D3\<close>; the bar width is the script's constant 0.35.
\<close>

definition scenario_layout ::
  "string list \<Rightarrow> (real, 'c::linorder, num) trace list \<Rightarrow> (real, 'c) frame \<Rightarrow> string \<Rightarrow> string \<Rightarrow>
   string \<Rightarrow> string \<Rightarrow> real \<Rightarrow>
   (real, 'c) error +
   ((real \<rightharpoonup> ('c \<rightharpoonup> real \<times> num)) \<times> (real, 'c, num) trace list \<times> nat)" where
  "scenario_layout palette fig df x_col category_col value_col scenario_name gap =
     (case find (\<lambda>col. col \<notin> set (columns df)) [x_col, category_col] of
        Some col \<Rightarrow> Inl (KeyError (ColumnKey col))
      | None \<Rightarrow>
          let periods = sort (unique (map row_x (rows df)));
              categories = sort (unique (map row_cat (rows df)))
          in case normalize (rows df) periods categories of
               Inl e \<Rightarrow> Inl e
             | Inr df_norm \<Rightarrow>
                 (case cycle_colors palette categories of
                    Inl e \<Rightarrow> Inl e
                  | Inr colors \<Rightarrow>
                      let bar_width = 0.35 in
                      (case chart_bar_loop (columns df) value_col df_norm gap bar_width colors
                              scenario_name periods (Map.empty, {}, fig, 0) of
                         Inl e \<Rightarrow> Inl e
                       | Inr (coords, seen, tr, n) \<Rightarrow>
                           (case chart_ribbon_loop coords periods categories colors bar_width
                                   [0..<length periods - 1] (tr, n) of
                              Inl e \<Rightarrow> Inl e
                            | Inr (tr', n') \<Rightarrow> Inr (coords, tr', n')))))"

definition add_ribbon_scenario ::
  "string list \<Rightarrow> (real, 'c::linorder, num) trace list \<Rightarrow> (real, 'c) frame \<Rightarrow> string \<Rightarrow> string \<Rightarrow>
   string \<Rightarrow> string \<Rightarrow> real \<Rightarrow> (real, 'c) error + ((real, 'c, num) trace list \<times> nat)" where
  "add_ribbon_scenario palette fig df x_col category_col value_col scenario_name gap =
     map_sum id snd
       (scenario_layout palette fig df x_col category_col value_col scenario_name gap)"

section \<open>Derived notions used in the statements\<close>

text \<open>
  The rows the bar loop of \<open>ribbon_engine.py\<close> does not skip: the value is a number
  and positive (the negation of \<open>pd.isna(val) or val <= 0\<close>).
\<close>

definition kept :: "('p, 'c) obs \<Rightarrow> bool" where
  "kept r = ngt0 (row_val r)"

definition the_val :: "('p, 'c) obs \<Rightarrow> real" where
  "the_val r = (case row_val r of Num v \<Rightarrow> v | NaN \<Rightarrow> 0)"

text \<open>The running offset along a list of rows: each row with the \<open>y_start\<close> it gets.\<close>

fun stack_from :: "real \<Rightarrow> real \<Rightarrow> ('p, 'c) obs list \<Rightarrow> (('p, 'c) obs \<times> real) list" where
  "stack_from gap cy [] = []"
| "stack_from gap cy (r # rs) = (r, cy) # stack_from gap (cy + (the_val r + gap)) rs"

definition seg_of :: "('p, 'c) obs \<times> real \<Rightarrow> 'c \<times> real \<times> real" where
  "seg_of = (\<lambda>(r, ys). (row_cat r, (ys, ys + the_val r)))"

text \<open>The \<open>go.Bar\<close> trace added for a row stacked at offset \<open>ys\<close>.\<close>

definition mk_bar ::
  "real \<Rightarrow> ('c \<rightharpoonup> string) \<Rightarrow> bool \<Rightarrow> string option \<Rightarrow> nat \<Rightarrow> 'p \<Rightarrow> ('p, 'c) obs \<times> real \<Rightarrow>
   ('p, 'c, real) trace" where
  "mk_bar bar_width color_map show_legend hover_template p_idx period =
     (\<lambda>(r, ys). Bar \<lparr>b_x = period, b_y = the_val r, b_base = ys, b_name = row_cat r,
        b_marker_color = the (color_map (row_cat r)), b_width = bar_width,
        b_legendgroup = row_cat r, b_showlegend = (p_idx = 0 \<and> show_legend),
        b_hovertemplate = (case hover_template of
                            None \<Rightarrow> Default_hover (row_cat r) period (Num (the_val r))
                          | Some s \<Rightarrow> if s = [] then Default_hover (row_cat r) period (Num (the_val r))
                                       else Custom s)\<rparr>)"

text \<open>The rows of a period in stacking order, their offsets, and the resulting \<open>coords[period]\<close>.\<close>

definition period_rows :: "bool \<Rightarrow> ('p, 'c::linorder) obs list \<Rightarrow> 'p \<Rightarrow> ('p, 'c) obs list" where
  "period_rows asc df_rows p = filter kept (sort_values asc (filter (\<lambda>r. row_x r = p) df_rows))"

definition period_stack ::
  "real \<Rightarrow> bool \<Rightarrow> ('p, 'c::linorder) obs list \<Rightarrow> 'p \<Rightarrow> (('p, 'c) obs \<times> real) list" where
  "period_stack gap asc df_rows p = stack_from gap 0 (period_rows asc df_rows p)"

definition period_coords ::
  "real \<Rightarrow> bool \<Rightarrow> ('p, 'c::linorder) obs list \<Rightarrow> 'p \<Rightarrow> ('c \<rightharpoonup> real \<times> real)" where
  "period_coords gap asc df_rows p = map_of (rev (map seg_of (period_stack gap asc df_rows p)))"

definition engine_coords ::
  "real \<Rightarrow> bool \<Rightarrow> ('p, 'c::linorder) obs list \<Rightarrow> ('p \<rightharpoonup> ('c \<rightharpoonup> real \<times> real))" where
  "engine_coords gap asc df_rows =
     (\<lambda>p. if p \<in> row_x ` set df_rows then Some (period_coords gap asc df_rows p) else None)"

text \<open>The list of required fields absent from the frame, in the words of the specification.\<close>

definition missing_fields :: "('p, 'c) frame \<Rightarrow> string list \<Rightarrow> string list" where
  "missing_fields df required = filter (\<lambda>col. col \<notin> set (columns df)) required"

text \<open>
  The example scenario: periods P1, P2; values at P1 are A:30, B:10, at P2 are A:10, B:30.
\<close>

definition example_df :: "(string, string) frame" where
  "example_df = \<lparr>columns = [''Period'', ''Category'', ''Value''],
     rows = [\<lparr>row_x = ''P1'', row_cat = ''A'', row_val = Num 30\<rparr>,
             \<lparr>row_x = ''P1'', row_cat = ''B'', row_val = Num 10\<rparr>,
             \<lparr>row_x = ''P2'', row_cat = ''A'', row_val = Num 10\<rparr>,
             \<lparr>row_x = ''P2'', row_cat = ''B'', row_val = Num 30\<rparr>]\<rparr>"


definition hours_only_df :: "(string, string) frame" where
  "hours_only_df = \<lparr>columns = [''Hours''], rows = []\<rparr>"

definition sample_t :: "nat \<Rightarrow> nat \<Rightarrow> real" where
  "sample_t n k = (if n = 1 then 0 else real k / real (n - 1))"

definition logistic :: "real \<Rightarrow> real" where
  "logistic t = 1 / (1 + exp (- 10 * (t - 0.5)))"

definition boundary_curve :: "nat \<Rightarrow> real \<Rightarrow> real \<Rightarrow> real \<Rightarrow> real \<Rightarrow> (real \<times> real) list" where
  "boundary_curve n x_start x_end y1 y2 =
     map (\<lambda>k. (x_start + sample_t n k * (x_end - x_start),
               y1 + logistic (sample_t n k) * (y2 - y1))) [0..<n]"

definition ribbon_polygon ::
  "nat \<Rightarrow> real \<Rightarrow> real \<Rightarrow> real \<Rightarrow> real \<Rightarrow> real \<Rightarrow> real \<Rightarrow> (real \<times> real) list" where
  "ribbon_polygon n x_start x_end y1_t y2_t y1_b y2_b =
     boundary_curve n x_start x_end y1_t y2_t @ rev (boundary_curve n x_start x_end y1_b y2_b)"

definition engine_periods :: "('p::linorder, 'c) frame \<Rightarrow> 'p list" where
  "engine_periods df = sort (unique (map row_x (rows df)))"

definition engine_categories :: "('p, 'c::linorder) frame \<Rightarrow> 'c list" where
  "engine_categories df = sort (unique (map row_cat (rows df)))"

text \<open>
  The x coordinates of a boundary curve: \<open>n\<close> points uniformly spaced from \<open>x_start\<close> to
  \<open>x_end\<close>.
\<close>

definition span_xs :: "nat \<Rightarrow> real \<Rightarrow> real \<Rightarrow> real list" where
  "span_xs n x_start x_end = map (\<lambda>k. x_start + sample_t n k * (x_end - x_start)) [0..<n]"

text \<open>
  A ribbon polygon of category \<open>cat\<close> whose outline starts at \<open>x_start\<close> is among the traces.
  Within one figure the ribbons of a category differ in their \<open>x_start\<close>, so this names the
  ribbon of \<open>cat\<close> that leaves the period drawn at \<open>x_start - bar_width / 2\<close>.
\<close>

definition is_ribbon :: "'c \<Rightarrow> real \<Rightarrow> ('p, 'c, 'v) trace \<Rightarrow> bool" where
  "is_ribbon cat x_start t =
     (case t of Bar b \<Rightarrow> False
      | Scatter s \<Rightarrow> s_legendgroup s = cat \<and> s_x s \<noteq> [] \<and> hd (s_x s) = x_start)"

definition ribbon_drawn :: "('p, 'c, 'v) trace list \<Rightarrow> 'c \<Rightarrow> real \<Rightarrow> bool" where
  "ribbon_drawn tr cat x_start = list_ex (is_ribbon cat x_start) tr"

text \<open>
  The coordinate map holds a segment for category \<open>cat\<close> in period \<open>p\<close>: \<open>cat in coords[p]\<close>.
\<close>

definition has_segment :: "('p \<rightharpoonup> ('c \<rightharpoonup> 'a)) \<Rightarrow> 'p \<Rightarrow> 'c \<Rightarrow> bool" where
  "has_segment coords p cat = (case coords p of None \<Rightarrow> False | Some cp \<Rightarrow> cp cat \<noteq> None)"

text \<open>
  The segment of \<open>cat\<close> in period \<open>p\<close> has zero height, by the test of \<open>ribbon_chart.py\<close>:
  \<open>(y_t - y_b) == 0\<close>.
\<close>

definition zero_height :: "('p \<rightharpoonup> ('c \<rightharpoonup> real \<times> num)) \<Rightarrow> 'p \<Rightarrow> 'c \<Rightarrow> bool" where
  "zero_height coords p cat =
     (case coords p of None \<Rightarrow> False
      | Some cp \<Rightarrow> (case cp cat of None \<Rightarrow> False
                   | Some (y_b, y_t) \<Rightarrow> neq0 (nsub y_t (Num y_b))))"

definition example_coords :: "string \<rightharpoonup> (string \<rightharpoonup> real \<times> real)" where
  "example_coords = [''P1'' \<mapsto> [''B'' \<mapsto> (0, 10), ''A'' \<mapsto> (12, 42)],
                     ''P2'' \<mapsto> [''A'' \<mapsto> (0, 10), ''B'' \<mapsto> (12, 42)]]"

definition example_traces :: "(string, string, real) trace list" where
  "example_traces =
    [Bar \<lparr>b_x = ''P1'', b_y = 10, b_base = 0, b_name = ''B'', b_marker_color = ''blue'',
          b_width = 0.4, b_legendgroup = ''B'', b_showlegend = True,
          b_hovertemplate = Default_hover ''B'' ''P1'' (Num 10)\<rparr>,
     Bar \<lparr>b_x = ''P1'', b_y = 30, b_base = 12, b_name = ''A'', b_marker_color = ''red'',
          b_width = 0.4, b_legendgroup = ''A'', b_showlegend = True,
          b_hovertemplate = Default_hover ''A'' ''P1'' (Num 30)\<rparr>,
     Bar \<lparr>b_x = ''P2'', b_y = 10, b_base = 0, b_name = ''A'', b_marker_color = ''red'',
          b_width = 0.4, b_legendgroup = ''A'', b_showlegend = False,
          b_hovertemplate = Default_hover ''A'' ''P2'' (Num 10)\<rparr>,
     Bar \<lparr>b_x = ''P2'', b_y = 30, b_base = 12, b_name = ''B'', b_marker_color = ''blue'',
          b_width = 0.4, b_legendgroup = ''B'', b_showlegend = False,
          b_hovertemplate = Default_hover ''B'' ''P2'' (Num 30)\<rparr>,
     Scatter \<lparr>s_x = fst (get_sigmoid_curve 0.2 0 0.8 1 30) @ rev (fst (get_sigmoid_curve 0.2 0 0.8 1 30)),
              s_y = snd (get_sigmoid_curve 0.2 42 0.8 10 30) @ rev (snd (get_sigmoid_curve 0.2 12 0.8 0 30)),
              s_fillcolor = ''red'', s_legendgroup = ''A''\<rparr>,
     Scatter \<lparr>s_x = fst (get_sigmoid_curve 0.2 0 0.8 1 30) @ rev (fst (get_sigmoid_curve 0.2 0 0.8 1 30)),
              s_y = snd (get_sigmoid_curve 0.2 10 0.8 42 30) @ rev (snd (get_sigmoid_curve 0.2 0 0.8 12 30)),
              s_fillcolor = ''blue'', s_legendgroup = ''B''\<rparr>]"

definition isclose :: "real \<Rightarrow> real \<Rightarrow> bool" where
  "isclose a b = (\<bar>a - b\<bar> \<le> 1 / 10 ^ 8 + \<bar>b\<bar> / 10 ^ 5)"

definition example_ribbon_A :: "(string, real) scatter" where
  "example_ribbon_A =
     \<lparr>s_x = fst (get_sigmoid_curve 0.2 0 0.8 1 30) @ rev (fst (get_sigmoid_curve 0.2 0 0.8 1 30)),
      s_y = snd (get_sigmoid_curve 0.2 42 0.8 10 30) @ rev (snd (get_sigmoid_curve 0.2 12 0.8 0 30)),
      s_fillcolor = ''red'', s_legendgroup = ''A''\<rparr>"

definition example_ribbon_B :: "(string, real) scatter" where
  "example_ribbon_B =
     \<lparr>s_x = fst (get_sigmoid_curve 0.2 0 0.8 1 30) @ rev (fst (get_sigmoid_curve 0.2 0 0.8 1 30)),
      s_y = snd (get_sigmoid_curve 0.2 10 0.8 42 30) @ rev (snd (get_sigmoid_curve 0.2 0 0.8 12 30)),
      s_fillcolor = ''blue'', s_legendgroup = ''B''\<rparr>"

fun hours_stack_from :: "real \<Rightarrow> num \<Rightarrow> ('p, 'c) obs list \<Rightarrow> (('p, 'c) obs \<times> num) list" where
  "hours_stack_from gap cy [] = []"
| "hours_stack_from gap cy (r # rs) =
     (r, cy) # hours_stack_from gap (nadd cy (nadd (row_val r) (Num gap))) rs"

definition hours_seg_of :: "('p, 'c) obs \<times> num \<Rightarrow> 'c \<times> num \<times> num" where
  "hours_seg_of = (\<lambda>(r, ys). (row_cat r, (ys, nadd ys (row_val r))))"

definition hours_mk_bar ::
  "real \<Rightarrow> ('c \<rightharpoonup> string) \<Rightarrow> nat \<Rightarrow> 'p \<Rightarrow> ('p, 'c) obs \<times> num \<Rightarrow> ('p, 'c, num) trace" where
  "hours_mk_bar bar_width colors period_idx period =
     (\<lambda>(r, ys). Bar \<lparr>b_x = period, b_y = row_val r, b_base = ys, b_name = row_cat r,
        b_marker_color = the (colors (row_cat r)), b_width = bar_width,
        b_legendgroup = row_cat r, b_showlegend = (period_idx = 0),
        b_hovertemplate = Hours_hover (row_cat r) period (row_val r)\<rparr>)"

definition hours_period_stack ::
  "(('p, 'c) obs list \<Rightarrow> ('p, 'c) obs \<Rightarrow> nat) \<Rightarrow> real \<Rightarrow> ('p, 'c) obs list \<Rightarrow> 'p \<Rightarrow> (('p, 'c) obs \<times> num) list" where
  "hours_period_stack tie_rank gap df_rows p =
     hours_stack_from gap (Num 0) (sort_by_value tie_rank (filter (\<lambda>r. row_x r = p) df_rows))"

definition hours_period_coords ::
  "(('p, 'c) obs list \<Rightarrow> ('p, 'c) obs \<Rightarrow> nat) \<Rightarrow> real \<Rightarrow> ('p, 'c) obs list \<Rightarrow> 'p \<Rightarrow> ('c \<rightharpoonup> num \<times> num)" where
  "hours_period_coords tie_rank gap df_rows p = map_of (rev (map hours_seg_of (hours_period_stack tie_rank gap df_rows p)))"

definition hours_coords ::
  "(('p, 'c) obs list \<Rightarrow> ('p, 'c) obs \<Rightarrow> nat) \<Rightarrow> real \<Rightarrow> ('p, 'c) obs list \<Rightarrow> ('p \<rightharpoonup> ('c \<rightharpoonup> num \<times> num))" where
  "hours_coords tie_rank gap df_rows =
     (\<lambda>p. if p \<in> row_x ` set df_rows then Some (hours_period_coords tie_rank gap df_rows p) else None)"

definition hours_periods :: "('p, 'c) frame \<Rightarrow> 'p list" where
  "hours_periods df = unique (map row_x (rows df))"

definition hours_categories :: "('p, 'c) frame \<Rightarrow> 'c list" where
  "hours_categories df = unique (map row_cat (rows df))"

fun chart_offsets :: "real \<Rightarrow> real \<Rightarrow> ('p, 'c) obs list \<Rightarrow> (('p, 'c) obs \<times> real) list" where
  "chart_offsets gap cy [] = []"
| "chart_offsets gap cy (r # rs) =
     (r, cy) # chart_offsets gap (if kept r then cy + (the_val r + gap) else cy) rs"

definition chart_seg_of :: "('p, 'c) obs \<times> real \<Rightarrow> 'c \<times> real \<times> num" where
  "chart_seg_of = (\<lambda>(r, ys). (row_cat r, (ys, nadd (Num ys) (row_val r))))"

definition chart_period_rows :: "('p, 'c::linorder) obs list \<Rightarrow> 'p \<Rightarrow> ('p, 'c) obs list" where
  "chart_period_rows df_norm p = sort_values True (filter (\<lambda>r. row_x r = p) df_norm)"

definition chart_period_coords ::
  "real \<Rightarrow> ('p, 'c::linorder) obs list \<Rightarrow> 'p \<Rightarrow> ('c \<rightharpoonup> real \<times> num)" where
  "chart_period_coords gap df_norm p =
     map_of (rev (map chart_seg_of (chart_offsets gap 0 (chart_period_rows df_norm p))))"

definition chart_periods :: "('p::linorder, 'c) frame \<Rightarrow> 'p list" where
  "chart_periods df = sort (unique (map row_x (rows df)))"

definition chart_categories :: "('p, 'c::linorder) frame \<Rightarrow> 'c list" where
  "chart_categories df = sort (unique (map row_cat (rows df)))"

definition chart_norm :: "('p::linorder, 'c::linorder) frame \<Rightarrow> ('p, 'c) obs list" where
  "chart_norm df = concat (map (\<lambda>p. map (\<lambda>c.
                  \<lparr>row_x = p, row_cat = c,
                   row_val = (case find (\<lambda>r. row_x r = p \<and> row_cat r = c) (rows df) of
                                Some r \<Rightarrow> row_val r
                              | None \<Rightarrow> Num 0)\<rparr>) (chart_categories df)) (chart_periods df))"

definition chart_coords ::
  "real \<Rightarrow> ('p::linorder, 'c::linorder) frame \<Rightarrow> ('p \<rightharpoonup> ('c \<rightharpoonup> real \<times> num))" where
  "chart_coords gap df =
     (\<lambda>p. if p \<in> set (chart_periods df) then Some (chart_period_coords gap (chart_norm df) p)
          else None)"

definition spec_before :: "bool \<Rightarrow> ('p, 'c::linorder) obs \<Rightarrow> ('p, 'c) obs \<Rightarrow> bool" where
  "spec_before asc r r' =
     ((if asc then the_val r < the_val r' else the_val r' < the_val r) \<or>
      (the_val r = the_val r' \<and> row_cat r \<le> row_cat r'))"

text \<open>
  A frame for \<open>employee_hours_chart.py\<close>: two weeks, three employees, \<open>C\<close> with 0 hours in
  both weeks.  No two rows of a week have the same value.
\<close>

definition hours_df :: "(string, string) frame" where
  "hours_df = \<lparr>columns = [''Week'', ''Employee'', ''Hours''],
     rows = [\<lparr>row_x = ''W1'', row_cat = ''B'', row_val = Num 10\<rparr>,
             \<lparr>row_x = ''W1'', row_cat = ''A'', row_val = Num 20\<rparr>,
             \<lparr>row_x = ''W1'', row_cat = ''C'', row_val = Num 0\<rparr>,
             \<lparr>row_x = ''W2'', row_cat = ''B'', row_val = Num 15\<rparr>,
             \<lparr>row_x = ''W2'', row_cat = ''A'', row_val = Num 5\<rparr>,
             \<lparr>row_x = ''W2'', row_cat = ''C'', row_val = Num 0\<rparr>]\<rparr>"

text \<open>
  A frame for \<open>ribbon_chart.py\<close>: two years; \<open>B\<close> has no observation in 2020 and \<open>C\<close> has
  value 0 in both years.
\<close>

definition chart_df :: "(real, string) frame" where
  "chart_df = \<lparr>columns = [''Year'', ''Category'', ''Value''],
     rows = [\<lparr>row_x = 2020, row_cat = ''A'', row_val = Num 5\<rparr>,
             \<lparr>row_x = 2021, row_cat = ''A'', row_val = Num 7\<rparr>,
             \<lparr>row_x = 2021, row_cat = ''B'', row_val = Num 3\<rparr>,
             \<lparr>row_x = 2020, row_cat = ''C'', row_val = Num 0\<rparr>,
             \<lparr>row_x = 2021, row_cat = ''C'', row_val = Num 0\<rparr>]\<rparr>"

section \<open>The loops of ribbon_engine.py in closed form\<close>

lemma kept_cases: "kept r \<longleftrightarrow> (\<exists>v. row_val r = Num v \<and> 0 < v)"
  by (cases "row_val r") (auto simp: kept_def)

lemma stack_rows_char:
  "\<forall>r\<in>set rs. kept r \<longrightarrow> cm (row_cat r) \<noteq> None \<Longrightarrow>
   stack_rows gap bw cm sl ht i p rs (cy, cp, tr) =
     Inr (cp ++ map_of (rev (map seg_of (stack_from gap cy (filter kept rs)))),
          tr @ map (mk_bar bw cm sl ht i p) (stack_from gap cy (filter kept rs)))"
proof (induction rs arbitrary: cy cp tr)
  case Nil
  then show ?case by simp
next
  case (Cons r rs)
  show ?case
  proof (cases "kept r")
    case False
    then have "stack_rows gap bw cm sl ht i p (r # rs) (cy, cp, tr) =
               stack_rows gap bw cm sl ht i p rs (cy, cp, tr)"
      by (cases "row_val r") (auto simp: kept_def)
    with False Cons show ?thesis by simp
  next
    case True
    then obtain v where v: "row_val r = Num v" "0 < v" by (auto simp: kept_cases)
    from True Cons.prems obtain col where col: "cm (row_cat r) = Some col" by auto
    have tv: "the_val r = v" by (simp add: the_val_def v)
    have step: "stack_rows gap bw cm sl ht i p (r # rs) (cy, cp, tr) =
       stack_rows gap bw cm sl ht i p rs (cy + (v + gap), cp(row_cat r \<mapsto> (cy, cy + v)),
          tr @ [mk_bar bw cm sl ht i p (r, cy)])"
      using v col by (simp add: mk_bar_def tv Let_def split: option.split)
    have rest: "\<forall>r\<in>set rs. kept r \<longrightarrow> cm (row_cat r) \<noteq> None" using Cons.prems by simp
    have maps': "cp(row_cat r \<mapsto> (cy, cy + v)) ++ m = cp ++ ([row_cat r \<mapsto> (cy, cy + v)] ++ m)" for m
      by (rule ext) (simp add: map_add_def split: option.split)
    have flt: "filter kept (r # rs) = r # filter kept rs" using True by simp
    show ?thesis
      unfolding step Cons.IH[OF rest] flt maps'
      by (simp add: tv seg_of_def)
  qed
qed

lemma stack_rows_fail:
  "r \<in> set rs \<Longrightarrow> kept r \<Longrightarrow> cm (row_cat r) = None \<Longrightarrow>
   \<exists>c. cm c = None \<and> stack_rows gap bw cm sl ht i p rs (cy, cp, tr) = Inl (KeyError (CategoryKey c))"
proof (induction rs arbitrary: cy cp tr)
  case Nil
  then show ?case by simp
next
  case (Cons a rs)
  show ?case
  proof (cases "kept a")
    case False
    then have "stack_rows gap bw cm sl ht i p (a # rs) (cy, cp, tr) =
               stack_rows gap bw cm sl ht i p rs (cy, cp, tr)"
      by (cases "row_val a") (auto simp: kept_def)
    moreover have "r \<in> set rs" using False Cons.prems by auto
    ultimately show ?thesis using Cons.IH Cons.prems by simp
  next
    case True
    then obtain v where v: "row_val a = Num v" "0 < v" by (auto simp: kept_cases)
    show ?thesis
    proof (cases "cm (row_cat a)")
      case None
      then show ?thesis using v by (auto simp: Let_def)
    next
      case (Some col)
      then have "r \<in> set rs" using Cons.prems by auto
      from Cons.IH[OF this Cons.prems(2,3)] show ?thesis
        using v Some by (simp add: Let_def)
    qed
  qed
qed

lemma set_sort_values [simp]: "set (sort_values asc rs) = set rs"
  by (simp add: sort_values_def)

lemma bar_loop_char:
  "\<forall>r\<in>set df_rows. kept r \<and> row_x r \<in> snd ` set ps \<longrightarrow> cm (row_cat r) \<noteq> None \<Longrightarrow>
   bar_loop df_rows gap bw cm asc sl ht ps (coords, tr) =
     Inr (\<lambda>p. if p \<in> snd ` set ps then Some (period_coords gap asc df_rows p) else coords p,
          tr @ concat (map (\<lambda>(i, p). map (mk_bar bw cm sl ht i p) (period_stack gap asc df_rows p)) ps))"
proof (induction ps arbitrary: coords tr)
  case Nil
  then show ?case by simp
next
  case (Cons ip ps)
  obtain i p where ip: "ip = (i, p)" by (cases ip)
  have ok: "\<forall>r\<in>set (sort_values asc (filter (\<lambda>r. row_x r = p) df_rows)).
              kept r \<longrightarrow> cm (row_cat r) \<noteq> None"
    using Cons.prems by (auto simp: ip)
  have rest: "\<forall>r\<in>set df_rows. kept r \<and> row_x r \<in> snd ` set ps \<longrightarrow> cm (row_cat r) \<noteq> None"
    using Cons.prems by auto
  show ?case
    unfolding ip
    by (simp add: stack_rows_char[OF ok] Cons.IH[OF rest] period_coords_def period_stack_def
        period_rows_def fun_eq_iff)
qed

lemma bar_loop_fail:
  "r \<in> set df_rows \<Longrightarrow> kept r \<Longrightarrow> cm (row_cat r) = None \<Longrightarrow> row_x r \<in> snd ` set ps \<Longrightarrow>
   \<exists>c. cm c = None \<and> bar_loop df_rows gap bw cm asc sl ht ps (coords, tr) = Inl (KeyError (CategoryKey c))"
proof (induction ps arbitrary: coords tr)
  case Nil
  then show ?case by simp
next
  case (Cons ip ps)
  obtain i p where ip: "ip = (i, p)" by (cases ip)
  let ?rs = "sort_values asc (filter (\<lambda>r. row_x r = p) df_rows)"
  show ?case
  proof (cases "\<forall>a\<in>set ?rs. kept a \<longrightarrow> cm (row_cat a) \<noteq> None")
    case True
    then have "row_x r \<noteq> p" using Cons.prems by auto
    then have "row_x r \<in> snd ` set ps" using Cons.prems(4) by (auto simp: ip)
    from Cons.IH[OF Cons.prems(1,2,3) this] show ?thesis
      unfolding ip by (simp add: stack_rows_char[OF True])
  next
    case False
    then obtain a where a: "a \<in> set ?rs" "kept a" "cm (row_cat a) = None" by auto
    have "\<exists>c. cm c = None \<and> stack_rows gap bw cm sl ht i p ?rs (0, Map.empty, tr) = Inl (KeyError (CategoryKey c))"
      using a by (rule stack_rows_fail)
    then show ?thesis unfolding ip by auto
  qed
qed

lemma ribbon_cats_char:
  "\<forall>cat\<in>set cats. \<exists>ot. ribbon coords periods cm bw i cat = Inr ot \<Longrightarrow>
   ribbon_cats coords periods cm bw i cats tr =
     Inr (tr @ concat (map (\<lambda>cat. case ribbon coords periods cm bw i cat of
                                 Inr (Some t) \<Rightarrow> [t] | _ \<Rightarrow> []) cats))"
proof (induction cats arbitrary: tr)
  case Nil
  then show ?case by simp
next
  case (Cons c cats)
  then obtain ot where ot: "ribbon coords periods cm bw i c = Inr ot" by auto
  have rest: "\<forall>cat\<in>set cats. \<exists>ot. ribbon coords periods cm bw i cat = Inr ot"
    using Cons.prems by simp
  show ?case
    by (cases ot) (simp_all add: ot Cons.IH[OF rest])
qed

lemma ribbon_loop_char:
  "\<forall>i\<in>set idxs. \<forall>cat\<in>set cats. \<exists>ot. ribbon coords periods cm bw i cat = Inr ot \<Longrightarrow>
   ribbon_loop coords periods cats cm bw idxs tr =
     Inr (tr @ concat (map (\<lambda>i. concat (map (\<lambda>cat. case ribbon coords periods cm bw i cat of
                                 Inr (Some t) \<Rightarrow> [t] | _ \<Rightarrow> []) cats)) idxs))"
proof (induction idxs arbitrary: tr)
  case Nil
  then show ?case by simp
next
  case (Cons i idxs)
  have here: "\<forall>cat\<in>set cats. \<exists>ot. ribbon coords periods cm bw i cat = Inr ot"
    using Cons.prems by simp
  have rest: "\<forall>i\<in>set idxs. \<forall>cat\<in>set cats. \<exists>ot. ribbon coords periods cm bw i cat = Inr ot"
    using Cons.prems by simp
  show ?case
    by (simp add: ribbon_cats_char[OF here] Cons.IH[OF rest])
qed

lemma set_unique [simp]: "set (unique xs) = set xs"
  by (simp add: unique_def)

lemma distinct_unique [simp]: "distinct (unique xs)"
  by (simp add: unique_def)

lemma snd_enumerate [simp]: "snd ` set (enumerate n xs) = set xs"
  by (metis list.set_map map_snd_enumerate)

lemma stack_from_mem: "(r, y) \<in> set (stack_from gap cy rs) \<Longrightarrow> r \<in> set rs"
  by (induction rs arbitrary: cy) auto

lemma period_stack_mem:
  "(r, y) \<in> set (period_stack gap asc df_rows p) \<Longrightarrow> r \<in> set df_rows \<and> row_x r = p \<and> kept r"
  by (auto simp: period_stack_def period_rows_def dest!: stack_from_mem)

lemma period_coords_Some:
  assumes "period_coords gap asc df_rows p c = Some (ys, ye)"
  shows "\<exists>r\<in>set df_rows. row_x r = p \<and> row_cat r = c \<and> kept r \<and> ye = ys + the_val r"
proof -
  from assms have "(c, (ys, ye)) \<in> set (map seg_of (period_stack gap asc df_rows p))"
    unfolding period_coords_def by (auto dest: map_of_SomeD)
  then obtain r y where "(r, y) \<in> set (period_stack gap asc df_rows p)" "seg_of (r, y) = (c, (ys, ye))"
    by auto
  then show ?thesis by (auto simp: seg_of_def dest: period_stack_mem)
qed

lemma ribbon_engine_ok:
  assumes cols: "\<forall>r\<in>set df_rows. kept r \<longrightarrow> cm (row_cat r) \<noteq> None"
    and per: "set periods = row_x ` set df_rows" and i: "i + 1 < length periods"
  shows "\<exists>ot. ribbon (engine_coords gap asc df_rows) periods cm bw i cat = Inr ot"
proof -
  have p1: "periods ! i \<in> row_x ` set df_rows" and p2: "periods ! (i + 1) \<in> row_x ` set df_rows"
    using per i by (metis nth_mem add_lessD1)+
  have col: "cm cat \<noteq> None" if "period_coords gap asc df_rows p cat = Some (a, b)" for p a b
    using period_coords_Some[OF that] cols by auto
  show ?thesis
    using p1 p2 col unfolding ribbon_def engine_coords_def Let_def
    by (auto split: option.split simp del: One_nat_def)
qed

lemma engine_layout_char:
  fixes df :: "('p::linorder, 'c::linorder) frame"
  assumes mc: "missing_column df [x_col, category_col, value_col] = None"
    and cs: "(color_setup palette colors (sort (unique (map row_cat (rows df))))
                :: ('p, 'c) error + ('c \<rightharpoonup> string)) = Inr cm"
    and cols: "\<forall>r\<in>set (rows df). kept r \<longrightarrow> cm (row_cat r) \<noteq> None"
  shows "engine_layout palette df x_col category_col value_col gap bw colors asc sl ht =
     Inr (engine_coords gap asc (rows df),
          concat (map (\<lambda>(i, p). map (mk_bar bw cm sl ht i p) (period_stack gap asc (rows df) p))
                    (enumerate 0 (sort (unique (map row_x (rows df)))))) @
          concat (map (\<lambda>i. concat (map (\<lambda>cat.
                      case ribbon (engine_coords gap asc (rows df))
                             (sort (unique (map row_x (rows df)))) cm bw i cat of
                        Inr (Some t) \<Rightarrow> [t] | _ \<Rightarrow> [])
                      (sort (unique (map row_cat (rows df))))))
                    [0..<length (sort (unique (map row_x (rows df)))) - 1]))"
proof -
  let ?periods = "sort (unique (map row_x (rows df)))"
  have bl: "bar_loop (rows df) gap bw cm asc sl ht (enumerate 0 ?periods) (Map.empty, []) =
     Inr (engine_coords gap asc (rows df),
          concat (map (\<lambda>(i, p). map (mk_bar bw cm sl ht i p) (period_stack gap asc (rows df) p))
                    (enumerate 0 ?periods)))"
    using cols by (subst bar_loop_char) (auto simp: engine_coords_def fun_eq_iff)
  have rb: "\<forall>i\<in>set [0..<length ?periods - 1]. \<forall>cat\<in>set (sort (unique (map row_cat (rows df)))).
      \<exists>ot. ribbon (engine_coords gap asc (rows df)) ?periods cm bw i cat = Inr ot"
    using ribbon_engine_ok[OF cols, of ?periods] by auto
  show ?thesis
    unfolding engine_layout_def
    using ribbon_loop_char[OF rb] by (simp add: mc cs bl Let_def del: One_nat_def)
qed


lemma stack_rows_fail_cat:
  "r \<in> set rs \<Longrightarrow> kept r \<Longrightarrow> cm (row_cat r) = None \<Longrightarrow>
   \<exists>a\<in>set rs. kept a \<and> cm (row_cat a) = None \<and>
     stack_rows gap bw cm sl ht i p rs (cy, cp, tr) = Inl (KeyError (CategoryKey (row_cat a)))"
proof (induction rs arbitrary: cy cp tr)
  case Nil
  then show ?case by simp
next
  case (Cons a rs)
  show ?case
  proof (cases "kept a")
    case False
    then have "stack_rows gap bw cm sl ht i p (a # rs) (cy, cp, tr) =
               stack_rows gap bw cm sl ht i p rs (cy, cp, tr)"
      by (cases "row_val a") (auto simp: kept_def)
    moreover have "r \<in> set rs" using False Cons.prems by auto
    ultimately show ?thesis using Cons.IH[OF _ Cons.prems(2,3)] by auto
  next
    case True
    then obtain v where v: "row_val a = Num v" "0 < v" by (auto simp: kept_cases)
    show ?thesis
    proof (cases "cm (row_cat a)")
      case None
      then show ?thesis using v True by (auto simp: Let_def)
    next
      case (Some col)
      then have "r \<in> set rs" using Cons.prems by auto
      from Cons.IH[OF this Cons.prems(2,3)] show ?thesis
        using v Some by (auto simp: Let_def)
    qed
  qed
qed

lemma bar_loop_fail_cat:
  "r \<in> set df_rows \<Longrightarrow> kept r \<Longrightarrow> cm (row_cat r) = None \<Longrightarrow> row_x r \<in> snd ` set ps \<Longrightarrow>
   \<exists>a\<in>set df_rows. kept a \<and> cm (row_cat a) = None \<and>
     bar_loop df_rows gap bw cm asc sl ht ps (coords, tr) = Inl (KeyError (CategoryKey (row_cat a)))"
proof (induction ps arbitrary: coords tr)
  case Nil
  then show ?case by simp
next
  case (Cons ip ps)
  obtain i p where ip: "ip = (i, p)" by (cases ip)
  let ?rs = "sort_values asc (filter (\<lambda>r. row_x r = p) df_rows)"
  show ?case
  proof (cases "\<forall>a\<in>set ?rs. kept a \<longrightarrow> cm (row_cat a) \<noteq> None")
    case True
    then have "row_x r \<noteq> p" using Cons.prems by auto
    then have "row_x r \<in> snd ` set ps" using Cons.prems(4) by (auto simp: ip)
    from Cons.IH[OF Cons.prems(1,2,3) this] show ?thesis
      unfolding ip by (simp add: stack_rows_char[OF True])
  next
    case False
    then obtain a where a: "a \<in> set ?rs" "kept a" "cm (row_cat a) = None" by auto
    have "\<exists>a\<in>set ?rs. kept a \<and> cm (row_cat a) = None \<and>
        stack_rows gap bw cm sl ht i p ?rs (0, Map.empty, tr) = Inl (KeyError (CategoryKey (row_cat a)))"
      using a by (rule stack_rows_fail_cat)
    then show ?thesis unfolding ip by auto
  qed
qed

lemma create_ColorDict_cases:
  fixes df :: "('p::linorder, 'c::linorder) frame"
  shows "(\<exists>col. create_ribbon_chart palette df x_col category_col value_col gap bw (ColorDict d)
             asc sl ht = Inl (ValueError col)) \<or>
         ((\<forall>r\<in>set (rows df). kept r \<longrightarrow> d (row_cat r) \<noteq> None) \<and>
          (\<exists>tr. create_ribbon_chart palette df x_col category_col value_col gap bw (ColorDict d)
             asc sl ht = Inr tr)) \<or>
         (\<exists>a\<in>set (rows df). kept a \<and> d (row_cat a) = None \<and>
            create_ribbon_chart palette df x_col category_col value_col gap bw (ColorDict d)
             asc sl ht = Inl (KeyError (CategoryKey (row_cat a))))"
proof (cases "missing_column df [x_col, category_col, value_col]")
  case (Some col)
  then show ?thesis by (simp add: create_ribbon_chart_def engine_layout_def)
next
  case None
  have cs: "(color_setup palette (ColorDict d) (sort (unique (map row_cat (rows df))))
              :: ('p, 'c) error + ('c \<rightharpoonup> string)) = Inr d"
    by (simp add: color_setup_def)
  show ?thesis
  proof (cases "\<forall>r\<in>set (rows df). kept r \<longrightarrow> d (row_cat r) \<noteq> None")
    case True
    show ?thesis
      unfolding create_ribbon_chart_def engine_layout_char[OF None cs True] using True by simp
  next
    case False
    then obtain r where r: "r \<in> set (rows df)" "kept r" "d (row_cat r) = None" by auto
    have px: "row_x r \<in> snd ` set (enumerate 0 (sort (unique (map row_x (rows df)))))"
      using r(1) by simp
    have "\<exists>a\<in>set (rows df). kept a \<and> d (row_cat a) = None \<and>
       bar_loop (rows df) gap bw d asc sl ht
         (enumerate 0 (sort (unique (map row_x (rows df))))) (Map.empty, [])
         = Inl (KeyError (CategoryKey (row_cat a)))"
      using r px by (rule bar_loop_fail_cat)
    then show ?thesis
      using None by (auto simp: create_ribbon_chart_def engine_layout_def color_setup_def Let_def)
  qed
qed


lemma stack_from_rows [simp]: "map fst (stack_from gap cy rs) = rs"
  by (induction rs arbitrary: cy) auto

lemma length_stack_from [simp]: "length (stack_from gap cy rs) = length rs"
  by (induction rs arbitrary: cy) auto

lemma stack_from_keys: "map fst (map seg_of (stack_from gap cy rs)) = map row_cat rs"
  by (induction rs arbitrary: cy) (auto simp: seg_of_def)

lemma stack_from_nth_fst: "k < length rs \<Longrightarrow> fst (stack_from gap cy rs ! k) = rs ! k"
  by (metis stack_from_rows length_stack_from nth_map)

lemma stack_from_0: "rs \<noteq> [] \<Longrightarrow> snd (stack_from gap cy rs ! 0) = cy"
  by (cases rs) auto

lemma stack_from_Suc:
  "Suc k < length rs \<Longrightarrow>
   snd (stack_from gap cy rs ! Suc k) = snd (stack_from gap cy rs ! k) + the_val (rs ! k) + gap"
proof (induction rs arbitrary: cy k)
  case Nil
  then show ?case by simp
next
  case (Cons r rs)
  show ?case
  proof (cases k)
    case 0
    then show ?thesis using Cons.prems by (cases rs) auto
  next
    case (Suc j)
    then show ?thesis using Cons by simp
  qed
qed

lemma stack_from_ge:
  "\<forall>r\<in>set rs. 0 \<le> the_val r + gap \<Longrightarrow> k < length rs \<Longrightarrow> cy \<le> snd (stack_from gap cy rs ! k)"
proof (induction rs arbitrary: cy k)
  case Nil
  then show ?case by simp
next
  case (Cons r rs)
  show ?case
  proof (cases k)
    case 0
    then show ?thesis by simp
  next
    case (Suc j)
    have "cy + (the_val r + gap) \<le> snd (stack_from gap (cy + (the_val r + gap)) rs ! j)"
      using Cons.prems Suc by (intro Cons.IH) auto
    then show ?thesis using Cons.prems(1) Suc by simp
  qed
qed

lemma stack_from_less:
  "\<forall>r\<in>set rs. 0 < the_val r + gap \<Longrightarrow> k < l \<Longrightarrow> l < length rs \<Longrightarrow>
   snd (stack_from gap cy rs ! k) < snd (stack_from gap cy rs ! l)"
proof (induction rs arbitrary: cy k l)
  case Nil
  then show ?case by simp
next
  case (Cons r rs)
  obtain l' where l: "l = Suc l'" using Cons.prems(2) by (cases l) auto
  have pos: "\<forall>r\<in>set rs. 0 \<le> the_val r + gap" using Cons.prems(1) by (auto intro: less_imp_le)
  show ?case
  proof (cases k)
    case 0
    have "cy + (the_val r + gap) \<le> snd (stack_from gap (cy + (the_val r + gap)) rs ! l')"
      using Cons.prems(3) l by (intro stack_from_ge[OF pos]) simp
    then show ?thesis using 0 l Cons.prems(1) by simp
  next
    case (Suc k')
    then show ?thesis using Cons l by simp
  qed
qed

lemma stack_from_last:
  "rs \<noteq> [] \<Longrightarrow>
   snd (last (stack_from gap cy rs)) + the_val (last rs) =
     cy + sum_list (map the_val rs) + real (length rs - 1) * gap"
proof (induction rs arbitrary: cy)
  case Nil
  then show ?case by simp
next
  case (Cons r rs)
  show ?case
  proof (cases "rs = []")
    case True
    then show ?thesis by simp
  next
    case False
    then have "stack_from gap (cy + (the_val r + gap)) rs \<noteq> []" by (cases rs) auto
    with Cons.IH[OF False, of "cy + (the_val r + gap)"] False show ?thesis
      by (cases rs) (auto simp: algebra_simps)
  qed
qed

lemma map_of_rev_distinct:
  "distinct (map fst xs) \<Longrightarrow> k < length xs \<Longrightarrow> map_of (rev xs) (fst (xs ! k)) = Some (snd (xs ! k))"
proof -
  assume d: "distinct (map fst xs)" and k: "k < length xs"
  have "distinct (map fst (rev xs))" using d by (simp add: rev_map[symmetric])
  moreover have "(fst (xs ! k), snd (xs ! k)) \<in> set (rev xs)" using k by simp
  ultimately show ?thesis by (rule map_of_is_SomeI)
qed

lemma stacked_lookup:
  assumes "distinct (map row_cat rs)" and "k < length rs"
  shows "map_of (rev (map seg_of (stack_from gap cy rs))) (row_cat (rs ! k)) =
         Some (snd (stack_from gap cy rs ! k), snd (stack_from gap cy rs ! k) + the_val (rs ! k))"
proof -
  let ?xs = "map seg_of (stack_from gap cy rs)"
  have d: "distinct (map fst ?xs)" using assms(1) by (simp only: stack_from_keys)
  have k: "k < length ?xs" using assms(2) by simp
  have e: "?xs ! k = (row_cat (rs ! k),
             (snd (stack_from gap cy rs ! k), snd (stack_from gap cy rs ! k) + the_val (rs ! k)))"
    using assms(2) stack_from_nth_fst[OF assms(2), of gap cy]
    by (cases "stack_from gap cy rs ! k") (simp add: seg_of_def)
  from map_of_rev_distinct[OF d k] show ?thesis unfolding e by simp
qed


lemma linspace01: "linspace 0 1 n = map (sample_t n) [0..<n]"
  by (simp add: linspace_def sample_t_def)

lemma get_sigmoid_curve_fst:
  "fst (get_sigmoid_curve x1 y1 x2 y2 n) = map (\<lambda>k. x1 + sample_t n k * (x2 - x1)) [0..<n]"
  by (simp add: get_sigmoid_curve_def Let_def linspace01 o_def)

lemma get_sigmoid_curve_snd:
  "snd (get_sigmoid_curve x1 y1 x2 y2 n) = map (\<lambda>k. y1 + logistic (sample_t n k) * (y2 - y1)) [0..<n]"
  by (simp add: get_sigmoid_curve_def Let_def linspace01 o_def logistic_def)

lemma get_sigmoid_curve_zip:
  "zip (fst (get_sigmoid_curve x1 y1 x2 y2 n)) (snd (get_sigmoid_curve x1 y1 x2 y2 n)) =
   boundary_curve n x1 x2 y1 y2"
  by (simp add: get_sigmoid_curve_fst get_sigmoid_curve_snd boundary_curve_def zip_map_map
      zip_same_conv_map)

lemma get_sigmoid_curve_zip_x:
  "zip (fst (get_sigmoid_curve x1 y0 x2 y0' n)) (snd (get_sigmoid_curve x1 y1 x2 y2 n)) =
   boundary_curve n x1 x2 y1 y2"
  by (simp add: get_sigmoid_curve_fst get_sigmoid_curve_snd boundary_curve_def zip_map_map
      zip_same_conv_map)

lemma length_get_sigmoid_curve [simp]:
  "length (fst (get_sigmoid_curve x1 y1 x2 y2 n)) = n"
  "length (snd (get_sigmoid_curve x1 y1 x2 y2 n)) = n"
  by (simp_all add: get_sigmoid_curve_fst get_sigmoid_curve_snd)

lemma ribbon_SomeD:
  assumes "ribbon coords periods cm bw i cat = Inr (Some t)"
  shows "\<exists>c1 c2 y1_b y1_t y2_b y2_t col.
           coords (periods ! i) = Some c1 \<and> c1 cat = Some (y1_b, y1_t) \<and>
           coords (periods ! (i + 1)) = Some c2 \<and> c2 cat = Some (y2_b, y2_t) \<and>
           cm cat = Some col \<and>
           t = Scatter \<lparr>s_x = fst (get_sigmoid_curve (real i + bw / 2) 0 ((real i + 1) - bw / 2) 1 30) @
                          rev (fst (get_sigmoid_curve (real i + bw / 2) 0 ((real i + 1) - bw / 2) 1 30)),
                        s_y = snd (get_sigmoid_curve (real i + bw / 2) y1_t ((real i + 1) - bw / 2) y2_t 30) @
                          rev (snd (get_sigmoid_curve (real i + bw / 2) y1_b ((real i + 1) - bw / 2) y2_b 30)),
                        s_fillcolor = col, s_legendgroup = cat\<rparr>"
  using assms unfolding ribbon_def Let_def
  by (auto split: option.splits simp del: One_nat_def)

lemma ribbon_NoneD:
  assumes "ribbon coords periods cm bw i cat = Inr None"
  shows "\<exists>c1. coords (periods ! i) = Some c1 \<and>
           (c1 cat = None \<or> (\<exists>c2. coords (periods ! (i + 1)) = Some c2 \<and> c2 cat = None))"
  using assms unfolding ribbon_def Let_def
  by (auto split: option.splits simp del: One_nat_def)

lemma engine_layout_InrD:
  fixes df :: "('p::linorder, 'c::linorder) frame"
  assumes "engine_layout palette df x_col category_col value_col gap bw colors asc sl ht = Inr (coords, tr)"
  shows "\<exists>cm. missing_column df [x_col, category_col, value_col] = None \<and>
     (color_setup palette colors (sort (unique (map row_cat (rows df))))
        :: ('p, 'c) error + ('c \<rightharpoonup> string)) = Inr cm \<and>
     (\<forall>r\<in>set (rows df). kept r \<longrightarrow> cm (row_cat r) \<noteq> None)"
proof -
  from assms have mc: "missing_column df [x_col, category_col, value_col] = None"
    by (auto simp: engine_layout_def split: option.splits)
  from assms mc obtain cm where cs: "(color_setup palette colors (sort (unique (map row_cat (rows df))))
        :: ('p, 'c) error + ('c \<rightharpoonup> string)) = Inr cm"
    by (auto simp: engine_layout_def Let_def split: sum.splits)
  from assms mc cs obtain res where bl: "bar_loop (rows df) gap bw cm asc sl ht
       (enumerate 0 (sort (unique (map row_x (rows df))))) (Map.empty, []) = Inr res"
    by (auto simp: engine_layout_def Let_def split: sum.splits)
  have "cm (row_cat r) \<noteq> None" if r: "r \<in> set (rows df)" "kept r" for r
  proof
    assume n: "cm (row_cat r) = None"
    have px: "row_x r \<in> snd ` set (enumerate 0 (sort (unique (map row_x (rows df)))))"
      using r(1) by simp
    have "\<exists>c. cm c = None \<and> bar_loop (rows df) gap bw cm asc sl ht
       (enumerate 0 (sort (unique (map row_x (rows df))))) (Map.empty, []) = Inl (KeyError (CategoryKey c))"
      using r n px by (rule bar_loop_fail)
    with bl show False by auto
  qed
  with mc cs show ?thesis by blast
qed

lemma engine_layout_InrD2:
  fixes df :: "('p::linorder, 'c::linorder) frame"
  assumes "engine_layout palette df x_col category_col value_col gap bw colors asc sl ht = Inr (coords, tr)"
  shows "\<exists>cm. (\<forall>r\<in>set (rows df). kept r \<longrightarrow> cm (row_cat r) \<noteq> None) \<and>
     coords = engine_coords gap asc (rows df) \<and>
     tr = concat (map (\<lambda>(i, p). map (mk_bar bw cm sl ht i p) (period_stack gap asc (rows df) p))
                    (enumerate 0 (engine_periods df))) @
          concat (map (\<lambda>i. concat (map (\<lambda>cat.
                      case ribbon coords (engine_periods df) cm bw i cat of
                        Inr (Some t) \<Rightarrow> [t] | _ \<Rightarrow> [])
                      (engine_categories df)))
                    [0..<length (engine_periods df) - 1])"
proof -
  from engine_layout_InrD[OF assms] obtain cm where
    mc: "missing_column df [x_col, category_col, value_col] = None" and
    cs: "(color_setup palette colors (sort (unique (map row_cat (rows df))))
        :: ('p, 'c) error + ('c \<rightharpoonup> string)) = Inr cm" and
    cols: "\<forall>r\<in>set (rows df). kept r \<longrightarrow> cm (row_cat r) \<noteq> None"
    by blast
  from engine_layout_char[OF mc cs cols, of gap bw asc sl ht] assms cols
  show ?thesis unfolding engine_periods_def engine_categories_def by auto
qed

lemma mk_bar_is_Bar: "\<exists>b. mk_bar bw cm sl ht i p x = Bar b"
  by (cases x) (simp add: mk_bar_def)

lemma engine_scatter_mem:
  fixes df :: "('p::linorder, 'c::linorder) frame"
  assumes "engine_layout palette df x_col category_col value_col gap bw colors asc sl ht = Inr (coords, tr)"
    and "Scatter s \<in> set tr"
  shows "\<exists>cm i cat. i + 1 < length (engine_periods df) \<and> cat \<in> set (engine_categories df) \<and>
           ribbon coords (engine_periods df) cm bw i cat = Inr (Some (Scatter s))"
proof -
  from engine_layout_InrD2[OF assms(1)] obtain cm where
    tr: "tr = concat (map (\<lambda>(i, p). map (mk_bar bw cm sl ht i p) (period_stack gap asc (rows df) p))
                    (enumerate 0 (engine_periods df))) @
          concat (map (\<lambda>i. concat (map (\<lambda>cat.
                      case ribbon coords (engine_periods df) cm bw i cat of
                        Inr (Some t) \<Rightarrow> [t] | _ \<Rightarrow> [])
                      (engine_categories df)))
                    [0..<length (engine_periods df) - 1])" by blast
  have "Scatter s \<notin> set (concat (map (\<lambda>(i, p). map (mk_bar bw cm sl ht i p) (period_stack gap asc (rows df) p))
                    (enumerate 0 (engine_periods df))))"
    using mk_bar_is_Bar[of bw cm sl ht] by (auto, metis trace.distinct(1))
  with assms(2) tr have "Scatter s \<in> set (concat (map (\<lambda>i. concat (map (\<lambda>cat.
                      case ribbon coords (engine_periods df) cm bw i cat of
                        Inr (Some t) \<Rightarrow> [t] | _ \<Rightarrow> [])
                      (engine_categories df)))
                    [0..<length (engine_periods df) - 1]))" by auto
  then obtain i cat where "i < length (engine_periods df) - 1" "cat \<in> set (engine_categories df)"
     "Scatter s \<in> set (case ribbon coords (engine_periods df) cm bw i cat of
                        Inr (Some t) \<Rightarrow> [t] | _ \<Rightarrow> [])"
    by auto
  then show ?thesis
    by (intro exI[of _ cm] exI[of _ i] exI[of _ cat]) (auto split: sum.splits option.splits)
qed

lemma engine_ribbon_mem:
  fixes df :: "('p::linorder, 'c::linorder) frame"
  assumes "engine_layout palette df x_col category_col value_col gap bw colors asc sl ht = Inr (coords, tr)"
    and "i + 1 < length (engine_periods df)" and "cat \<in> set (engine_categories df)"
  shows "\<exists>cm. (\<forall>r\<in>set (rows df). kept r \<longrightarrow> cm (row_cat r) \<noteq> None) \<and>
      (\<forall>t. ribbon coords (engine_periods df) cm bw i cat = Inr (Some t) \<longrightarrow> t \<in> set tr)"
proof -
  from engine_layout_InrD2[OF assms(1)] obtain cm where
    cols: "\<forall>r\<in>set (rows df). kept r \<longrightarrow> cm (row_cat r) \<noteq> None" and
    tr: "tr = concat (map (\<lambda>(i, p). map (mk_bar bw cm sl ht i p) (period_stack gap asc (rows df) p))
                    (enumerate 0 (engine_periods df))) @
          concat (map (\<lambda>i. concat (map (\<lambda>cat.
                      case ribbon coords (engine_periods df) cm bw i cat of
                        Inr (Some t) \<Rightarrow> [t] | _ \<Rightarrow> [])
                      (engine_categories df)))
                    [0..<length (engine_periods df) - 1])" by blast
  have "t \<in> set tr" if "ribbon coords (engine_periods df) cm bw i cat = Inr (Some t)" for t
  proof -
    have "i \<in> set [0..<length (engine_periods df) - 1]" using assms(2) by auto
    then show ?thesis
      unfolding tr using assms(3) that
      by (auto intro!: bexI[of _ i] bexI[of _ cat])
  qed
  with cols show ?thesis by blast
qed

lemma example_layout:
  "engine_layout [] example_df ''Period'' ''Category'' ''Value'' 2 0.4
     (ColorList [''red'', ''blue'']) True True None = Inr (example_coords, example_traces)"
  by (simp add: engine_layout_def missing_column_def example_df_def color_setup_def
      cycle_colors_def unique_def sort_values_def value_key_def ribbon_def Let_def
      enumerate_eq_zip example_coords_def example_traces_def)

lemma exp5_upper: "exp (5::real) \<le> 243"
proof -
  have "exp (5::real) = exp 1 ^ 5" using exp_of_nat_mult[of 5 "1::real"] by simp
  also have "\<dots> \<le> 3 ^ 5" by (rule power_mono[OF exp_le]) simp
  finally show ?thesis by simp
qed

lemma exp5_lower: "100 < exp (5::real)"
proof -
  have "(1 + 5 / real 40) ^ 40 \<le> exp (5::real)"
    by (rule exp_ge_one_plus_x_over_n_power_n) simp_all
  moreover have "(100::real) < (1 + 5 / real 40) ^ 40" by (simp add: power_divide)
  ultimately show ?thesis by linarith
qed

lemma sample_t_0 [simp]: "sample_t n 0 = 0"
  by (simp add: sample_t_def)

lemma sample_t_last: "1 < n \<Longrightarrow> sample_t n (n - 1) = 1"
  by (simp add: sample_t_def)

lemma logistic_0: "logistic 0 = 1 / (1 + exp 5)"
  by (simp add: logistic_def)

lemma logistic_1: "logistic 1 = 1 - 1 / (1 + exp 5)"
proof -
  have e: "exp (- 5 :: real) = 1 / exp 5" by (simp add: exp_minus inverse_eq_divide)
  have p: "0 < exp (5::real)" by simp
  have "logistic 1 = 1 / (1 + exp (- 5))" by (simp add: logistic_def)
  also have "\<dots> = exp 5 / (exp 5 + 1)" unfolding e using p by (simp add: field_simps)
  also have "\<dots> = 1 - 1 / (1 + exp 5)"
  proof -
    have nz: "1 + exp (5::real) \<noteq> 0" using p by linarith
    have "1 - 1 / (1 + exp (5::real)) = (1 + exp 5) / (1 + exp 5) - 1 / (1 + exp 5)"
      using nz by simp
    also have "\<dots> = ((1 + exp 5) - 1) / (1 + exp 5)"
      by (rule diff_divide_distrib[symmetric])
    finally show ?thesis by (simp add: add.commute)
  qed
  finally show ?thesis .
qed

lemma boundary_curve_length [simp]: "length (boundary_curve n x1 x2 y1 y2) = n"
  by (simp add: boundary_curve_def)

lemma boundary_curve_hd:
  "0 < n \<Longrightarrow> hd (boundary_curve n x1 x2 y1 y2) = (x1, y1 + (y2 - y1) / (1 + exp 5))"
  by (simp add: boundary_curve_def hd_map logistic_0 upt_conv_Cons)

lemma boundary_curve_last:
  "1 < n \<Longrightarrow> last (boundary_curve n x1 x2 y1 y2) = (x2, y2 - (y2 - y1) / (1 + exp 5))"
proof -
  assume n: "1 < n"
  then have ne: "[0..<n] \<noteq> []" by simp
  have l: "last [0..<n] = n - 1" using n by (simp add: last_upt)
  have st: "sample_t n (n - 1) = 1" using n by (rule sample_t_last)
  show ?thesis
    unfolding boundary_curve_def last_map[OF ne] l st logistic_1
    by (simp add: algebra_simps diff_divide_distrib)
qed

lemma scatter_zip:
  "zip (fst (get_sigmoid_curve x1 a x2 b n) @ rev (fst (get_sigmoid_curve x1 a x2 b n)))
       (snd (get_sigmoid_curve x1 y1_t x2 y2_t n) @ rev (snd (get_sigmoid_curve x1 y1_b x2 y2_b n)))
   = ribbon_polygon n x1 x2 y1_t y2_t y1_b y2_b"
proof -
  have "zip (rev (fst (get_sigmoid_curve x1 a x2 b n))) (rev (snd (get_sigmoid_curve x1 y1_b x2 y2_b n)))
        = rev (zip (fst (get_sigmoid_curve x1 a x2 b n)) (snd (get_sigmoid_curve x1 y1_b x2 y2_b n)))"
    by (rule zip_rev) simp
  then show ?thesis
    by (simp add: ribbon_polygon_def get_sigmoid_curve_zip_x)
qed

lemma engine_scatter_polygon:
  fixes df :: "('p::linorder, 'c::linorder) frame"
  assumes "engine_layout palette df x_col category_col value_col gap bw colors asc sl ht = Inr (coords, tr)"
    and "Scatter s \<in> set tr"
  shows "\<exists>i cat c1 c2 y1_b y1_t y2_b y2_t.
      i + 1 < length (engine_periods df) \<and> cat \<in> set (engine_categories df) \<and>
      coords (engine_periods df ! i) = Some c1 \<and> c1 cat = Some (y1_b, y1_t) \<and>
      coords (engine_periods df ! (i + 1)) = Some c2 \<and> c2 cat = Some (y2_b, y2_t) \<and>
      s_legendgroup s = cat \<and> length (s_x s) = 60 \<and> length (s_y s) = 60 \<and>
      zip (s_x s) (s_y s) =
        ribbon_polygon 30 (real i + bw / 2) ((real i + 1) - bw / 2) y1_t y2_t y1_b y2_b"
proof -
  from engine_scatter_mem[OF assms] obtain cm i cat where
    i: "i + 1 < length (engine_periods df)" and cat: "cat \<in> set (engine_categories df)" and
    r: "ribbon coords (engine_periods df) cm bw i cat = Inr (Some (Scatter s))"
    by blast
  from ribbon_SomeD[OF r] obtain c1 c2 y1_b y1_t y2_b y2_t col where
    c: "coords (engine_periods df ! i) = Some c1" "c1 cat = Some (y1_b, y1_t)"
       "coords (engine_periods df ! (i + 1)) = Some c2" "c2 cat = Some (y2_b, y2_t)" and
    s: "s = \<lparr>s_x = fst (get_sigmoid_curve (real i + bw / 2) 0 ((real i + 1) - bw / 2) 1 30) @
                          rev (fst (get_sigmoid_curve (real i + bw / 2) 0 ((real i + 1) - bw / 2) 1 30)),
                        s_y = snd (get_sigmoid_curve (real i + bw / 2) y1_t ((real i + 1) - bw / 2) y2_t 30) @
                          rev (snd (get_sigmoid_curve (real i + bw / 2) y1_b ((real i + 1) - bw / 2) y2_b 30)),
                        s_fillcolor = col, s_legendgroup = cat\<rparr>"
    by auto
  have z: "zip (s_x s) (s_y s) =
        ribbon_polygon 30 (real i + bw / 2) ((real i + 1) - bw / 2) y1_t y2_t y1_b y2_b"
    unfolding s by (simp only: scatter.simps scatter_zip)
  have l: "length (s_x s) = 60" "length (s_y s) = 60" "s_legendgroup s = cat"
    unfolding s by simp_all
  from i cat c z l show ?thesis by blast
qed

lemma example_ribbons_mem:
  "Scatter example_ribbon_A \<in> set example_traces" "Scatter example_ribbon_B \<in> set example_traces"
  by (simp_all add: example_traces_def example_ribbon_A_def example_ribbon_B_def)

lemma ribbon_polygon_split:
  "ribbon_polygon n x1 x2 y1_t y2_t y1_b y2_b =
     boundary_curve n x1 x2 y1_t y2_t @ rev (boundary_curve n x1 x2 y1_b y2_b)"
  by (simp add: ribbon_polygon_def)


lemma fold_colors_dom:
  "dom (fold (\<lambda>(i, cat) m. m(cat \<mapsto> f i)) xs m) = dom m \<union> snd ` set xs"
  by (induction xs arbitrary: m) (auto split: prod.splits)

lemma cycle_colors_dom:
  assumes "cycle_colors pal cats = Inr cm"
  shows "dom cm = set cats"
proof -
  from assms have "cm = fold (\<lambda>(i, cat) m. m(cat \<mapsto> pal ! (i mod length pal))) (enumerate 0 cats) Map.empty"
    by (auto simp: cycle_colors_def split: if_splits)
  then have "dom cm = snd ` set (enumerate 0 cats)"
    using fold_colors_dom[of "\<lambda>i. pal ! (i mod length pal)" "enumerate 0 cats" Map.empty]
    by simp
  then show ?thesis by simp
qed

lemma set_sort_by_value [simp]: "set (sort_by_value tie rs) = set rs"
  by (simp add: sort_by_value_def)

lemma hours_stack_rows_char:
  "\<forall>r\<in>set rs. colors (row_cat r) \<noteq> None \<Longrightarrow>
   hours_stack_rows gap bw colors i p rs (cy, cp, tr) =
     Inr (cp ++ map_of (rev (map hours_seg_of (hours_stack_from gap cy rs))),
          tr @ map (hours_mk_bar bw colors i p) (hours_stack_from gap cy rs))"
proof (induction rs arbitrary: cy cp tr)
  case Nil
  then show ?case by simp
next
  case (Cons r rs)
  from Cons.prems obtain col where col: "colors (row_cat r) = Some col" by auto
  have rest: "\<forall>r\<in>set rs. colors (row_cat r) \<noteq> None" using Cons.prems by simp
  have step: "hours_stack_rows gap bw colors i p (r # rs) (cy, cp, tr) =
       hours_stack_rows gap bw colors i p rs
         (nadd cy (nadd (row_val r) (Num gap)), cp(row_cat r \<mapsto> (cy, nadd cy (row_val r))),
          tr @ [hours_mk_bar bw colors i p (r, cy)])"
    using col by (simp add: hours_mk_bar_def Let_def)
  have maps': "cp(row_cat r \<mapsto> v) ++ m = cp ++ ([row_cat r \<mapsto> v] ++ m)" for m v
    by (rule ext) (simp add: map_add_def split: option.split)
  show ?case
    unfolding step Cons.IH[OF rest] maps'
    by (simp add: hours_seg_of_def)
qed

lemma hours_bar_loop_char:
  "value_col \<in> set (columns df) \<Longrightarrow>
   \<forall>r\<in>set (rows df). colors (row_cat r) \<noteq> None \<Longrightarrow>
   hours_bar_loop tie df value_col gap bw colors ps (coords, tr) =
     Inr (\<lambda>p. if p \<in> snd ` set ps then Some (hours_period_coords tie gap (rows df) p) else coords p,
          tr @ concat (map (\<lambda>(i, p). map (hours_mk_bar bw colors i p)
                              (hours_period_stack tie gap (rows df) p)) ps))"
proof (induction ps arbitrary: coords tr)
  case Nil
  then show ?case by simp
next
  case (Cons ip ps)
  obtain i p where ip: "ip = (i, p)" by (cases ip)
  have ok: "\<forall>r\<in>set (sort_by_value tie (filter (\<lambda>r. row_x r = p) (rows df))). colors (row_cat r) \<noteq> None"
    using Cons.prems by auto
  show ?case
    unfolding ip
    by (simp add: Cons.prems(1) hours_stack_rows_char[OF ok] Cons.IH[OF Cons.prems]
        hours_period_coords_def hours_period_stack_def fun_eq_iff)
qed

lemma hours_ribbon_cats_char:
  "\<forall>cat\<in>set cats. \<exists>ot. hours_ribbon coords periods cm bw i cat = Inr ot \<Longrightarrow>
   hours_ribbon_cats coords periods cm bw i cats tr =
     Inr (tr @ concat (map (\<lambda>cat. case hours_ribbon coords periods cm bw i cat of
                                 Inr (Some t) \<Rightarrow> [t] | _ \<Rightarrow> []) cats))"
proof (induction cats arbitrary: tr)
  case Nil
  then show ?case by simp
next
  case (Cons c cats)
  then obtain ot where ot: "hours_ribbon coords periods cm bw i c = Inr ot" by auto
  have rest: "\<forall>cat\<in>set cats. \<exists>ot. hours_ribbon coords periods cm bw i cat = Inr ot"
    using Cons.prems by simp
  show ?case
    by (cases ot) (simp_all add: ot Cons.IH[OF rest])
qed

lemma hours_ribbon_loop_char:
  "\<forall>i\<in>set idxs. \<forall>cat\<in>set cats. \<exists>ot. hours_ribbon coords periods cm bw i cat = Inr ot \<Longrightarrow>
   hours_ribbon_loop coords periods cats cm bw idxs tr =
     Inr (tr @ concat (map (\<lambda>i. concat (map (\<lambda>cat. case hours_ribbon coords periods cm bw i cat of
                                 Inr (Some t) \<Rightarrow> [t] | _ \<Rightarrow> []) cats)) idxs))"
proof (induction idxs arbitrary: tr)
  case Nil
  then show ?case by simp
next
  case (Cons i idxs)
  have here: "\<forall>cat\<in>set cats. \<exists>ot. hours_ribbon coords periods cm bw i cat = Inr ot"
    using Cons.prems by simp
  have rest: "\<forall>i\<in>set idxs. \<forall>cat\<in>set cats. \<exists>ot. hours_ribbon coords periods cm bw i cat = Inr ot"
    using Cons.prems by simp
  show ?case
    by (simp add: hours_ribbon_cats_char[OF here] Cons.IH[OF rest])
qed

lemma hours_ribbon_ok:
  assumes cols: "\<forall>c\<in>set cats. cm c \<noteq> None" and cat: "cat \<in> set cats"
    and per: "set periods = row_x ` set df_rows" and i: "i + 1 < length periods"
  shows "\<exists>ot. hours_ribbon (hours_coords tie gap df_rows) periods cm bw i cat = Inr ot"
proof -
  have p1: "periods ! i \<in> row_x ` set df_rows" and p2: "periods ! (i + 1) \<in> row_x ` set df_rows"
    using per i by (metis nth_mem add_lessD1)+
  show ?thesis
    using p1 p2 cols cat unfolding hours_ribbon_def hours_coords_def Let_def
    by (auto split: option.split simp del: One_nat_def)
qed

lemma hours_layout_InrD:
  assumes "hours_layout tie palette df x_col category_col value_col gap = Inr (coords, tr)"
  shows "\<exists>cm. dom cm = set (hours_categories df) \<and>
     coords = hours_coords tie gap (rows df) \<and>
     tr = concat (map (\<lambda>(i, p). map (hours_mk_bar 0.4 cm i p) (hours_period_stack tie gap (rows df) p))
                    (enumerate 0 (hours_periods df))) @
          concat (map (\<lambda>i. concat (map (\<lambda>cat.
                      case hours_ribbon coords (hours_periods df) cm 0.4 i cat of
                        Inr (Some t) \<Rightarrow> [t] | _ \<Rightarrow> [])
                      (hours_categories df)))
                    [0..<length (hours_periods df) - 1])"
proof -
  define bw :: real where "bw = 0.4"
  from assms have xc: "x_col \<in> set (columns df)" "category_col \<in> set (columns df)"
    by (auto simp: hours_layout_def split: if_splits)
  from assms xc obtain cm where cs: "(cycle_colors palette (hours_categories df)
        :: ('a, 'b) error + ('b \<rightharpoonup> string)) = Inr cm"
    by (auto simp: hours_layout_def hours_categories_def Let_def split: sum.splits)
  have dom: "dom cm = set (hours_categories df)" using cs by (rule cycle_colors_dom)
  have cols: "\<forall>r\<in>set (rows df). cm (row_cat r) \<noteq> None"
    using dom by (auto simp: hours_categories_def)
  from assms xc cs have main:
    "(case hours_bar_loop tie df value_col gap bw cm (enumerate 0 (hours_periods df)) (Map.empty, []) of
        Inl e \<Rightarrow> Inl e
      | Inr (coords, tr) \<Rightarrow>
          (case hours_ribbon_loop coords (hours_periods df) (hours_categories df) cm bw
                  [0..<length (hours_periods df) - 1] tr of
             Inl e \<Rightarrow> Inl e
           | Inr tr' \<Rightarrow> Inr (coords, tr'))) = Inr (coords, tr)"
    unfolding bw_def by (simp add: hours_layout_def hours_categories_def hours_periods_def Let_def
        del: One_nat_def cong: sum.case_cong prod.case_cong)
  then obtain res where bl: "hours_bar_loop tie df value_col gap bw cm
       (enumerate 0 (hours_periods df)) (Map.empty, []) = Inr res"
    by (auto split: sum.splits)
  have bl': "hours_bar_loop tie df value_col gap bw cm (enumerate 0 (hours_periods df)) (Map.empty, []) =
     Inr (hours_coords tie gap (rows df),
          concat (map (\<lambda>(i, p). map (hours_mk_bar bw cm i p) (hours_period_stack tie gap (rows df) p))
                    (enumerate 0 (hours_periods df))))"
  proof (cases "value_col \<in> set (columns df)")
    case True
    show ?thesis
      by (subst hours_bar_loop_char[OF True cols])
         (auto simp: hours_coords_def hours_periods_def fun_eq_iff)
  next
    case False
    with bl have "hours_periods df = []"
      by (cases "hours_periods df") (auto simp: enumerate_simps)
    then have "rows df = []" by (simp add: hours_periods_def unique_def)
    then show ?thesis by (simp add: hours_periods_def unique_def hours_coords_def)
  qed
  have colc: "\<forall>c\<in>set (hours_categories df). cm c \<noteq> None" using dom by auto
  have rb: "\<forall>i\<in>set [0..<length (hours_periods df) - 1]. \<forall>cat\<in>set (hours_categories df).
      \<exists>ot. hours_ribbon (hours_coords tie gap (rows df)) (hours_periods df) cm bw i cat = Inr ot"
  proof (intro ballI)
    fix i cat assume i: "i \<in> set [0..<length (hours_periods df) - 1]"
      and cat: "cat \<in> set (hours_categories df)"
    have per: "set (hours_periods df) = row_x ` set (rows df)" by (simp add: hours_periods_def)
    have i': "i + 1 < length (hours_periods df)" using i by auto
    show "\<exists>ot. hours_ribbon (hours_coords tie gap (rows df)) (hours_periods df) cm bw i cat = Inr ot"
      using colc cat per i' by (rule hours_ribbon_ok)
  qed
  from main have "coords = hours_coords tie gap (rows df) \<and>
     tr = concat (map (\<lambda>(i, p). map (hours_mk_bar bw cm i p) (hours_period_stack tie gap (rows df) p))
                    (enumerate 0 (hours_periods df))) @
          concat (map (\<lambda>i. concat (map (\<lambda>cat.
                      case hours_ribbon coords (hours_periods df) cm bw i cat of
                        Inr (Some t) \<Rightarrow> [t] | _ \<Rightarrow> [])
                      (hours_categories df)))
                    [0..<length (hours_periods df) - 1])"
    unfolding bl' using hours_ribbon_loop_char[OF rb] by (auto simp del: One_nat_def)
  with dom show ?thesis unfolding bw_def by blast
qed


lemma chart_stack_rows_char:
  "\<forall>r\<in>set rs. kept r \<longrightarrow> colors (row_cat r) \<noteq> None \<Longrightarrow>
   \<exists>seen' bs.
     chart_stack_rows gap bw colors sn p rs (cy, cp, seen, tr, n) =
       Inr (cp ++ map_of (rev (map chart_seg_of (chart_offsets gap cy rs))), seen', tr @ bs,
            n + length bs) \<and>
     (\<forall>t\<in>set bs. \<exists>b. t = Bar b)"
proof (induction rs arbitrary: cy cp seen tr n)
  case Nil
  then show ?case by simp
next
  case (Cons r rs)
  have rest: "\<forall>r\<in>set rs. kept r \<longrightarrow> colors (row_cat r) \<noteq> None" using Cons.prems by simp
  have maps': "cp(row_cat r \<mapsto> v) ++ m = cp ++ ([row_cat r \<mapsto> v] ++ m)" for m v
    by (rule ext) (simp add: map_add_def split: option.split)
  show ?case
  proof (cases "kept r")
    case False
    then have step: "chart_stack_rows gap bw colors sn p (r # rs) (cy, cp, seen, tr, n) =
        chart_stack_rows gap bw colors sn p rs
          (cy, cp(row_cat r \<mapsto> (cy, nadd (Num cy) (row_val r))), seen, tr, n)"
      by (cases "row_val r") (auto simp: kept_def Let_def)
    from Cons.IH[OF rest, of cy "cp(row_cat r \<mapsto> (cy, nadd (Num cy) (row_val r)))" seen tr n]
    obtain seen' bs where
      r: "chart_stack_rows gap bw colors sn p rs
          (cy, cp(row_cat r \<mapsto> (cy, nadd (Num cy) (row_val r))), seen, tr, n) =
        Inr (cp(row_cat r \<mapsto> (cy, nadd (Num cy) (row_val r))) ++
               map_of (rev (map chart_seg_of (chart_offsets gap cy rs))),
             seen', tr @ bs, n + length bs)" and
      bs: "\<forall>t\<in>set bs. \<exists>b. t = Bar b"
      by blast
    have off: "chart_offsets gap cy (r # rs) = (r, cy) # chart_offsets gap cy rs"
      using False by simp
    show ?thesis
      apply (rule exI[of _ seen'], rule exI[of _ bs])
      unfolding step r maps' off using bs by (simp add: chart_seg_of_def)
  next
    case True
    then obtain v where v: "row_val r = Num v" "0 < v" by (auto simp: kept_cases)
    from True Cons.prems obtain col where col: "colors (row_cat r) = Some col" by auto
    have tv: "the_val r = v" by (simp add: the_val_def v)
    obtain b where step: "chart_stack_rows gap bw colors sn p (r # rs) (cy, cp, seen, tr, n) =
        chart_stack_rows gap bw colors sn p rs
          (cy + (v + gap), cp(row_cat r \<mapsto> (cy, nadd (Num cy) (row_val r))),
           (if row_cat r \<notin> seen then insert (row_cat r) seen else seen), tr @ [Bar b], n + 1)"
      using v col by (simp add: Let_def)
    from Cons.IH[OF rest, of "cy + (v + gap)" "cp(row_cat r \<mapsto> (cy, nadd (Num cy) (row_val r)))"
        "if row_cat r \<notin> seen then insert (row_cat r) seen else seen" "tr @ [Bar b]" "n + 1"]
    obtain seen' bs where
      r: "chart_stack_rows gap bw colors sn p rs
          (cy + (v + gap), cp(row_cat r \<mapsto> (cy, nadd (Num cy) (row_val r))),
           (if row_cat r \<notin> seen then insert (row_cat r) seen else seen), tr @ [Bar b], n + 1) =
        Inr (cp(row_cat r \<mapsto> (cy, nadd (Num cy) (row_val r))) ++
               map_of (rev (map chart_seg_of (chart_offsets gap (cy + (v + gap)) rs))),
             seen', (tr @ [Bar b]) @ bs, n + 1 + length bs)" and
      bs: "\<forall>t\<in>set bs. \<exists>b. t = Bar b"
      by blast
    have off: "chart_offsets gap cy (r # rs) = (r, cy) # chart_offsets gap (cy + (v + gap)) rs"
      using True by (simp add: tv)
    show ?thesis
      apply (rule exI[of _ seen'], rule exI[of _ "Bar b # bs"])
      unfolding step r maps' off using bs by (simp add: chart_seg_of_def)
  qed
qed

lemma chart_bar_loop_char:
  "value_col \<in> set cols \<Longrightarrow>
   \<forall>r\<in>set df_norm. kept r \<longrightarrow> colors (row_cat r) \<noteq> None \<Longrightarrow>
   \<exists>seen' bs.
     chart_bar_loop cols value_col df_norm gap bw colors sn ps (coords, seen, tr, n) =
       Inr (\<lambda>p. if p \<in> set ps then Some (chart_period_coords gap df_norm p) else coords p,
            seen', tr @ bs, n + length bs) \<and>
     (\<forall>t\<in>set bs. \<exists>b. t = Bar b)"
proof (induction ps arbitrary: coords seen tr n)
  case Nil
  then show ?case by simp
next
  case (Cons p ps)
  let ?rs = "sort_values True (filter (\<lambda>r. row_x r = p) df_norm)"
  have ok: "\<forall>r\<in>set ?rs. kept r \<longrightarrow> colors (row_cat r) \<noteq> None"
    using Cons.prems by auto
  from chart_stack_rows_char[OF ok, of gap bw sn p 0 Map.empty seen tr n]
  obtain seen1 bs1 where
    s1: "chart_stack_rows gap bw colors sn p ?rs (0, Map.empty, seen, tr, n) =
       Inr (map_of (rev (map chart_seg_of (chart_offsets gap 0 ?rs))), seen1, tr @ bs1,
            n + length bs1)" and
    b1: "\<forall>t\<in>set bs1. \<exists>b. t = Bar b"
    by auto
  from Cons.IH[OF Cons.prems, of "coords(p \<mapsto> map_of (rev (map chart_seg_of (chart_offsets gap 0 ?rs))))"
      seen1 "tr @ bs1" "n + length bs1"]
  obtain seen2 bs2 where
    s2: "chart_bar_loop cols value_col df_norm gap bw colors sn ps
        (coords(p \<mapsto> map_of (rev (map chart_seg_of (chart_offsets gap 0 ?rs)))), seen1,
         tr @ bs1, n + length bs1) =
       Inr (\<lambda>q. if q \<in> set ps then Some (chart_period_coords gap df_norm q)
                else (coords(p \<mapsto> map_of (rev (map chart_seg_of (chart_offsets gap 0 ?rs))))) q,
            seen2, (tr @ bs1) @ bs2, n + length bs1 + length bs2)" and
    b2: "\<forall>t\<in>set bs2. \<exists>b. t = Bar b"
    by blast
  show ?case
    apply (rule exI[of _ seen2], rule exI[of _ "bs1 @ bs2"])
    using b1 b2
    by (auto simp: Cons.prems(1) s1 s2 Let_def chart_period_coords_def chart_period_rows_def
        fun_eq_iff)
qed

lemma chart_ribbon_cats_char:
  "\<forall>cat\<in>set cats. \<exists>ot. chart_ribbon coords periods cm bw i cat = Inr ot \<Longrightarrow>
   chart_ribbon_cats coords periods cm bw i cats (tr, n) =
     Inr (tr @ concat (map (\<lambda>cat. case chart_ribbon coords periods cm bw i cat of
                                 Inr (Some t) \<Rightarrow> [t] | _ \<Rightarrow> []) cats),
          n + length (concat (map (\<lambda>cat. case chart_ribbon coords periods cm bw i cat of
                                 Inr (Some t) \<Rightarrow> [t] | _ \<Rightarrow> []) cats)))"
proof (induction cats arbitrary: tr n)
  case Nil
  then show ?case by simp
next
  case (Cons c cats)
  then obtain ot where ot: "chart_ribbon coords periods cm bw i c = Inr ot" by auto
  have rest: "\<forall>cat\<in>set cats. \<exists>ot. chart_ribbon coords periods cm bw i cat = Inr ot"
    using Cons.prems by simp
  show ?case
    by (cases ot) (simp_all add: ot Cons.IH[OF rest])
qed

lemma chart_ribbon_loop_char:
  "\<forall>i\<in>set idxs. \<forall>cat\<in>set cats. \<exists>ot. chart_ribbon coords periods cm bw i cat = Inr ot \<Longrightarrow>
   chart_ribbon_loop coords periods cats cm bw idxs (tr, n) =
     Inr (tr @ concat (map (\<lambda>i. concat (map (\<lambda>cat. case chart_ribbon coords periods cm bw i cat of
                                 Inr (Some t) \<Rightarrow> [t] | _ \<Rightarrow> []) cats)) idxs),
          n + length (concat (map (\<lambda>i. concat (map (\<lambda>cat.
                                 case chart_ribbon coords periods cm bw i cat of
                                 Inr (Some t) \<Rightarrow> [t] | _ \<Rightarrow> []) cats)) idxs)))"
proof (induction idxs arbitrary: tr n)
  case Nil
  then show ?case by simp
next
  case (Cons i idxs)
  have here: "\<forall>cat\<in>set cats. \<exists>ot. chart_ribbon coords periods cm bw i cat = Inr ot"
    using Cons.prems by simp
  have rest: "\<forall>i\<in>set idxs. \<forall>cat\<in>set cats. \<exists>ot. chart_ribbon coords periods cm bw i cat = Inr ot"
    using Cons.prems by simp
  show ?case
    by (simp add: chart_ribbon_cats_char[OF here] Cons.IH[OF rest])
qed

lemma normalize_InrD:
  "normalize (rows df) (chart_periods df) (chart_categories df) = Inr dn \<Longrightarrow>
   dn = chart_norm df \<and> distinct (map (\<lambda>r. (row_x r, row_cat r)) (rows df))"
  by (auto simp: normalize_def chart_norm_def split: if_splits)

lemma distinct_chart_periods [simp]: "distinct (chart_periods df)"
  by (simp add: chart_periods_def)

lemma distinct_chart_categories [simp]: "distinct (chart_categories df)"
  by (simp add: chart_categories_def)

lemma filter_concat_map_key:
  "distinct ps \<Longrightarrow> p \<in> set ps \<Longrightarrow> (\<And>q c. row_x (f q c) = q) \<Longrightarrow>
   filter (\<lambda>r. row_x r = p) (concat (map (\<lambda>q. map (f q) cs) ps)) = map (f p) cs"
proof (induction ps)
  case Nil
  then show ?case by simp
next
  case (Cons q ps)
  have none: "filter (\<lambda>r. row_x r = p) (concat (map (\<lambda>q. map (f q) cs) ps)) = []" if "p \<notin> set ps"
    using that Cons.prems(3) by (auto simp: filter_empty_conv)
  show ?case
  proof (cases "q = p")
    case True
    then have "p \<notin> set ps" using Cons.prems(1) by simp
    from none[OF this] show ?thesis using True Cons.prems(3) by (simp add: filter_id_conv)
  next
    case False
    then have "p \<in> set ps" using Cons.prems(2) by simp
    moreover have "filter (\<lambda>r. row_x r = p) (map (f q) cs) = []"
      using False Cons.prems(3) by (auto simp: filter_empty_conv)
    ultimately show ?thesis using Cons by simp
  qed
qed

lemma chart_norm_period:
  "p \<in> set (chart_periods df) \<Longrightarrow>
   filter (\<lambda>r. row_x r = p) (chart_norm df) =
     map (\<lambda>c. \<lparr>row_x = p, row_cat = c,
                row_val = (case find (\<lambda>r. row_x r = p \<and> row_cat r = c) (rows df) of
                             Some r \<Rightarrow> row_val r | None \<Rightarrow> Num 0)\<rparr>) (chart_categories df)"
  unfolding chart_norm_def
  by (rule filter_concat_map_key) simp_all

lemma chart_period_rows_cats:
  assumes "p \<in> set (chart_periods df)"
  shows "row_cat ` set (chart_period_rows (chart_norm df) p) = set (chart_categories df)"
    and "mset (map row_cat (chart_period_rows (chart_norm df) p)) = mset (chart_categories df)"
proof -
  have "mset (chart_period_rows (chart_norm df) p) =
        mset (filter (\<lambda>r. row_x r = p) (chart_norm df))"
    by (simp add: chart_period_rows_def sort_values_def)
  then have "mset (map row_cat (chart_period_rows (chart_norm df) p)) =
        mset (map row_cat (filter (\<lambda>r. row_x r = p) (chart_norm df)))"
    by (metis mset_map)
  also have "\<dots> = mset (chart_categories df)"
    by (simp add: chart_norm_period[OF assms] o_def)
  finally show m: "mset (map row_cat (chart_period_rows (chart_norm df) p)) = mset (chart_categories df)" .
  from m show "row_cat ` set (chart_period_rows (chart_norm df) p) = set (chart_categories df)"
    by (metis list.set_map mset_eq_setD)
qed

lemma chart_offsets_rows [simp]: "map fst (chart_offsets gap cy rs) = rs"
  by (induction rs arbitrary: cy) auto

lemma chart_segs_keys: "map fst (map chart_seg_of (chart_offsets gap cy rs)) = map row_cat rs"
  by (induction rs arbitrary: cy) (auto simp: chart_seg_of_def)

lemma chart_period_coords_dom:
  "dom (chart_period_coords gap dn p) = row_cat ` set (chart_period_rows dn p)"
proof -
  have "dom (chart_period_coords gap dn p) =
        fst ` set (map chart_seg_of (chart_offsets gap 0 (chart_period_rows dn p)))"
    by (simp add: chart_period_coords_def dom_map_of_conv_image_fst)
  also have "\<dots> = set (map fst (map chart_seg_of (chart_offsets gap 0 (chart_period_rows dn p))))"
    by (simp add: image_image)
  also have "\<dots> = row_cat ` set (chart_period_rows dn p)"
    unfolding chart_segs_keys by simp
  finally show ?thesis .
qed

lemma chart_ribbon_ok:
  assumes cols: "cm cat \<noteq> None" and cat: "cat \<in> set (chart_categories df)"
    and i: "i + 1 < length (chart_periods df)"
  shows "\<exists>ot. chart_ribbon (chart_coords gap df) (chart_periods df) cm bw i cat = Inr ot"
proof -
  have p1: "chart_periods df ! i \<in> set (chart_periods df)"
    and p2: "chart_periods df ! (i + 1) \<in> set (chart_periods df)"
    using i by (metis nth_mem add_lessD1)+
  have d: "cat \<in> dom (chart_period_coords gap (chart_norm df) p)" if "p \<in> set (chart_periods df)" for p
    using chart_period_rows_cats(1)[OF that] cat by (simp add: chart_period_coords_dom)
  from d[OF p1] d[OF p2] obtain a b a' b' where
    "chart_period_coords gap (chart_norm df) (chart_periods df ! i) cat = Some (a, b)"
    "chart_period_coords gap (chart_norm df) (chart_periods df ! (i + 1)) cat = Some (a', b')"
    by fastforce
  then show ?thesis
    using p1 p2 cols unfolding chart_ribbon_def chart_coords_def Let_def
    by (auto split: option.split simp del: One_nat_def)
qed

lemma scenario_layout_InrD:
  fixes df :: "(real, 'c::linorder) frame"
  assumes "scenario_layout palette fig df x_col category_col value_col sn gap = Inr (coords, tr, n)"
  shows "\<exists>cm bs. distinct (map (\<lambda>r. (row_x r, row_cat r)) (rows df)) \<and>
     dom cm = set (chart_categories df) \<and>
     coords = chart_coords gap df \<and> (\<forall>t\<in>set bs. \<exists>b. t = Bar b) \<and>
     tr = fig @ bs @
          concat (map (\<lambda>i. concat (map (\<lambda>cat.
                      case chart_ribbon coords (chart_periods df) cm 0.35 i cat of
                        Inr (Some t) \<Rightarrow> [t] | _ \<Rightarrow> [])
                      (chart_categories df)))
                    [0..<length (chart_periods df) - 1]) \<and>
     n = length tr - length fig"
proof -
  define bw :: real where "bw = 0.35"
  from assms obtain dn where nm: "normalize (rows df) (chart_periods df) (chart_categories df) = Inr dn"
    by (auto simp: scenario_layout_def chart_periods_def chart_categories_def Let_def
        split: option.splits sum.splits)
  from normalize_InrD[OF nm] have dn: "dn = chart_norm df"
    and dist: "distinct (map (\<lambda>r. (row_x r, row_cat r)) (rows df))" by auto
  from assms nm obtain cm where cs: "(cycle_colors palette (chart_categories df)
        :: (real, 'c) error + ('c \<rightharpoonup> string)) = Inr cm"
    by (auto simp: scenario_layout_def chart_periods_def chart_categories_def Let_def
        split: option.splits sum.splits)
  have dom: "dom cm = set (chart_categories df)" using cs by (rule cycle_colors_dom)
  from assms nm cs have main:
    "(case chart_bar_loop (columns df) value_col dn gap bw cm sn (chart_periods df)
             (Map.empty, {}, fig, 0) of
        Inl e \<Rightarrow> Inl e
      | Inr (coords, seen, tr, n) \<Rightarrow>
          (case chart_ribbon_loop coords (chart_periods df) (chart_categories df) cm bw
                  [0..<length (chart_periods df) - 1] (tr, n) of
             Inl e \<Rightarrow> Inl e
           | Inr (tr', n') \<Rightarrow> Inr (coords, tr', n'))) = Inr (coords, tr, n)"
    unfolding bw_def
    by (auto simp: scenario_layout_def chart_periods_def chart_categories_def Let_def
        simp del: One_nat_def split: option.splits cong: sum.case_cong prod.case_cong)
  then obtain res where bl: "chart_bar_loop (columns df) value_col dn gap bw cm sn (chart_periods df)
             (Map.empty, {}, fig, 0) = Inr res"
    by (auto split: sum.splits)
  have "\<exists>seen' bs. chart_bar_loop (columns df) value_col dn gap bw cm sn (chart_periods df)
             (Map.empty, {}, fig, 0) =
          Inr (chart_coords gap df, seen', fig @ bs, length bs) \<and> (\<forall>t\<in>set bs. \<exists>b. t = Bar b)"
  proof (cases "value_col \<in> set (columns df)")
    case True
    have cols: "\<forall>r\<in>set dn. kept r \<longrightarrow> cm (row_cat r) \<noteq> None"
      using dom unfolding dn chart_norm_def by fastforce
    from chart_bar_loop_char[OF True cols, of gap bw sn "chart_periods df" Map.empty "{}" fig 0]
    show ?thesis by (auto simp: chart_coords_def dn fun_eq_iff)
  next
    case False
    with bl have "chart_periods df = []"
      by (cases "chart_periods df") auto
    then show ?thesis by (simp add: chart_coords_def)
  qed
  then obtain seen' bs where
    bl': "chart_bar_loop (columns df) value_col dn gap bw cm sn (chart_periods df)
             (Map.empty, {}, fig, 0) = Inr (chart_coords gap df, seen', fig @ bs, length bs)" and
    bs: "\<forall>t\<in>set bs. \<exists>b. t = Bar b"
    by blast
  have rb: "\<forall>i\<in>set [0..<length (chart_periods df) - 1]. \<forall>cat\<in>set (chart_categories df).
      \<exists>ot. chart_ribbon (chart_coords gap df) (chart_periods df) cm bw i cat = Inr ot"
  proof (intro ballI)
    fix i cat assume i: "i \<in> set [0..<length (chart_periods df) - 1]"
      and cat: "cat \<in> set (chart_categories df)"
    have c: "cm cat \<noteq> None" using dom cat by auto
    have i': "i + 1 < length (chart_periods df)" using i by auto
    show "\<exists>ot. chart_ribbon (chart_coords gap df) (chart_periods df) cm bw i cat = Inr ot"
      using c cat i' by (rule chart_ribbon_ok)
  qed
  from main have "coords = chart_coords gap df \<and>
     tr = fig @ bs @
          concat (map (\<lambda>i. concat (map (\<lambda>cat.
                      case chart_ribbon coords (chart_periods df) cm bw i cat of
                        Inr (Some t) \<Rightarrow> [t] | _ \<Rightarrow> [])
                      (chart_categories df)))
                    [0..<length (chart_periods df) - 1]) \<and>
     n = length tr - length fig"
    unfolding bl' using chart_ribbon_loop_char[OF rb] by (auto simp del: One_nat_def)
  with dom dist bs show ?thesis unfolding bw_def by blast
qed


lemma length_chart_offsets [simp]: "length (chart_offsets gap cy rs) = length rs"
  by (induction rs arbitrary: cy) auto

lemma chart_offsets_nth_fst: "k < length rs \<Longrightarrow> fst (chart_offsets gap cy rs ! k) = rs ! k"
  by (metis chart_offsets_rows length_chart_offsets nth_map)

lemma chart_offsets_0: "rs \<noteq> [] \<Longrightarrow> snd (chart_offsets gap cy rs ! 0) = cy"
  by (cases rs) auto

lemma chart_offsets_Suc:
  "Suc k < length rs \<Longrightarrow>
   snd (chart_offsets gap cy rs ! Suc k) =
     snd (chart_offsets gap cy rs ! k) + (if kept (rs ! k) then the_val (rs ! k) + gap else 0)"
proof (induction rs arbitrary: cy k)
  case Nil
  then show ?case by simp
next
  case (Cons r rs)
  show ?case
  proof (cases k)
    case 0
    then show ?thesis using Cons.prems by (cases rs) auto
  next
    case (Suc j)
    then show ?thesis using Cons by simp
  qed
qed

lemma chart_offsets_ge:
  "0 \<le> gap \<Longrightarrow> k < length rs \<Longrightarrow> cy \<le> snd (chart_offsets gap cy rs ! k)"
proof (induction rs arbitrary: cy k)
  case Nil
  then show ?case by simp
next
  case (Cons r rs)
  show ?case
  proof (cases k)
    case 0
    then show ?thesis by simp
  next
    case (Suc j)
    have v: "kept r \<Longrightarrow> 0 < the_val r" by (auto simp: kept_cases the_val_def)
    have "(if kept r then cy + (the_val r + gap) else cy)
          \<le> snd (chart_offsets gap (if kept r then cy + (the_val r + gap) else cy) rs ! j)"
      using Cons.prems Suc by (intro Cons.IH) auto
    then show ?thesis using Cons.prems(1) Suc v by (auto split: if_splits)
  qed
qed

lemma chart_offsets_mono:
  "0 \<le> gap \<Longrightarrow> k \<le> l \<Longrightarrow> l < length rs \<Longrightarrow>
   snd (chart_offsets gap cy rs ! k) \<le> snd (chart_offsets gap cy rs ! l)"
proof (induction rs arbitrary: cy k l)
  case Nil
  then show ?case by simp
next
  case (Cons r rs)
  show ?case
  proof (cases k)
    case 0
    then show ?thesis using chart_offsets_ge[OF Cons.prems(1) Cons.prems(3), of cy] by simp
  next
    case (Suc k')
    then obtain l' where "l = Suc l'" using Cons.prems(2) by (cases l) auto
    then show ?thesis using Cons Suc by simp
  qed
qed

lemma chart_lookup:
  assumes "distinct (map row_cat rs)" and "k < length rs"
  shows "map_of (rev (map chart_seg_of (chart_offsets gap cy rs))) (row_cat (rs ! k)) =
         Some (snd (chart_offsets gap cy rs ! k),
               nadd (Num (snd (chart_offsets gap cy rs ! k))) (row_val (rs ! k)))"
proof -
  let ?xs = "map chart_seg_of (chart_offsets gap cy rs)"
  have d: "distinct (map fst ?xs)" using assms(1) by (simp only: chart_segs_keys)
  have k: "k < length ?xs" using assms(2) by simp
  have e: "?xs ! k = (row_cat (rs ! k),
             (snd (chart_offsets gap cy rs ! k),
              nadd (Num (snd (chart_offsets gap cy rs ! k))) (row_val (rs ! k))))"
    using assms(2) chart_offsets_nth_fst[OF assms(2), of gap cy]
    by (cases "chart_offsets gap cy rs ! k") (simp add: chart_seg_of_def)
  from map_of_rev_distinct[OF d k] show ?thesis unfolding e by simp
qed

lemma sort_values_sorted:
  "sorted (map (\<lambda>r. (value_key asc (row_val r), row_cat r)) (sort_values asc rs))"
  unfolding sort_values_def by (rule sorted_sort_key)

lemma mset_sort_values [simp]: "mset (sort_values asc rs) = mset rs"
  by (simp add: sort_values_def)

lemma period_rows_kept: "r \<in> set (period_rows asc df_rows p) \<Longrightarrow> kept r \<and> row_x r = p"
  by (auto simp: period_rows_def)

lemma period_rows_mset:
  "mset (period_rows asc df_rows p) = mset (filter (\<lambda>r. row_x r = p \<and> kept r) df_rows)"
  by (simp add: period_rows_def filter_filter_mset)

lemma key_le_kept:
  assumes "kept r" "kept r'"
    and "(value_key asc (row_val r), row_cat r) \<le> (value_key asc (row_val r'), row_cat r')"
  shows "spec_before asc r r'"
proof -
  from assms(1,2) obtain v v' where v: "row_val r = Num v" "row_val r' = Num v'"
    by (auto simp: kept_cases)
  then have tv: "the_val r = v" "the_val r' = v'" by (simp_all add: the_val_def)
  from assms(3) show ?thesis
    unfolding spec_before_def tv by (auto simp: v value_key_def split: if_splits)
qed

lemma period_rows_sorted:
  assumes "k < l" "l < length (period_rows asc df_rows p)"
  shows "spec_before asc (period_rows asc df_rows p ! k) (period_rows asc df_rows p ! l)"
proof -
  let ?f = "\<lambda>r. (value_key asc (row_val r), row_cat r)"
  let ?rs = "period_rows asc df_rows p"
  have "sorted (map ?f ?rs)"
    unfolding period_rows_def by (intro sorted_filter sort_values_sorted)
  then have "map ?f ?rs ! k \<le> map ?f ?rs ! l"
    using assms by (intro sorted_nth_mono) auto
  then have le: "?f (?rs ! k) \<le> ?f (?rs ! l)" using assms by simp
  have "kept (?rs ! k)" "kept (?rs ! l)"
    using assms period_rows_kept[of _ asc df_rows p] by (auto intro: nth_mem)
  then show ?thesis using le by (rule key_le_kept)
qed

section \<open>Which ribbons are drawn\<close>


lemma ribbons_mem:
  "t \<in> set (concat (map (\<lambda>i. concat (map (\<lambda>cat. case f i cat of
                                 Inr (Some t) \<Rightarrow> [t] | _ \<Rightarrow> []) cats)) [0..<n - 1])) \<longleftrightarrow>
   (\<exists>i cat. i + 1 < n \<and> cat \<in> set cats \<and> f i cat = Inr (Some t))"
proof
  assume "t \<in> set (concat (map (\<lambda>i. concat (map (\<lambda>cat. case f i cat of
                                 Inr (Some t) \<Rightarrow> [t] | _ \<Rightarrow> []) cats)) [0..<n - 1]))"
  then obtain i cat where i: "i < n - 1" and cat: "cat \<in> set cats"
    and t: "t \<in> set (case f i cat of Inr (Some t) \<Rightarrow> [t] | _ \<Rightarrow> [])"
    by auto
  from t have "f i cat = Inr (Some t)" by (auto split: sum.splits option.splits)
  with i cat show "\<exists>i cat. i + 1 < n \<and> cat \<in> set cats \<and> f i cat = Inr (Some t)"
    by (intro exI[of _ i] exI[of _ cat]) auto
next
  assume "\<exists>i cat. i + 1 < n \<and> cat \<in> set cats \<and> f i cat = Inr (Some t)"
  then obtain i cat where i: "i + 1 < n" and cat: "cat \<in> set cats"
    and t: "f i cat = Inr (Some t)" by blast
  have "i \<in> set [0..<n - 1]" using i by auto
  moreover have "t \<in> set (concat (map (\<lambda>cat. case f i cat of
                                 Inr (Some t) \<Rightarrow> [t] | _ \<Rightarrow> []) cats))"
    using cat t by (auto intro!: bexI[of _ cat])
  ultimately show "t \<in> set (concat (map (\<lambda>i. concat (map (\<lambda>cat. case f i cat of
                                 Inr (Some t) \<Rightarrow> [t] | _ \<Rightarrow> []) cats)) [0..<n - 1]))"
    by (auto intro!: bexI[of _ i])
qed

lemma engine_bars_mem:
  "t \<in> set (concat (map (\<lambda>(i, p). map (mk_bar bw cm sl ht i p) (period_stack gap asc rs p)) ips))
   \<Longrightarrow> \<exists>b. t = Bar b"
proof -
  assume "t \<in> set (concat (map (\<lambda>(i, p). map (mk_bar bw cm sl ht i p) (period_stack gap asc rs p)) ips))"
  then obtain i p x where "t = mk_bar bw cm sl ht i p x" by auto
  then show ?thesis using mk_bar_is_Bar[of bw cm sl ht i p x] by simp
qed

lemma engine_scatter_iff:
  fixes df :: "('p::linorder, 'c::linorder) frame"
  assumes "engine_layout palette df x_col category_col value_col gap bw colors asc sl ht = Inr (coords, tr)"
  shows "\<exists>cm. (\<forall>r\<in>set (rows df). kept r \<longrightarrow> cm (row_cat r) \<noteq> None) \<and>
     coords = engine_coords gap asc (rows df) \<and>
     (\<forall>s. Scatter s \<in> set tr \<longleftrightarrow>
        (\<exists>i cat. i + 1 < length (engine_periods df) \<and> cat \<in> set (engine_categories df) \<and>
           ribbon coords (engine_periods df) cm bw i cat = Inr (Some (Scatter s))))"
proof -
  from engine_layout_InrD2[OF assms] obtain cm where
    cols: "\<forall>r\<in>set (rows df). kept r \<longrightarrow> cm (row_cat r) \<noteq> None" and
    co: "coords = engine_coords gap asc (rows df)" and
    tr: "tr = concat (map (\<lambda>(i, p). map (mk_bar bw cm sl ht i p) (period_stack gap asc (rows df) p))
                    (enumerate 0 (engine_periods df))) @
          concat (map (\<lambda>i. concat (map (\<lambda>cat.
                      case ribbon coords (engine_periods df) cm bw i cat of
                        Inr (Some t) \<Rightarrow> [t] | _ \<Rightarrow> [])
                      (engine_categories df)))
                    [0..<length (engine_periods df) - 1])" by blast
  have "Scatter s \<in> set tr \<longleftrightarrow>
        (\<exists>i cat. i + 1 < length (engine_periods df) \<and> cat \<in> set (engine_categories df) \<and>
           ribbon coords (engine_periods df) cm bw i cat = Inr (Some (Scatter s)))" for s
  proof -
    have "Scatter s \<notin> set (concat (map (\<lambda>(i, p). map (mk_bar bw cm sl ht i p)
             (period_stack gap asc (rows df) p)) (enumerate 0 (engine_periods df))))"
      using engine_bars_mem[of "Scatter s" bw cm sl ht gap asc "rows df" "enumerate 0 (engine_periods df)"]
      by blast
    then have "Scatter s \<in> set tr \<longleftrightarrow> Scatter s \<in> set (concat (map (\<lambda>i. concat (map (\<lambda>cat.
                      case ribbon coords (engine_periods df) cm bw i cat of
                        Inr (Some t) \<Rightarrow> [t] | _ \<Rightarrow> [])
                      (engine_categories df)))
                    [0..<length (engine_periods df) - 1]))"
      by (subst tr) (simp del: set_concat)
    then show ?thesis unfolding ribbons_mem .
  qed
  with cols co show ?thesis by blast
qed

lemma ribbon_drawn_iff:
  "ribbon_drawn tr cat x_start \<longleftrightarrow>
   (\<exists>s. Scatter s \<in> set tr \<and> s_legendgroup s = cat \<and> s_x s \<noteq> [] \<and> hd (s_x s) = x_start)"
proof
  assume "ribbon_drawn tr cat x_start"
  then obtain t where t: "t \<in> set tr" "is_ribbon cat x_start t"
    unfolding ribbon_drawn_def list_ex_iff by blast
  show "\<exists>s. Scatter s \<in> set tr \<and> s_legendgroup s = cat \<and> s_x s \<noteq> [] \<and> hd (s_x s) = x_start"
  proof (cases t)
    case (Bar b)
    with t(2) show ?thesis by (simp add: is_ribbon_def)
  next
    case (Scatter s)
    with t show ?thesis by (intro exI[of _ s]) (simp add: is_ribbon_def)
  qed
next
  assume "\<exists>s. Scatter s \<in> set tr \<and> s_legendgroup s = cat \<and> s_x s \<noteq> [] \<and> hd (s_x s) = x_start"
  then obtain s where s: "Scatter s \<in> set tr" "s_legendgroup s = cat" "s_x s \<noteq> []"
    "hd (s_x s) = x_start" by blast
  show "ribbon_drawn tr cat x_start"
    unfolding ribbon_drawn_def list_ex_iff
    by (rule bexI[OF _ s(1)]) (simp add: is_ribbon_def s)
qed

lemma get_sigmoid_curve_span: "fst (get_sigmoid_curve x1 y1 x2 y2 n) = span_xs n x1 x2"
  by (simp add: get_sigmoid_curve_fst span_xs_def)

lemma get_sigmoid_curve_num_span: "fst (get_sigmoid_curve_num x1 y1 x2 y2 n) = span_xs n x1 x2"
  by (simp add: get_sigmoid_curve_num_def Let_def linspace01 o_def span_xs_def)

lemma span_xs_hd: "0 < n \<Longrightarrow> hd (span_xs n a b @ zs) = a"
  by (cases n) (simp_all add: span_xs_def upt_conv_Cons del: upt_Suc)

lemma span_xs_ne: "0 < n \<Longrightarrow> span_xs n a b \<noteq> []"
  by (simp add: span_xs_def)

lemma span_xs_last: "1 < n \<Longrightarrow> last (span_xs n a b) = b"
  by (cases n) (simp_all add: span_xs_def sample_t_def)

lemma length_span_xs [simp]: "length (span_xs n a b) = n"
  by (simp add: span_xs_def)

lemma ribbon_SomeD_span:
  assumes "ribbon coords periods cm bw i cat = Inr (Some t)"
  shows "\<exists>c1 c2 y1_b y1_t y2_b y2_t col.
           coords (periods ! i) = Some c1 \<and> c1 cat = Some (y1_b, y1_t) \<and>
           coords (periods ! (i + 1)) = Some c2 \<and> c2 cat = Some (y2_b, y2_t) \<and>
           cm cat = Some col \<and>
           t = Scatter \<lparr>s_x = span_xs 30 (real i + bw / 2) ((real i + 1) - bw / 2) @
                          rev (span_xs 30 (real i + bw / 2) ((real i + 1) - bw / 2)),
                        s_y = snd (get_sigmoid_curve (real i + bw / 2) y1_t ((real i + 1) - bw / 2) y2_t 30) @
                          rev (snd (get_sigmoid_curve (real i + bw / 2) y1_b ((real i + 1) - bw / 2) y2_b 30)),
                        s_fillcolor = col, s_legendgroup = cat\<rparr>"
  using ribbon_SomeD[OF assms] unfolding get_sigmoid_curve_span .


lemma hours_ribbon_SomeD:
  assumes "hours_ribbon coords periods cm bw i cat = Inr (Some t)"
  shows "\<exists>c1 c2 y1_b y1_t y2_b y2_t col.
           coords (periods ! i) = Some c1 \<and> c1 cat = Some (y1_b, y1_t) \<and>
           coords (periods ! (i + 1)) = Some c2 \<and> c2 cat = Some (y2_b, y2_t) \<and>
           cm cat = Some col \<and>
           t = Scatter \<lparr>s_x = span_xs 30 (real i + bw / 2) ((real i + 1) - bw / 2) @
                          rev (span_xs 30 (real i + bw / 2) ((real i + 1) - bw / 2)),
                        s_y = snd (get_sigmoid_curve_num (real i + bw / 2) y1_t ((real i + 1) - bw / 2) y2_t 30) @
                          rev (snd (get_sigmoid_curve_num (real i + bw / 2) y1_b ((real i + 1) - bw / 2) y2_b 30)),
                        s_fillcolor = col, s_legendgroup = cat\<rparr>"
  using assms unfolding hours_ribbon_def Let_def get_sigmoid_curve_num_span
  by (auto split: option.splits simp del: One_nat_def)

lemma hours_ribbon_SomeI:
  assumes "coords (periods ! i) = Some c1" "c1 cat = Some (y1_b, y1_t)"
    "coords (periods ! (i + 1)) = Some c2" "c2 cat = Some (y2_b, y2_t)" "cm cat = Some col"
  shows "hours_ribbon coords periods cm bw i cat =
     Inr (Some (Scatter \<lparr>s_x = span_xs 30 (real i + bw / 2) ((real i + 1) - bw / 2) @
                          rev (span_xs 30 (real i + bw / 2) ((real i + 1) - bw / 2)),
                        s_y = snd (get_sigmoid_curve_num (real i + bw / 2) y1_t ((real i + 1) - bw / 2) y2_t 30) @
                          rev (snd (get_sigmoid_curve_num (real i + bw / 2) y1_b ((real i + 1) - bw / 2) y2_b 30)),
                        s_fillcolor = col, s_legendgroup = cat\<rparr>))"
  using assms unfolding hours_ribbon_def Let_def get_sigmoid_curve_num_span
  by (simp del: One_nat_def)

lemma chart_ribbon_SomeD:
  assumes "chart_ribbon coords periods cm bw i cat = Inr (Some t)"
  shows "\<exists>c1 c2 y1_b y1_t y2_b y2_t col.
           coords (periods ! i) = Some c1 \<and> c1 cat = Some (y1_b, y1_t) \<and>
           coords (periods ! (i + 1)) = Some c2 \<and> c2 cat = Some (y2_b, y2_t) \<and>
           \<not> (neq0 (nsub y1_t (Num y1_b)) \<and> neq0 (nsub y2_t (Num y2_b))) \<and>
           cm cat = Some col \<and>
           t = Scatter \<lparr>s_x = span_xs 30 (periods ! i + bw / 2) (periods ! (i + 1) - bw / 2) @
                          rev (span_xs 30 (periods ! i + bw / 2) (periods ! (i + 1) - bw / 2)),
                        s_y = snd (get_sigmoid_curve_num (periods ! i + bw / 2) y1_t
                                     (periods ! (i + 1) - bw / 2) y2_t 30) @
                          rev (snd (get_sigmoid_curve_num (periods ! i + bw / 2) (Num y1_b)
                                     (periods ! (i + 1) - bw / 2) (Num y2_b) 30)),
                        s_fillcolor = col, s_legendgroup = cat\<rparr>"
  using assms unfolding chart_ribbon_def Let_def get_sigmoid_curve_num_span
  by (auto split: option.splits if_splits simp del: One_nat_def)

lemma chart_ribbon_SomeI:
  assumes "coords (periods ! i) = Some c1" "c1 cat = Some (y1_b, y1_t)"
    "coords (periods ! (i + 1)) = Some c2" "c2 cat = Some (y2_b, y2_t)" "cm cat = Some col"
    "\<not> (neq0 (nsub y1_t (Num y1_b)) \<and> neq0 (nsub y2_t (Num y2_b)))"
  shows "chart_ribbon coords periods cm bw i cat =
     Inr (Some (Scatter \<lparr>s_x = span_xs 30 (periods ! i + bw / 2) (periods ! (i + 1) - bw / 2) @
                          rev (span_xs 30 (periods ! i + bw / 2) (periods ! (i + 1) - bw / 2)),
                        s_y = snd (get_sigmoid_curve_num (periods ! i + bw / 2) y1_t
                                     (periods ! (i + 1) - bw / 2) y2_t 30) @
                          rev (snd (get_sigmoid_curve_num (periods ! i + bw / 2) (Num y1_b)
                                     (periods ! (i + 1) - bw / 2) (Num y2_b) 30)),
                        s_fillcolor = col, s_legendgroup = cat\<rparr>))"
  using assms unfolding chart_ribbon_def Let_def get_sigmoid_curve_num_span
  by (simp del: One_nat_def)

lemma chart_ribbon_NoneI:
  assumes "coords (periods ! i) = Some c1" "c1 cat = Some (y1_b, y1_t)"
    "coords (periods ! (i + 1)) = Some c2" "c2 cat = Some (y2_b, y2_t)"
    "neq0 (nsub y1_t (Num y1_b)) \<and> neq0 (nsub y2_t (Num y2_b))"
  shows "chart_ribbon coords periods cm bw i cat = Inr None"
  using assms unfolding chart_ribbon_def Let_def
  by (simp del: One_nat_def)

lemma has_segment_iff:
  "has_segment coords p cat \<longleftrightarrow> (\<exists>cp v. coords p = Some cp \<and> cp cat = Some v)"
  by (auto simp: has_segment_def split: option.splits)



lemma hours_stack_from_keys:
  "map fst (map hours_seg_of (hours_stack_from gap cy rs)) = map row_cat rs"
  by (induction rs arbitrary: cy) (auto simp: hours_seg_of_def)

lemma hours_period_coords_dom:
  "dom (hours_period_coords tie gap rs p) = row_cat ` {r \<in> set rs. row_x r = p}"
proof -
  have "dom (hours_period_coords tie gap rs p) =
        fst ` set (map hours_seg_of (hours_period_stack tie gap rs p))"
    by (simp add: hours_period_coords_def dom_map_of_conv_image_fst)
  also have "\<dots> = set (map fst (map hours_seg_of
       (hours_stack_from gap (Num 0) (sort_by_value tie (filter (\<lambda>r. row_x r = p) rs)))))"
    by (simp add: image_image hours_period_stack_def)
  also have "\<dots> = row_cat ` {r \<in> set rs. row_x r = p}"
    unfolding hours_stack_from_keys by simp
  finally show ?thesis .
qed

lemma hours_has_segment_iff:
  "has_segment (hours_coords tie gap rs) p c \<longleftrightarrow> (\<exists>r\<in>set rs. row_x r = p \<and> row_cat r = c)"
proof -
  have "has_segment (hours_coords tie gap rs) p c \<longleftrightarrow>
        p \<in> row_x ` set rs \<and> c \<in> dom (hours_period_coords tie gap rs p)"
    by (auto simp: has_segment_def hours_coords_def)
  also have "\<dots> \<longleftrightarrow> (\<exists>r\<in>set rs. row_x r = p \<and> row_cat r = c)"
    unfolding hours_period_coords_dom by auto
  finally show ?thesis .
qed

lemma chart_has_segment_iff:
  "has_segment (chart_coords gap df) p c \<longleftrightarrow>
   p \<in> set (chart_periods df) \<and> c \<in> set (chart_categories df)"
proof (cases "p \<in> set (chart_periods df)")
  case True
  have "has_segment (chart_coords gap df) p c \<longleftrightarrow> c \<in> dom (chart_period_coords gap (chart_norm df) p)"
    using True by (auto simp: has_segment_def chart_coords_def)
  also have "\<dots> \<longleftrightarrow> c \<in> set (chart_categories df)"
    unfolding chart_period_coords_dom chart_period_rows_cats(1)[OF True] ..
  finally show ?thesis using True by simp
next
  case False
  then show ?thesis by (simp add: has_segment_def chart_coords_def)
qed

lemma hours_mk_bar_is_Bar: "\<exists>b. hours_mk_bar bw cm i p x = Bar b"
  by (cases x) (simp add: hours_mk_bar_def)

lemma hours_bars_mem:
  "t \<in> set (concat (map (\<lambda>(i, p). map (hours_mk_bar bw cm i p) (hours_period_stack tie gap rs p)) ips))
   \<Longrightarrow> \<exists>b. t = Bar b"
proof -
  assume "t \<in> set (concat (map (\<lambda>(i, p). map (hours_mk_bar bw cm i p) (hours_period_stack tie gap rs p)) ips))"
  then obtain i p x where "t = hours_mk_bar bw cm i p x" by auto
  then show ?thesis using hours_mk_bar_is_Bar[of bw cm i p x] by simp
qed

lemma hours_scatter_iff:
  assumes "hours_layout tie palette df x_col category_col value_col gap = Inr (coords, tr)"
  shows "\<exists>cm. dom cm = set (hours_categories df) \<and>
     coords = hours_coords tie gap (rows df) \<and>
     (\<forall>s. Scatter s \<in> set tr \<longleftrightarrow>
        (\<exists>i cat. i + 1 < length (hours_periods df) \<and> cat \<in> set (hours_categories df) \<and>
           hours_ribbon coords (hours_periods df) cm 0.4 i cat = Inr (Some (Scatter s))))"
proof -
  from hours_layout_InrD[OF assms] obtain cm where
    dom: "dom cm = set (hours_categories df)" and
    co: "coords = hours_coords tie gap (rows df)" and
    tr: "tr = concat (map (\<lambda>(i, p). map (hours_mk_bar 0.4 cm i p) (hours_period_stack tie gap (rows df) p))
                    (enumerate 0 (hours_periods df))) @
          concat (map (\<lambda>i. concat (map (\<lambda>cat.
                      case hours_ribbon coords (hours_periods df) cm 0.4 i cat of
                        Inr (Some t) \<Rightarrow> [t] | _ \<Rightarrow> [])
                      (hours_categories df)))
                    [0..<length (hours_periods df) - 1])" by blast
  have "Scatter s \<in> set tr \<longleftrightarrow>
        (\<exists>i cat. i + 1 < length (hours_periods df) \<and> cat \<in> set (hours_categories df) \<and>
           hours_ribbon coords (hours_periods df) cm 0.4 i cat = Inr (Some (Scatter s)))" for s
  proof -
    have "Scatter s \<notin> set (concat (map (\<lambda>(i, p). map (hours_mk_bar 0.4 cm i p)
             (hours_period_stack tie gap (rows df) p)) (enumerate 0 (hours_periods df))))"
      using hours_bars_mem[of "Scatter s" "0.4" cm tie gap "rows df" "enumerate 0 (hours_periods df)"]
      by blast
    then have "Scatter s \<in> set tr \<longleftrightarrow> Scatter s \<in> set (concat (map (\<lambda>i. concat (map (\<lambda>cat.
                      case hours_ribbon coords (hours_periods df) cm 0.4 i cat of
                        Inr (Some t) \<Rightarrow> [t] | _ \<Rightarrow> [])
                      (hours_categories df)))
                    [0..<length (hours_periods df) - 1]))"
      by (subst tr) (simp del: set_concat)
    then show ?thesis unfolding ribbons_mem .
  qed
  with dom co show ?thesis by blast
qed

lemma chart_scatter_iff:
  fixes df :: "(real, 'c::linorder) frame"
  assumes "scenario_layout palette fig df x_col category_col value_col sn gap = Inr (coords, tr, n)"
  shows "\<exists>cm. dom cm = set (chart_categories df) \<and>
     coords = chart_coords gap df \<and> take (length fig) tr = fig \<and>
     (\<forall>s. Scatter s \<in> set (drop (length fig) tr) \<longleftrightarrow>
        (\<exists>i cat. i + 1 < length (chart_periods df) \<and> cat \<in> set (chart_categories df) \<and>
           chart_ribbon coords (chart_periods df) cm 0.35 i cat = Inr (Some (Scatter s))))"
proof -
  from scenario_layout_InrD[OF assms] obtain cm bs where
    dom: "dom cm = set (chart_categories df)" and
    co: "coords = chart_coords gap df" and
    bs: "\<forall>t\<in>set bs. \<exists>b. t = Bar b" and
    tr: "tr = fig @ bs @
          concat (map (\<lambda>i. concat (map (\<lambda>cat.
                      case chart_ribbon coords (chart_periods df) cm 0.35 i cat of
                        Inr (Some t) \<Rightarrow> [t] | _ \<Rightarrow> [])
                      (chart_categories df)))
                    [0..<length (chart_periods df) - 1])" by blast
  let ?ribs = "concat (map (\<lambda>i. concat (map (\<lambda>cat.
                      case chart_ribbon coords (chart_periods df) cm 0.35 i cat of
                        Inr (Some t) \<Rightarrow> [t] | _ \<Rightarrow> [])
                      (chart_categories df)))
                    [0..<length (chart_periods df) - 1])"
  have dr: "drop (length fig) tr = bs @ ?ribs" by (subst tr) simp
  have tk: "take (length fig) tr = fig" by (subst tr) simp
  have "Scatter s \<in> set (drop (length fig) tr) \<longleftrightarrow>
        (\<exists>i cat. i + 1 < length (chart_periods df) \<and> cat \<in> set (chart_categories df) \<and>
           chart_ribbon coords (chart_periods df) cm 0.35 i cat = Inr (Some (Scatter s)))" for s
  proof -
    have "Scatter s \<notin> set bs" using bs by blast
    then have "Scatter s \<in> set (drop (length fig) tr) \<longleftrightarrow> Scatter s \<in> set ?ribs"
      unfolding dr by (simp del: set_concat)
    then show ?thesis unfolding ribbons_mem .
  qed
  with dom co tk show ?thesis by blast
qed

lemma ribbon_drawn_generic:
  assumes sc: "\<And>s. Scatter s \<in> set tr \<longleftrightarrow>
                 (\<exists>j c. j + 1 < n \<and> c \<in> set cats \<and> f j c = Inr (Some (Scatter s)))"
    and shape: "\<And>j c t. f j c = Inr (Some t) \<Longrightarrow>
                 \<exists>s. t = Scatter s \<and> s_legendgroup s = c \<and>
                     s_x s = span_xs 30 (x j) (x' j) @ rev (span_xs 30 (x j) (x' j))"
    and inj: "\<And>j. j + 1 < n \<Longrightarrow> x j = x i \<Longrightarrow> j = i"
    and i: "i + 1 < n"
  shows "ribbon_drawn tr cat (x i) \<longleftrightarrow> cat \<in> set cats \<and> (\<exists>t. f i cat = Inr (Some t))"
proof
  assume "ribbon_drawn tr cat (x i)"
  then obtain s where s: "Scatter s \<in> set tr" "s_legendgroup s = cat" "hd (s_x s) = x i"
    unfolding ribbon_drawn_iff by blast
  from s(1) obtain j c where j: "j + 1 < n" and c: "c \<in> set cats"
    and f: "f j c = Inr (Some (Scatter s))" unfolding sc by blast
  from shape[OF f] have sh: "s_legendgroup s = c"
    "s_x s = span_xs 30 (x j) (x' j) @ rev (span_xs 30 (x j) (x' j))" by auto
  have "hd (s_x s) = x j" unfolding sh(2) by (rule span_xs_hd) simp
  with s(3) have "x j = x i" by simp
  with inj[OF j] have "j = i" by simp
  with sh(1) s(2) c f show "cat \<in> set cats \<and> (\<exists>t. f i cat = Inr (Some t))" by auto
next
  assume a: "cat \<in> set cats \<and> (\<exists>t. f i cat = Inr (Some t))"
  then obtain t where t: "f i cat = Inr (Some t)" by blast
  from shape[OF t] obtain s where s: "t = Scatter s" "s_legendgroup s = cat"
    "s_x s = span_xs 30 (x i) (x' i) @ rev (span_xs 30 (x i) (x' i))" by blast
  have mem: "Scatter s \<in> set tr" unfolding sc using i a t s(1) by blast
  have hd: "hd (s_x s) = x i" unfolding s(3) by (rule span_xs_hd) simp
  have ne: "s_x s \<noteq> []" unfolding s(3) using span_xs_ne[of 30 "x i" "x' i"] by simp
  show "ribbon_drawn tr cat (x i)"
    unfolding ribbon_drawn_iff using mem s(2) hd ne by blast
qed

lemma ribbon_shape:
  assumes "ribbon coords periods cm bw i cat = Inr (Some t)"
  shows "\<exists>s. t = Scatter s \<and> s_legendgroup s = cat \<and>
     s_x s = span_xs 30 (real i + bw / 2) ((real i + 1) - bw / 2) @
             rev (span_xs 30 (real i + bw / 2) ((real i + 1) - bw / 2))"
  using ribbon_SomeD_span[OF assms] by auto

lemma hours_ribbon_shape:
  assumes "hours_ribbon coords periods cm bw i cat = Inr (Some t)"
  shows "\<exists>s. t = Scatter s \<and> s_legendgroup s = cat \<and>
     s_x s = span_xs 30 (real i + bw / 2) ((real i + 1) - bw / 2) @
             rev (span_xs 30 (real i + bw / 2) ((real i + 1) - bw / 2))"
  using hours_ribbon_SomeD[OF assms] by auto

lemma chart_ribbon_shape:
  assumes "chart_ribbon coords periods cm bw i cat = Inr (Some t)"
  shows "\<exists>s. t = Scatter s \<and> s_legendgroup s = cat \<and>
     s_x s = span_xs 30 (periods ! i + bw / 2) (periods ! (i + 1) - bw / 2) @
             rev (span_xs 30 (periods ! i + bw / 2) (periods ! (i + 1) - bw / 2))"
  using chart_ribbon_SomeD[OF assms] by auto


lemma ribbon_Some_segmentsD:
  assumes "ribbon coords periods cm bw i cat = Inr (Some t)"
  shows "has_segment coords (periods ! i) cat \<and> has_segment coords (periods ! (i + 1)) cat"
  using ribbon_SomeD_span[OF assms] unfolding has_segment_iff by blast

lemma hours_ribbon_Some_segments:
  assumes "cm cat \<noteq> None"
  shows "(\<exists>t. hours_ribbon coords periods cm bw i cat = Inr (Some t)) \<longleftrightarrow>
     has_segment coords (periods ! i) cat \<and> has_segment coords (periods ! (i + 1)) cat"
proof
  assume "\<exists>t. hours_ribbon coords periods cm bw i cat = Inr (Some t)"
  then obtain t where "hours_ribbon coords periods cm bw i cat = Inr (Some t)" ..
  from hours_ribbon_SomeD[OF this]
  show "has_segment coords (periods ! i) cat \<and> has_segment coords (periods ! (i + 1)) cat"
    unfolding has_segment_iff by blast
next
  assume "has_segment coords (periods ! i) cat \<and> has_segment coords (periods ! (i + 1)) cat"
  then obtain c1 c2 a b a' b' where
    c: "coords (periods ! i) = Some c1" "c1 cat = Some (a, b)"
       "coords (periods ! (i + 1)) = Some c2" "c2 cat = Some (a', b')"
    unfolding has_segment_iff by fastforce
  from assms obtain col where col: "cm cat = Some col" by auto
  show "\<exists>t. hours_ribbon coords periods cm bw i cat = Inr (Some t)"
    using hours_ribbon_SomeI[of coords periods i c1 cat a b c2 a' b' cm col bw] c col by blast
qed

lemma zero_height_iff:
  "zero_height coords p cat \<longleftrightarrow>
   (\<exists>cp y_b y_t. coords p = Some cp \<and> cp cat = Some (y_b, y_t) \<and> neq0 (nsub y_t (Num y_b)))"
  by (auto simp: zero_height_def split: option.splits)

lemma chart_ribbon_Some_segments:
  assumes "cm cat \<noteq> None"
  shows "(\<exists>t. chart_ribbon coords periods cm bw i cat = Inr (Some t)) \<longleftrightarrow>
     has_segment coords (periods ! i) cat \<and> has_segment coords (periods ! (i + 1)) cat \<and>
     \<not> (zero_height coords (periods ! i) cat \<and> zero_height coords (periods ! (i + 1)) cat)"
proof
  assume "\<exists>t. chart_ribbon coords periods cm bw i cat = Inr (Some t)"
  then obtain t where "chart_ribbon coords periods cm bw i cat = Inr (Some t)" ..
  from chart_ribbon_SomeD[OF this] obtain c1 c2 y1_b y1_t y2_b y2_t where
    c: "coords (periods ! i) = Some c1" "c1 cat = Some (y1_b, y1_t)"
       "coords (periods ! (i + 1)) = Some c2" "c2 cat = Some (y2_b, y2_t)"
       "\<not> (neq0 (nsub y1_t (Num y1_b)) \<and> neq0 (nsub y2_t (Num y2_b)))" by blast
  have "has_segment coords (periods ! i) cat" "has_segment coords (periods ! (i + 1)) cat"
    unfolding has_segment_iff using c by blast+
  moreover have "\<not> (zero_height coords (periods ! i) cat \<and> zero_height coords (periods ! (i + 1)) cat)"
    unfolding zero_height_iff using c by auto
  ultimately show "has_segment coords (periods ! i) cat \<and> has_segment coords (periods ! (i + 1)) cat \<and>
     \<not> (zero_height coords (periods ! i) cat \<and> zero_height coords (periods ! (i + 1)) cat)" by blast
next
  assume a: "has_segment coords (periods ! i) cat \<and> has_segment coords (periods ! (i + 1)) cat \<and>
     \<not> (zero_height coords (periods ! i) cat \<and> zero_height coords (periods ! (i + 1)) cat)"
  then obtain c1 c2 a b a' b' where
    c: "coords (periods ! i) = Some c1" "c1 cat = Some (a, b)"
       "coords (periods ! (i + 1)) = Some c2" "c2 cat = Some (a', b')"
    unfolding has_segment_iff by fastforce
  from assms obtain col where col: "cm cat = Some col" by auto
  have nz: "\<not> (neq0 (nsub b (Num a)) \<and> neq0 (nsub b' (Num a')))"
    using a c unfolding zero_height_iff by auto
  show "\<exists>t. chart_ribbon coords periods cm bw i cat = Inr (Some t)"
    using chart_ribbon_SomeI[of coords periods i c1 cat a b c2 a' b' cm col bw] c col nz by blast
qed


lemma hours_ribbon_drawn:
  assumes lay: "hours_layout tie palette df x_col category_col value_col gap = Inr (coords, tr)"
    and i: "i + 1 < length (hours_periods df)"
  shows "ribbon_drawn tr cat (real i + 0.4 / 2) \<longleftrightarrow>
     has_segment coords (hours_periods df ! i) cat \<and>
     has_segment coords (hours_periods df ! (i + 1)) cat"
proof -
  define bw :: real where "bw = 0.4"
  from hours_scatter_iff[OF lay] obtain cm where
    dom: "dom cm = set (hours_categories df)" and
    co: "coords = hours_coords tie gap (rows df)" and
    sc: "\<And>s. Scatter s \<in> set tr \<longleftrightarrow>
        (\<exists>i cat. i + 1 < length (hours_periods df) \<and> cat \<in> set (hours_categories df) \<and>
           hours_ribbon coords (hours_periods df) cm bw i cat = Inr (Some (Scatter s)))"
    unfolding bw_def by blast
  have g: "ribbon_drawn tr cat (real i + bw / 2) \<longleftrightarrow>
     cat \<in> set (hours_categories df) \<and>
     (\<exists>t. hours_ribbon coords (hours_periods df) cm bw i cat = Inr (Some t))"
    by (rule ribbon_drawn_generic[where x = "\<lambda>j. real j + bw / 2"
          and x' = "\<lambda>j. (real j + 1) - bw / 2"
          and f = "hours_ribbon coords (hours_periods df) cm bw", OF sc _ _ i])
       (auto dest: hours_ribbon_shape)
  have "ribbon_drawn tr cat (real i + bw / 2) \<longleftrightarrow>
     has_segment coords (hours_periods df ! i) cat \<and>
     has_segment coords (hours_periods df ! (i + 1)) cat"
  proof
    assume "ribbon_drawn tr cat (real i + bw / 2)"
    with g obtain t where t: "hours_ribbon coords (hours_periods df) cm bw i cat = Inr (Some t)"
      and cat: "cat \<in> set (hours_categories df)" by blast
    from cat dom have "cm cat \<noteq> None" by auto
    from hours_ribbon_Some_segments[where cm = cm and cat = cat, OF this, of coords "hours_periods df" bw i] t
    show "has_segment coords (hours_periods df ! i) cat \<and>
       has_segment coords (hours_periods df ! (i + 1)) cat" by blast
  next
    assume a: "has_segment coords (hours_periods df ! i) cat \<and>
       has_segment coords (hours_periods df ! (i + 1)) cat"
    then obtain r where r: "r \<in> set (rows df)" "row_cat r = cat"
      unfolding co hours_has_segment_iff by blast
    have cat: "cat \<in> set (hours_categories df)" using r by (auto simp: hours_categories_def)
    then have cm: "cm cat \<noteq> None" using dom by auto
    from a cat show "ribbon_drawn tr cat (real i + bw / 2)"
      unfolding g hours_ribbon_Some_segments[where cm = cm and cat = cat, OF cm] by simp
  qed
  then show ?thesis unfolding bw_def .
qed

lemma chart_ribbon_drawn:
  fixes df :: "(real, 'c::linorder) frame"
  assumes lay: "scenario_layout palette fig df x_col category_col value_col sn gap
                  = Inr (coords, tr, n)"
    and i: "i + 1 < length (chart_periods df)"
  shows "ribbon_drawn (drop (length fig) tr) cat (chart_periods df ! i + 0.35 / 2) \<longleftrightarrow>
     cat \<in> set (chart_categories df) \<and>
     \<not> (zero_height coords (chart_periods df ! i) cat \<and>
        zero_height coords (chart_periods df ! (i + 1)) cat)"
proof -
  define bw :: real where "bw = 0.35"
  from chart_scatter_iff[OF lay] obtain cm where
    dom: "dom cm = set (chart_categories df)" and
    co: "coords = chart_coords gap df" and
    sc: "\<And>s. Scatter s \<in> set (drop (length fig) tr) \<longleftrightarrow>
        (\<exists>i cat. i + 1 < length (chart_periods df) \<and> cat \<in> set (chart_categories df) \<and>
           chart_ribbon coords (chart_periods df) cm bw i cat = Inr (Some (Scatter s)))"
    unfolding bw_def by blast
  have inj: "j = i" if "j + 1 < length (chart_periods df)"
    "chart_periods df ! j + bw / 2 = chart_periods df ! i + bw / 2" for j
  proof -
    from that(2) have "chart_periods df ! j = chart_periods df ! i" by simp
    moreover have "j < length (chart_periods df)" "i < length (chart_periods df)"
      using that(1) i by auto
    ultimately show ?thesis using distinct_chart_periods[of df] nth_eq_iff_index_eq by blast
  qed
  have g: "ribbon_drawn (drop (length fig) tr) cat (chart_periods df ! i + bw / 2) \<longleftrightarrow>
     cat \<in> set (chart_categories df) \<and>
     (\<exists>t. chart_ribbon coords (chart_periods df) cm bw i cat = Inr (Some t))"
    by (rule ribbon_drawn_generic[where x = "\<lambda>j. chart_periods df ! j + bw / 2"
          and x' = "\<lambda>j. chart_periods df ! (j + 1) - bw / 2"
          and f = "chart_ribbon coords (chart_periods df) cm bw", OF sc _ inj i])
       (auto dest: chart_ribbon_shape)
  have p: "chart_periods df ! i \<in> set (chart_periods df)"
    "chart_periods df ! (i + 1) \<in> set (chart_periods df)"
    using i by (metis nth_mem add_lessD1)+
  have "ribbon_drawn (drop (length fig) tr) cat (chart_periods df ! i + bw / 2) \<longleftrightarrow>
     cat \<in> set (chart_categories df) \<and>
     \<not> (zero_height coords (chart_periods df ! i) cat \<and>
        zero_height coords (chart_periods df ! (i + 1)) cat)"
  proof (cases "cat \<in> set (chart_categories df)")
    case True
    then have cm: "cm cat \<noteq> None" using dom by auto
    have hs: "has_segment coords (chart_periods df ! i) cat"
      "has_segment coords (chart_periods df ! (i + 1)) cat"
      unfolding co chart_has_segment_iff using p True by auto
    show ?thesis unfolding g chart_ribbon_Some_segments[where cm = cm and cat = cat, OF cm] using hs True by simp
  next
    case False
    then show ?thesis unfolding g by simp
  qed
  then show ?thesis unfolding bw_def .
qed

lemma cycle_colors_ok:
  "palette \<noteq> [] \<Longrightarrow> \<exists>cm. (cycle_colors palette cats :: ('p, 'c) error + ('c \<rightharpoonup> string)) = Inr cm"
  by (simp add: cycle_colors_def)

lemma hours_layout_ok:
  fixes df :: "('p, 'c) frame"
  assumes xc: "x_col \<in> set (columns df)" and cc: "category_col \<in> set (columns df)"
    and vc: "value_col \<in> set (columns df)" and pal: "palette \<noteq> []"
  shows "\<exists>coords tr. hours_layout tie palette df x_col category_col value_col gap = Inr (coords, tr)"
proof -
  define bw :: real where "bw = 0.4"
  from cycle_colors_ok[OF pal] obtain cm where
    cs: "(cycle_colors palette (hours_categories df) :: ('p, 'c) error + ('c \<rightharpoonup> string)) = Inr cm"
    by blast
  have dom: "dom cm = set (hours_categories df)" using cs by (rule cycle_colors_dom)
  have cols: "\<forall>r\<in>set (rows df). cm (row_cat r) \<noteq> None"
    using dom by (auto simp: hours_categories_def)
  have bl: "hours_bar_loop tie df value_col gap bw cm (enumerate 0 (hours_periods df)) (Map.empty, []) =
     Inr (hours_coords tie gap (rows df),
          concat (map (\<lambda>(i, p). map (hours_mk_bar bw cm i p) (hours_period_stack tie gap (rows df) p))
                    (enumerate 0 (hours_periods df))))"
    by (subst hours_bar_loop_char[OF vc cols])
       (auto simp: hours_coords_def hours_periods_def fun_eq_iff)
  have colc: "\<forall>c\<in>set (hours_categories df). cm c \<noteq> None" using dom by auto
  have rb: "\<forall>i\<in>set [0..<length (hours_periods df) - 1]. \<forall>cat\<in>set (hours_categories df).
      \<exists>ot. hours_ribbon (hours_coords tie gap (rows df)) (hours_periods df) cm bw i cat = Inr ot"
  proof (intro ballI)
    fix i cat assume i: "i \<in> set [0..<length (hours_periods df) - 1]"
      and cat: "cat \<in> set (hours_categories df)"
    have per: "set (hours_periods df) = row_x ` set (rows df)" by (simp add: hours_periods_def)
    have i': "i + 1 < length (hours_periods df)" using i by auto
    show "\<exists>ot. hours_ribbon (hours_coords tie gap (rows df)) (hours_periods df) cm bw i cat = Inr ot"
      using colc cat per i' by (rule hours_ribbon_ok)
  qed
  have "hours_layout tie palette df x_col category_col value_col gap =
     (case hours_bar_loop tie df value_col gap bw cm (enumerate 0 (hours_periods df)) (Map.empty, []) of
        Inl e \<Rightarrow> Inl e
      | Inr (coords, tr) \<Rightarrow>
          (case hours_ribbon_loop coords (hours_periods df) (hours_categories df) cm bw
                  [0..<length (hours_periods df) - 1] tr of
             Inl e \<Rightarrow> Inl e
           | Inr tr' \<Rightarrow> Inr (coords, tr')))"
    using xc cc cs unfolding bw_def
    by (simp add: hours_layout_def hours_categories_def hours_periods_def Let_def
        del: One_nat_def cong: sum.case_cong prod.case_cong)
  then show ?thesis
    unfolding bl using hours_ribbon_loop_char[OF rb] by (simp del: One_nat_def)
qed

lemma normalize_ok:
  "distinct (map (\<lambda>r. (row_x r, row_cat r)) (rows df)) \<Longrightarrow>
   normalize (rows df) (chart_periods df) (chart_categories df) = Inr (chart_norm df)"
  by (simp add: normalize_def chart_norm_def)

lemma scenario_layout_ok:
  fixes df :: "(real, 'c::linorder) frame"
  assumes xc: "x_col \<in> set (columns df)" and cc: "category_col \<in> set (columns df)"
    and vc: "value_col \<in> set (columns df)" and pal: "palette \<noteq> []"
    and dist: "distinct (map (\<lambda>r. (row_x r, row_cat r)) (rows df))"
  shows "\<exists>coords tr n.
     scenario_layout palette fig df x_col category_col value_col sn gap = Inr (coords, tr, n)"
proof -
  define bw :: real where "bw = 0.35"
  from cycle_colors_ok[OF pal] obtain cm where
    cs: "(cycle_colors palette (chart_categories df) :: (real, 'c) error + ('c \<rightharpoonup> string)) = Inr cm"
    by blast
  have dom: "dom cm = set (chart_categories df)" using cs by (rule cycle_colors_dom)
  have cols: "\<forall>r\<in>set (chart_norm df). kept r \<longrightarrow> cm (row_cat r) \<noteq> None"
    using dom unfolding chart_norm_def by fastforce
  from chart_bar_loop_char[OF vc cols, of gap bw sn "chart_periods df" Map.empty "{}" fig 0]
  obtain seen' bs where
    bl: "chart_bar_loop (columns df) value_col (chart_norm df) gap bw cm sn (chart_periods df)
             (Map.empty, {}, fig, 0) = Inr (chart_coords gap df, seen', fig @ bs, length bs)"
    by (auto simp: chart_coords_def fun_eq_iff)
  have rb: "\<forall>i\<in>set [0..<length (chart_periods df) - 1]. \<forall>cat\<in>set (chart_categories df).
      \<exists>ot. chart_ribbon (chart_coords gap df) (chart_periods df) cm bw i cat = Inr ot"
  proof (intro ballI)
    fix i cat assume i: "i \<in> set [0..<length (chart_periods df) - 1]"
      and cat: "cat \<in> set (chart_categories df)"
    have c: "cm cat \<noteq> None" using dom cat by auto
    have i': "i + 1 < length (chart_periods df)" using i by auto
    show "\<exists>ot. chart_ribbon (chart_coords gap df) (chart_periods df) cm bw i cat = Inr ot"
      using c cat i' by (rule chart_ribbon_ok)
  qed
  have fnd: "find (\<lambda>col. col \<notin> set (columns df)) [x_col, category_col] = None"
    using xc cc by simp
  have "scenario_layout palette fig df x_col category_col value_col sn gap =
     (case chart_bar_loop (columns df) value_col (chart_norm df) gap bw cm sn (chart_periods df)
             (Map.empty, {}, fig, 0) of
        Inl e \<Rightarrow> Inl e
      | Inr (coords, seen, tr, n) \<Rightarrow>
          (case chart_ribbon_loop coords (chart_periods df) (chart_categories df) cm bw
                  [0..<length (chart_periods df) - 1] (tr, n) of
             Inl e \<Rightarrow> Inl e
           | Inr (tr', n') \<Rightarrow> Inr (coords, tr', n')))"
    using cs normalize_ok[OF dist] unfolding bw_def scenario_layout_def fnd
    by (simp add: chart_periods_def chart_categories_def Let_def
        del: One_nat_def cong: sum.case_cong prod.case_cong)
  then show ?thesis
    unfolding bl using chart_ribbon_loop_char[OF rb] by (simp del: One_nat_def)
qed

lemma span_polygon_ends:
  assumes "xs = span_xs 30 a b @ rev (span_xs 30 a b)"
  shows "hd xs = a" and "xs ! 29 = b" and "last xs = a"
proof -
  show "hd xs = a" unfolding assms by (rule span_xs_hd) simp
  have "xs ! 29 = span_xs 30 a b ! 29" unfolding assms by (simp add: nth_append)
  also have "\<dots> = last (span_xs 30 a b)"
    using last_conv_nth[of "span_xs 30 a b"] span_xs_ne[of 30 a b] by simp
  also have "\<dots> = b" by (rule span_xs_last) simp
  finally show "xs ! 29 = b" .
  have "last xs = last (rev (span_xs 30 a b))"
    unfolding assms using span_xs_ne[of 30 a b] by simp
  also have "\<dots> = hd (span_xs 30 a b)"
    using span_xs_ne[of 30 a b] by (simp add: last_rev)
  also have "\<dots> = a" using span_xs_hd[of 30 a b "[]"] by simp
  finally show "last xs = a" .
qed

lemma engine_scatter_span:
  fixes df :: "('p::linorder, 'c::linorder) frame"
  assumes lay: "engine_layout palette df x_col category_col value_col gap bw colors asc sl ht
                  = Inr (coords, tr)"
    and s: "Scatter s \<in> set tr"
  shows "\<exists>i. i + 1 < length (engine_periods df) \<and>
     has_segment coords (engine_periods df ! i) (s_legendgroup s) \<and>
     has_segment coords (engine_periods df ! (i + 1)) (s_legendgroup s) \<and>
     s_x s = span_xs 30 (real i + bw / 2) ((real i + 1) - bw / 2) @
             rev (span_xs 30 (real i + bw / 2) ((real i + 1) - bw / 2))"
proof -
  from engine_scatter_iff[OF lay] s obtain cm i cat where
    i: "i + 1 < length (engine_periods df)" and
    r: "ribbon coords (engine_periods df) cm bw i cat = Inr (Some (Scatter s))" by blast
  from ribbon_shape[OF r] have sh: "s_legendgroup s = cat"
    "s_x s = span_xs 30 (real i + bw / 2) ((real i + 1) - bw / 2) @
             rev (span_xs 30 (real i + bw / 2) ((real i + 1) - bw / 2))" by auto
  from ribbon_Some_segmentsD[OF r] i sh show ?thesis by blast
qed

lemma hours_scatter_span:
  assumes lay: "hours_layout tie palette df x_col category_col value_col gap = Inr (coords, tr)"
    and s: "Scatter s \<in> set tr"
  shows "\<exists>i. i + 1 < length (hours_periods df) \<and>
     has_segment coords (hours_periods df ! i) (s_legendgroup s) \<and>
     has_segment coords (hours_periods df ! (i + 1)) (s_legendgroup s) \<and>
     s_x s = span_xs 30 (real i + 0.4 / 2) ((real i + 1) - 0.4 / 2) @
             rev (span_xs 30 (real i + 0.4 / 2) ((real i + 1) - 0.4 / 2))"
proof -
  define bw :: real where "bw = 0.4"
  from hours_scatter_iff[OF lay] s obtain cm i cat where
    i: "i + 1 < length (hours_periods df)" and
    r: "hours_ribbon coords (hours_periods df) cm bw i cat = Inr (Some (Scatter s))"
    unfolding bw_def by blast
  from hours_ribbon_shape[OF r] have sh: "s_legendgroup s = cat"
    "s_x s = span_xs 30 (real i + bw / 2) ((real i + 1) - bw / 2) @
             rev (span_xs 30 (real i + bw / 2) ((real i + 1) - bw / 2))" by auto
  from hours_ribbon_SomeD[OF r] have
    "has_segment coords (hours_periods df ! i) cat \<and>
     has_segment coords (hours_periods df ! (i + 1)) cat"
    unfolding has_segment_iff by blast
  with i sh show ?thesis unfolding bw_def by blast
qed

lemma chart_scatter_span:
  fixes df :: "(real, 'c::linorder) frame"
  assumes lay: "scenario_layout palette fig df x_col category_col value_col sn gap
                  = Inr (coords, tr, n)"
    and s: "Scatter s \<in> set (drop (length fig) tr)"
  shows "\<exists>i. i + 1 < length (chart_periods df) \<and>
     has_segment coords (chart_periods df ! i) (s_legendgroup s) \<and>
     has_segment coords (chart_periods df ! (i + 1)) (s_legendgroup s) \<and>
     s_x s = span_xs 30 (chart_periods df ! i + 0.35 / 2) (chart_periods df ! (i + 1) - 0.35 / 2) @
             rev (span_xs 30 (chart_periods df ! i + 0.35 / 2)
                    (chart_periods df ! (i + 1) - 0.35 / 2))"
proof -
  define bw :: real where "bw = 0.35"
  from chart_scatter_iff[OF lay] s obtain cm i cat where
    i: "i + 1 < length (chart_periods df)" and
    r: "chart_ribbon coords (chart_periods df) cm bw i cat = Inr (Some (Scatter s))"
    unfolding bw_def by blast
  from chart_ribbon_shape[OF r] have sh: "s_legendgroup s = cat"
    "s_x s = span_xs 30 (chart_periods df ! i + bw / 2) (chart_periods df ! (i + 1) - bw / 2) @
             rev (span_xs 30 (chart_periods df ! i + bw / 2) (chart_periods df ! (i + 1) - bw / 2))"
    by auto
  from chart_ribbon_SomeD[OF r] have
    "has_segment coords (chart_periods df ! i) cat \<and>
     has_segment coords (chart_periods df ! (i + 1)) cat"
    unfolding has_segment_iff by blast
  with i sh show ?thesis unfolding bw_def by blast
qed

lemma ribbon_drawn_scatter:
  "ribbon_drawn tr cat x \<Longrightarrow> \<exists>s. Scatter s \<in> set tr \<and> s_legendgroup s = cat \<and> hd (s_x s) = x"
  unfolding ribbon_drawn_iff by blast





section \<open>The example frames\<close>

lemma chart_example_periods: "chart_periods chart_df = [2020, 2021]"
  by (simp add: chart_periods_def chart_df_def unique_def)

lemma chart_example_categories: "chart_categories chart_df = [''A'', ''B'', ''C'']"
  by (simp add: chart_categories_def chart_df_def unique_def)

lemma chart_example_run:
  "\<exists>coords tr n. scenario_layout (c # pal) fig chart_df ''Year'' ''Category'' ''Value'' sn gap
       = Inr (coords, tr, n)"
  by (rule scenario_layout_ok) (simp_all add: chart_df_def)

lemma chart_example_rows_2020:
  "chart_period_rows (chart_norm chart_df) 2020 =
     [\<lparr>row_x = 2020, row_cat = ''B'', row_val = Num 0\<rparr>,
      \<lparr>row_x = 2020, row_cat = ''C'', row_val = Num 0\<rparr>,
      \<lparr>row_x = 2020, row_cat = ''A'', row_val = Num 5\<rparr>]"
  unfolding chart_period_rows_def chart_norm_def chart_example_periods chart_example_categories
  by (simp add: chart_df_def sort_values_def value_key_def)

lemma chart_example_rows_2021:
  "chart_period_rows (chart_norm chart_df) 2021 =
     [\<lparr>row_x = 2021, row_cat = ''C'', row_val = Num 0\<rparr>,
      \<lparr>row_x = 2021, row_cat = ''B'', row_val = Num 3\<rparr>,
      \<lparr>row_x = 2021, row_cat = ''A'', row_val = Num 7\<rparr>]"
  unfolding chart_period_rows_def chart_norm_def chart_example_periods chart_example_categories
  by (simp add: chart_df_def sort_values_def value_key_def)

lemma chart_example_coords_2020:
  "chart_coords 2 chart_df 2020 =
     Some [''B'' \<mapsto> (0, Num 0), ''C'' \<mapsto> (0, Num 0), ''A'' \<mapsto> (0, Num 5)]"
  unfolding chart_coords_def chart_period_coords_def chart_example_rows_2020 chart_example_periods
  by (simp add: chart_seg_of_def kept_def the_val_def fun_eq_iff)

lemma chart_example_coords_2021:
  "chart_coords 2 chart_df 2021 =
     Some [''C'' \<mapsto> (0, Num 0), ''B'' \<mapsto> (0, Num 3), ''A'' \<mapsto> (5, Num 12)]"
  unfolding chart_coords_def chart_period_coords_def chart_example_rows_2021 chart_example_periods
  by (simp add: chart_seg_of_def kept_def the_val_def fun_eq_iff)

lemma hours_example_periods: "hours_periods hours_df = [''W1'', ''W2'']"
  by (simp add: hours_periods_def hours_df_def unique_def)

lemma hours_example_categories: "hours_categories hours_df = [''B'', ''A'', ''C'']"
  by (simp add: hours_categories_def hours_df_def unique_def)

lemma hours_example_run:
  "\<exists>coords tr. hours_layout tie (c # pal) hours_df ''Week'' ''Employee'' ''Hours'' gap
       = Inr (coords, tr)"
  by (rule hours_layout_ok) (simp_all add: hours_df_def)

lemma hours_example_coords_W1:
  "hours_coords tie 2 (rows hours_df) ''W1'' =
     Some [''C'' \<mapsto> (Num 0, Num 0), ''B'' \<mapsto> (Num 2, Num 12), ''A'' \<mapsto> (Num 14, Num 34)]"
  unfolding hours_coords_def hours_period_coords_def hours_period_stack_def
  by (simp add: hours_df_def sort_by_value_def value_key_def hours_seg_of_def fun_eq_iff)

lemma hours_example_coords_W2:
  "hours_coords tie 2 (rows hours_df) ''W2'' =
     Some [''C'' \<mapsto> (Num 0, Num 0), ''A'' \<mapsto> (Num 2, Num 7), ''B'' \<mapsto> (Num 9, Num 24)]"
  unfolding hours_coords_def hours_period_coords_def hours_period_stack_def
  by (simp add: hours_df_def sort_by_value_def value_key_def hours_seg_of_def fun_eq_iff)

lemma hours_example_facts:
  assumes lay: "hours_layout tie (c # pal) hours_df ''Week'' ''Employee'' ''Hours'' 2
                  = Inr (coords, tr)"
  shows "coords ''W1'' =
           Some [''C'' \<mapsto> (Num 0, Num 0), ''B'' \<mapsto> (Num 2, Num 12), ''A'' \<mapsto> (Num 14, Num 34)]"
    and "coords ''W2'' =
           Some [''C'' \<mapsto> (Num 0, Num 0), ''A'' \<mapsto> (Num 2, Num 7), ''B'' \<mapsto> (Num 9, Num 24)]"
    and "has_segment coords ''W1'' ''C''" and "has_segment coords ''W2'' ''C''"
    and "ribbon_drawn tr ''A'' (0 + 0.4 / 2)"
    and "ribbon_drawn tr ''B'' (0 + 0.4 / 2)"
    and "ribbon_drawn tr ''C'' (0 + 0.4 / 2)"
proof -
  from hours_scatter_iff[OF lay] have co: "coords = hours_coords tie 2 (rows hours_df)" by blast
  show w1: "coords ''W1'' =
           Some [''C'' \<mapsto> (Num 0, Num 0), ''B'' \<mapsto> (Num 2, Num 12), ''A'' \<mapsto> (Num 14, Num 34)]"
    unfolding co by (rule hours_example_coords_W1)
  show w2: "coords ''W2'' =
           Some [''C'' \<mapsto> (Num 0, Num 0), ''A'' \<mapsto> (Num 2, Num 7), ''B'' \<mapsto> (Num 9, Num 24)]"
    unfolding co by (rule hours_example_coords_W2)
  have hs: "has_segment coords ''W1'' cat \<and> has_segment coords ''W2'' cat"
    if "cat \<in> {''A'', ''B'', ''C''}" for cat
    using that unfolding has_segment_def w1 w2 by auto
  from hs[of "''C''"] show "has_segment coords ''W1'' ''C''" "has_segment coords ''W2'' ''C''"
    by simp_all
  have i: "0 + 1 < length (hours_periods hours_df)" by (simp add: hours_example_periods)
  have d: "ribbon_drawn tr cat (0 + 0.4 / 2)" if "cat \<in> {''A'', ''B'', ''C''}" for cat
    using hours_ribbon_drawn[OF lay i, of cat] hs[OF that]
    by (simp add: hours_example_periods)
  show "ribbon_drawn tr ''A'' (0 + 0.4 / 2)" "ribbon_drawn tr ''B'' (0 + 0.4 / 2)"
    "ribbon_drawn tr ''C'' (0 + 0.4 / 2)"
    using d by simp_all
qed

lemma chart_example_facts:
  assumes lay: "scenario_layout (c # pal) [] chart_df ''Year'' ''Category'' ''Value'' sn 2
                  = Inr (coords, tr, n)"
  shows "coords 2020 = Some [''B'' \<mapsto> (0, Num 0), ''C'' \<mapsto> (0, Num 0), ''A'' \<mapsto> (0, Num 5)]"
    and "coords 2021 = Some [''C'' \<mapsto> (0, Num 0), ''B'' \<mapsto> (0, Num 3), ''A'' \<mapsto> (5, Num 12)]"
    and "ribbon_drawn tr ''A'' (2020 + 0.35 / 2)"
    and "ribbon_drawn tr ''B'' (2020 + 0.35 / 2)"
    and "\<not> ribbon_drawn tr ''C'' (2020 + 0.35 / 2)"
    and "ribbon_drawn tr cat x \<Longrightarrow> x = 2020 + 0.35 / 2"
proof -
  from chart_scatter_iff[OF lay] have co: "coords = chart_coords 2 chart_df" by blast
  show c0: "coords 2020 = Some [''B'' \<mapsto> (0, Num 0), ''C'' \<mapsto> (0, Num 0), ''A'' \<mapsto> (0, Num 5)]"
    unfolding co by (rule chart_example_coords_2020)
  show c1: "coords 2021 = Some [''C'' \<mapsto> (0, Num 0), ''B'' \<mapsto> (0, Num 3), ''A'' \<mapsto> (5, Num 12)]"
    unfolding co by (rule chart_example_coords_2021)
  have i: "0 + 1 < length (chart_periods chart_df)" by (simp add: chart_example_periods)
  note d = chart_ribbon_drawn[OF lay i, unfolded chart_example_periods chart_example_categories]
  show "ribbon_drawn tr ''A'' (2020 + 0.35 / 2)"
    using d[of "''A''"] by (simp add: zero_height_def c0 c1)
  show "ribbon_drawn tr ''B'' (2020 + 0.35 / 2)"
    using d[of "''B''"] by (simp add: zero_height_def c0 c1)
  show "\<not> ribbon_drawn tr ''C'' (2020 + 0.35 / 2)"
    using d[of "''C''"] by (simp add: zero_height_def c0 c1)
  show "x = 2020 + 0.35 / 2" if "ribbon_drawn tr cat x"
  proof -
    from ribbon_drawn_scatter[OF that] obtain s where
      s: "Scatter s \<in> set tr" "hd (s_x s) = x" by blast
    from s(1) have "Scatter s \<in> set (drop (length ([] :: (real, string, num) trace list)) tr)"
      by simp
    from chart_scatter_span[OF lay this] obtain j where
      j: "j + 1 < length (chart_periods chart_df)" and
      x: "s_x s = span_xs 30 (chart_periods chart_df ! j + 0.35 / 2)
                    (chart_periods chart_df ! (j + 1) - 0.35 / 2) @
             rev (span_xs 30 (chart_periods chart_df ! j + 0.35 / 2)
                    (chart_periods chart_df ! (j + 1) - 0.35 / 2))" by blast
    from j have "j = 0" by (simp add: chart_example_periods)
    with span_polygon_ends(1)[OF x] s(2) show ?thesis by (simp add: chart_example_periods)
  qed
qed





section \<open>Validation of the columns (C9)\<close>

text \<open>
  C9, amended.  When a required column (period, category or value column) is absent from
  the frame, \<open>create_ribbon_chart\<close> raises \<open>ValueError\<close> naming the first absent column in
  the order period, category, value (not the whole list of absent columns).  The error
  is raised whatever the rows, gap, bar width, colours and flags are: neither segment
  coordinates nor traces are produced.
\<close>

theorem first_missing_column_reported:
  fixes df :: "('p::linorder, 'c::linorder) frame"
  assumes "x_col \<notin> set (columns df) \<or> category_col \<notin> set (columns df) \<or>
           value_col \<notin> set (columns df)"
  shows "\<exists>col rest. missing_fields df [x_col, category_col, value_col] = col # rest \<and>
     (\<forall>rs gap bw colors asc sl ht.
        engine_layout palette (df\<lparr>rows := rs\<rparr>) x_col category_col value_col gap bw colors asc sl ht
          = Inl (ValueError (''Missing required column: '' @ col)) \<and>
        create_ribbon_chart palette (df\<lparr>rows := rs\<rparr>) x_col category_col value_col gap bw colors
          asc sl ht = Inl (ValueError (''Missing required column: '' @ col)))"
proof -
  from assms obtain col rest where m: "missing_fields df [x_col, category_col, value_col] = col # rest"
    by (cases "missing_fields df [x_col, category_col, value_col]")
       (auto simp: missing_fields_def split: if_splits)
  have "missing_column (df\<lparr>rows := rs\<rparr>) [x_col, category_col, value_col] = Some col" for rs
    using m by (simp add: missing_column_def missing_fields_def split: if_splits)
  then show ?thesis
    using m by (simp add: create_ribbon_chart_def engine_layout_def)
qed

text \<open>C9, amended, on a frame that has only the column \<open>Hours\<close>.\<close>

theorem first_missing_column_reported_witness:
  "\<exists>col rest. missing_fields hours_only_df [''Week'', ''Employee'', ''Hours''] = col # rest \<and>
     col = ''Week'' \<and> rest = [''Employee''] \<and>
     (\<forall>rs gap bw colors asc sl ht.
        engine_layout [] (hours_only_df\<lparr>rows := rs\<rparr>) ''Week'' ''Employee'' ''Hours'' gap bw colors asc sl ht
          = Inl (ValueError (''Missing required column: '' @ col)) \<and>
        create_ribbon_chart [] (hours_only_df\<lparr>rows := rs\<rparr>) ''Week'' ''Employee'' ''Hours'' gap bw colors
          asc sl ht = Inl (ValueError (''Missing required column: '' @ col)))"
proof -
  have h: "''Week'' \<notin> set (columns hours_only_df) \<or> ''Employee'' \<notin> set (columns hours_only_df) \<or>
           ''Hours'' \<notin> set (columns hours_only_df)"
    by (simp add: hours_only_df_def)
  have m: "missing_fields hours_only_df [''Week'', ''Employee'', ''Hours''] = [''Week'', ''Employee'']"
    by (simp add: missing_fields_def hours_only_df_def)
  from first_missing_column_reported[OF h, where palette = "[]"] show ?thesis
    unfolding m by simp
qed

text \<open>
  C9 as stated fails: with two required columns absent the message names \<open>Week\<close> only,
  and \<open>Employee\<close> does not occur in it.
\<close>

theorem missing_fields_list_counterexample:
  "\<not> (\<exists>msg. create_ribbon_chart [] hours_only_df ''Week'' ''Employee'' ''Hours'' 2 0.4 ColorNone
                True True None = Inl (ValueError msg) \<and>
              list_all (\<lambda>f. sublist f msg) (missing_fields hours_only_df [''Week'', ''Employee'', ''Hours'']))"
proof -
  have "create_ribbon_chart [] hours_only_df ''Week'' ''Employee'' ''Hours'' 2 0.4 ColorNone
          True True None = Inl (ValueError ''Missing required column: Week'')"
    by (simp add: create_ribbon_chart_def engine_layout_def missing_column_def hours_only_df_def)
  moreover have "\<not> sublist ''Employee'' ''Missing required column: Week''"
    by (simp add: sublist_Cons_right)
  ultimately show ?thesis
    by (simp add: missing_fields_def hours_only_df_def)
qed

section \<open>Colour lookup with an explicit dict (C10)\<close>

text \<open>
  C10.  An explicit colour dict is used as it is: colour setup returns it unchanged, with
  neither validation against the categories nor fallback.  If the dict holds the category
  of every row with a positive value (in particular if it holds every category of the
  data), no run of \<open>create_ribbon_chart\<close> ends in a \<open>KeyError\<close> on a category: every colour
  lookup succeeds.  A \<open>KeyError\<close> on a category \<open>c\<close> arises only when the dict lacks \<open>c\<close> and
  \<open>c\<close> is the category of a row with a positive value, and a dict that lacks such a
  category never yields a figure.  On the two-period example with a dict that holds only
  \<open>A\<close>, bar generation meets \<open>B\<close> first (the smaller value of \<open>P1\<close>) and fails with
  \<open>KeyError\<close> on \<open>B\<close>.
\<close>

theorem explicit_color_dict_unvalidated:
  fixes df :: "('p::linorder, 'c::linorder) frame"
  shows "(color_setup palette (ColorDict d) cats :: ('p, 'c) error + ('c \<rightharpoonup> string)) = Inr d \<and>
     ((\<forall>r\<in>set (rows df). kept r \<longrightarrow> d (row_cat r) \<noteq> None) \<longrightarrow>
        (\<forall>c. create_ribbon_chart palette df x_col category_col value_col gap bw (ColorDict d)
               asc sl ht \<noteq> Inl (KeyError (CategoryKey c)))) \<and>
     (\<forall>c. create_ribbon_chart palette df x_col category_col value_col gap bw (ColorDict d)
             asc sl ht = Inl (KeyError (CategoryKey c)) \<longrightarrow>
           d c = None \<and> (\<exists>r\<in>set (rows df). kept r \<and> row_cat r = c)) \<and>
     ((\<exists>r\<in>set (rows df). kept r \<and> d (row_cat r) = None) \<longrightarrow>
        (\<forall>tr. create_ribbon_chart palette df x_col category_col value_col gap bw (ColorDict d)
               asc sl ht \<noteq> Inr tr)) \<and>
     bar_loop (rows example_df) 2 0.4 [''A'' \<mapsto> ''red''] True True None
        (enumerate 0 (sort (unique (map row_x (rows example_df))))) (Map.empty, [])
        = Inl (KeyError (CategoryKey ''B'')) \<and>
     create_ribbon_chart palette example_df ''Period'' ''Category'' ''Value'' 2 0.4
        (ColorDict [''A'' \<mapsto> ''red'']) True True None = Inl (KeyError (CategoryKey ''B''))"
proof (intro conjI)
  show "(color_setup palette (ColorDict d) cats :: ('p, 'c) error + ('c \<rightharpoonup> string)) = Inr d"
    by (simp add: color_setup_def)
  note cases = create_ColorDict_cases[of palette df x_col category_col value_col gap bw d asc sl ht]
  show "(\<forall>r\<in>set (rows df). kept r \<longrightarrow> d (row_cat r) \<noteq> None) \<longrightarrow>
        (\<forall>c. create_ribbon_chart palette df x_col category_col value_col gap bw (ColorDict d)
               asc sl ht \<noteq> Inl (KeyError (CategoryKey c)))"
    using cases by auto
  show "\<forall>c. create_ribbon_chart palette df x_col category_col value_col gap bw (ColorDict d)
             asc sl ht = Inl (KeyError (CategoryKey c)) \<longrightarrow>
           d c = None \<and> (\<exists>r\<in>set (rows df). kept r \<and> row_cat r = c)"
    using cases by auto
  show "(\<exists>r\<in>set (rows df). kept r \<and> d (row_cat r) = None) \<longrightarrow>
        (\<forall>tr. create_ribbon_chart palette df x_col category_col value_col gap bw (ColorDict d)
               asc sl ht \<noteq> Inr tr)"
    using cases by auto
  show bl: "bar_loop (rows example_df) 2 0.4 [''A'' \<mapsto> ''red''] True True None
        (enumerate 0 (sort (unique (map row_x (rows example_df))))) (Map.empty, [])
        = Inl (KeyError (CategoryKey ''B''))"
    by (simp add: example_df_def unique_def sort_values_def value_key_def Let_def
        enumerate_eq_zip)
  show "create_ribbon_chart palette example_df ''Period'' ''Category'' ''Value'' 2 0.4
        (ColorDict [''A'' \<mapsto> ''red'']) True True None = Inl (KeyError (CategoryKey ''B''))"
    by (simp add: create_ribbon_chart_def engine_layout_def missing_column_def color_setup_def
        example_df_def unique_def sort_values_def value_key_def Let_def enumerate_eq_zip)
qed

text \<open>
  C10 on the two-period example: a dict that holds both categories, and one that lacks
  \<open>B\<close>.
\<close>

theorem explicit_color_dict_unvalidated_witness:
  "(\<forall>c. create_ribbon_chart [] example_df ''Period'' ''Category'' ''Value'' 2 0.4
          (ColorDict [''A'' \<mapsto> ''red'', ''B'' \<mapsto> ''blue'']) True True None
        \<noteq> Inl (KeyError (CategoryKey c))) \<and>
   create_ribbon_chart [] example_df ''Period'' ''Category'' ''Value'' 2 0.4
        (ColorDict [''A'' \<mapsto> ''red'']) True True None = Inl (KeyError (CategoryKey ''B'')) \<and>
   [''A'' \<mapsto> ''red''] ''B'' = None \<and>
   (\<exists>r\<in>set (rows example_df). kept r \<and> row_cat r = ''B'') \<and>
   (\<forall>tr. create_ribbon_chart [] example_df ''Period'' ''Category'' ''Value'' 2 0.4
          (ColorDict [''A'' \<mapsto> ''red'']) True True None \<noteq> Inr tr)"
proof -
  have cover: "\<forall>r\<in>set (rows example_df). kept r \<longrightarrow>
      [''A'' \<mapsto> ''red'', ''B'' \<mapsto> ''blue''] (row_cat r) \<noteq> None"
    by (simp add: example_df_def)
  have lack: "\<exists>r\<in>set (rows example_df). kept r \<and> [''A'' \<mapsto> ''red''] (row_cat r) = None"
    by (simp add: example_df_def kept_def)
  note a = explicit_color_dict_unvalidated[of "[]" "[''A'' \<mapsto> ''red'', ''B'' \<mapsto> ''blue'']" _
      example_df "''Period''" "''Category''" "''Value''" 2 "0.4" True True None]
  note b = explicit_color_dict_unvalidated[of "[]" "[''A'' \<mapsto> ''red'']" _
      example_df "''Period''" "''Category''" "''Value''" 2 "0.4" True True None]
  from a cover have 1: "\<forall>c. create_ribbon_chart [] example_df ''Period'' ''Category'' ''Value'' 2 0.4
          (ColorDict [''A'' \<mapsto> ''red'', ''B'' \<mapsto> ''blue'']) True True None
        \<noteq> Inl (KeyError (CategoryKey c))" by blast
  from b have 2: "create_ribbon_chart [] example_df ''Period'' ''Category'' ''Value'' 2 0.4
        (ColorDict [''A'' \<mapsto> ''red'']) True True None = Inl (KeyError (CategoryKey ''B''))"
    by blast
  from b 2 have 3: "[''A'' \<mapsto> ''red''] ''B'' = None \<and>
      (\<exists>r\<in>set (rows example_df). kept r \<and> row_cat r = ''B'')" by blast
  from b lack have 4: "\<forall>tr. create_ribbon_chart [] example_df ''Period'' ''Category'' ''Value'' 2 0.4
          (ColorDict [''A'' \<mapsto> ''red'']) True True None \<noteq> Inr tr" by blast
  from 1 2 3 4 show ?thesis by blast
qed

section \<open>The sampled boundary curves and the polygon (C7)\<close>

text \<open>
  C7.  \<open>get_sigmoid_curve\<close> samples \<open>n_points\<close> points (30 in every call of the
  engine) at the uniformly spaced parameters \<open>t = k / (n_points - 1)\<close>; x is linear in
  \<open>t\<close> between \<open>x_start\<close> and \<open>x_end\<close>, and y is \<open>y1 + f(t) * (y2 - y1)\<close> with the
  logistic \<open>f\<close>.  Every ribbon trace of a figure is the top curve left to right followed
  by the bottom curve reversed, for the segments of its category in two adjacent periods.
\<close>

theorem ribbon_polygon_sampled:
  fixes df :: "('p::linorder, 'c::linorder) frame"
  assumes "engine_layout palette df x_col category_col value_col gap bw colors asc sl ht = Inr (coords, tr)"
    and "Scatter s \<in> set tr"
  shows "(\<forall>x1 y1 x2 y2 n.
           zip (fst (get_sigmoid_curve x1 y1 x2 y2 n)) (snd (get_sigmoid_curve x1 y1 x2 y2 n)) =
             boundary_curve n x1 x2 y1 y2 \<and>
           length (fst (get_sigmoid_curve x1 y1 x2 y2 n)) = n \<and>
           length (snd (get_sigmoid_curve x1 y1 x2 y2 n)) = n) \<and>
    (\<exists>i cat c1 c2 y1_b y1_t y2_b y2_t.
      i + 1 < length (engine_periods df) \<and> cat \<in> set (engine_categories df) \<and>
      coords (engine_periods df ! i) = Some c1 \<and> c1 cat = Some (y1_b, y1_t) \<and>
      coords (engine_periods df ! (i + 1)) = Some c2 \<and> c2 cat = Some (y2_b, y2_t) \<and>
      s_legendgroup s = cat \<and> length (s_x s) = 60 \<and> length (s_y s) = 60 \<and>
      zip (s_x s) (s_y s) =
        ribbon_polygon 30 (real i + bw / 2) ((real i + 1) - bw / 2) y1_t y2_t y1_b y2_b)"
  using engine_scatter_polygon[OF assms] by (simp add: get_sigmoid_curve_zip)

text \<open>C7 on the ribbon of category A in the example scenario.\<close>

theorem ribbon_polygon_sampled_witness:
  "engine_layout [] example_df ''Period'' ''Category'' ''Value'' 2 0.4
     (ColorList [''red'', ''blue'']) True True None = Inr (example_coords, example_traces) \<and>
   Scatter example_ribbon_A \<in> set example_traces \<and>
   (\<exists>i cat c1 c2 y1_b y1_t y2_b y2_t.
      i + 1 < length (engine_periods example_df) \<and> cat \<in> set (engine_categories example_df) \<and>
      example_coords (engine_periods example_df ! i) = Some c1 \<and> c1 cat = Some (y1_b, y1_t) \<and>
      example_coords (engine_periods example_df ! (i + 1)) = Some c2 \<and> c2 cat = Some (y2_b, y2_t) \<and>
      s_legendgroup example_ribbon_A = cat \<and>
      length (s_x example_ribbon_A) = 60 \<and> length (s_y example_ribbon_A) = 60 \<and>
      zip (s_x example_ribbon_A) (s_y example_ribbon_A) =
        ribbon_polygon 30 (real i + 0.4 / 2) ((real i + 1) - 0.4 / 2) y1_t y2_t y1_b y2_b)"
  using ribbon_polygon_sampled[OF example_layout example_ribbons_mem(1)]
    example_layout example_ribbons_mem(1) by blast

section \<open>End points of the boundary curves (C5)\<close>

text \<open>
  C5, amended.  The first and last sampled points of a boundary curve have exactly the x
  coordinates \<open>x_start\<close> and \<open>x_end\<close>.  Their y coordinates are
  \<open>y1 + (y2 - y1) / (1 + e^5)\<close> and \<open>y2 - (y2 - y1) / (1 + e^5)\<close>: the logistic shape is
  not 0 at \<open>t = 0\<close> nor 1 at \<open>t = 1\<close>, so the curve misses \<open>y1\<close> and \<open>y2\<close> by
  \<open>(y2 - y1) / (1 + e^5)\<close>, which is less than one percent of the rise and is zero when
  \<open>y1 = y2\<close>.  This holds for the top and for the bottom curve of every ribbon.
\<close>

theorem boundary_endpoints:
  fixes df :: "('p::linorder, 'c::linorder) frame"
  assumes "engine_layout palette df x_col category_col value_col gap bw colors asc sl ht = Inr (coords, tr)"
    and "Scatter s \<in> set tr"
  shows "0 < 1 / (1 + exp (5::real)) \<and> 1 / (1 + exp (5::real)) < 1 / 100 \<and>
    (\<exists>i cat c1 c2 y1_b y1_t y2_b y2_t top bottom.
      i + 1 < length (engine_periods df) \<and> s_legendgroup s = cat \<and>
      coords (engine_periods df ! i) = Some c1 \<and> c1 cat = Some (y1_b, y1_t) \<and>
      coords (engine_periods df ! (i + 1)) = Some c2 \<and> c2 cat = Some (y2_b, y2_t) \<and>
      zip (s_x s) (s_y s) = top @ rev bottom \<and> length top = 30 \<and> length bottom = 30 \<and>
      hd top = (real i + bw / 2, y1_t + (y2_t - y1_t) / (1 + exp 5)) \<and>
      last top = ((real i + 1) - bw / 2, y2_t - (y2_t - y1_t) / (1 + exp 5)) \<and>
      hd bottom = (real i + bw / 2, y1_b + (y2_b - y1_b) / (1 + exp 5)) \<and>
      last bottom = ((real i + 1) - bw / 2, y2_b - (y2_b - y1_b) / (1 + exp 5)))"
proof -
  have e: "0 < 1 / (1 + exp (5::real))" "1 / (1 + exp (5::real)) < 1 / 100"
    using exp5_lower by (simp_all add: add_pos_pos field_simps)
  from engine_scatter_polygon[OF assms] obtain i cat c1 c2 y1_b y1_t y2_b y2_t where
    i: "i + 1 < length (engine_periods df)" "s_legendgroup s = cat"
       "coords (engine_periods df ! i) = Some c1" "c1 cat = Some (y1_b, y1_t)"
       "coords (engine_periods df ! (i + 1)) = Some c2" "c2 cat = Some (y2_b, y2_t)" and
    z: "zip (s_x s) (s_y s) =
        ribbon_polygon 30 (real i + bw / 2) ((real i + 1) - bw / 2) y1_t y2_t y1_b y2_b"
    by blast
  let ?top = "boundary_curve 30 (real i + bw / 2) ((real i + 1) - bw / 2) y1_t y2_t"
  let ?bot = "boundary_curve 30 (real i + bw / 2) ((real i + 1) - bw / 2) y1_b y2_b"
  have "zip (s_x s) (s_y s) = ?top @ rev ?bot" "length ?top = 30" "length ?bot = 30"
    "hd ?top = (real i + bw / 2, y1_t + (y2_t - y1_t) / (1 + exp 5))"
    "last ?top = ((real i + 1) - bw / 2, y2_t - (y2_t - y1_t) / (1 + exp 5))"
    "hd ?bot = (real i + bw / 2, y1_b + (y2_b - y1_b) / (1 + exp 5))"
    "last ?bot = ((real i + 1) - bw / 2, y2_b - (y2_b - y1_b) / (1 + exp 5))"
    using z by (simp_all add: ribbon_polygon_split boundary_curve_hd boundary_curve_last)
  with i e show ?thesis by blast
qed

text \<open>C5, amended, on the ribbon of category B in the example scenario.\<close>

theorem boundary_endpoints_witness:
  "engine_layout [] example_df ''Period'' ''Category'' ''Value'' 2 0.4
     (ColorList [''red'', ''blue'']) True True None = Inr (example_coords, example_traces) \<and>
   Scatter example_ribbon_B \<in> set example_traces \<and>
   0 < 1 / (1 + exp (5::real)) \<and> 1 / (1 + exp (5::real)) < 1 / 100 \<and>
    (\<exists>i cat c1 c2 y1_b y1_t y2_b y2_t top bottom.
      i + 1 < length (engine_periods example_df) \<and> s_legendgroup example_ribbon_B = cat \<and>
      example_coords (engine_periods example_df ! i) = Some c1 \<and> c1 cat = Some (y1_b, y1_t) \<and>
      example_coords (engine_periods example_df ! (i + 1)) = Some c2 \<and> c2 cat = Some (y2_b, y2_t) \<and>
      zip (s_x example_ribbon_B) (s_y example_ribbon_B) = top @ rev bottom \<and>
      length top = 30 \<and> length bottom = 30 \<and>
      hd top = (real i + 0.4 / 2, y1_t + (y2_t - y1_t) / (1 + exp 5)) \<and>
      last top = ((real i + 1) - 0.4 / 2, y2_t - (y2_t - y1_t) / (1 + exp 5)) \<and>
      hd bottom = (real i + 0.4 / 2, y1_b + (y2_b - y1_b) / (1 + exp 5)) \<and>
      last bottom = ((real i + 1) - 0.4 / 2, y2_b - (y2_b - y1_b) / (1 + exp 5)))"
  using boundary_endpoints[OF example_layout example_ribbons_mem(2)]
    example_layout example_ribbons_mem(2) by blast

text \<open>
  C5 as stated fails: in the example scenario the top edge of B's segment at P1 is 10,
  and the first sampled point of the top curve of B's ribbon lies more than 0.13 above
  it, far outside numpy's default tolerance.
\<close>

theorem boundary_continuity_counterexample:
  "\<exists>c1. engine_layout [] example_df ''Period'' ''Category'' ''Value'' 2 0.4
          (ColorList [''red'', ''blue'']) True True None = Inr (example_coords, example_traces) \<and>
        Scatter example_ribbon_B \<in> set example_traces \<and>
        example_coords ''P1'' = Some c1 \<and> c1 (s_legendgroup example_ribbon_B) = Some (0, 10) \<and>
        \<not> isclose (hd (s_y example_ribbon_B)) 10"
proof -
  have c: "example_coords ''P1'' = Some [''B'' \<mapsto> (0, 10), ''A'' \<mapsto> (12, 42)]"
    by (simp add: example_coords_def)
  have g: "s_legendgroup example_ribbon_B = ''B''" by (simp add: example_ribbon_B_def)
  have h: "hd (s_y example_ribbon_B) = 10 + 32 / (1 + exp 5)"
    by (simp add: example_ribbon_B_def get_sigmoid_curve_snd upt_conv_Cons logistic_0)
  have "(1::real) / 10 ^ 8 + \<bar>10\<bar> / 10 ^ 5 < 32 / 244" by simp
  also have "(32::real) / 244 \<le> 32 / (1 + exp 5)"
    using exp5_upper by (intro divide_left_mono) (simp_all add: add_pos_pos)
  finally have "\<not> isclose (hd (s_y example_ribbon_B)) 10"
    unfolding h isclose_def by (simp add: add_pos_pos)
  with c g example_layout example_ribbons_mem(2) show ?thesis by simp
qed

section \<open>The horizontal span of a ribbon (C6)\<close>

text \<open>
  C6, amended.  Every ribbon polygon bridges an adjacent pair of periods in which its
  category has a segment, and its x coordinates are 30 uniform samples from \<open>x_start\<close> to
  \<open>x_end\<close> followed by the same samples reversed.  In \<open>ribbon_engine.py\<close> and in
  \<open>employee_hours_chart.py\<close> the span is computed from the 0-based position \<open>i\<close> of the
  left period: \<open>x_start = i + bar_width / 2\<close> and \<open>x_end = (i + 1) - bar_width / 2\<close>
  (the bar width is the constant 0.4 in \<open>employee_hours_chart.py\<close>), whatever the period
  labels are.  In \<open>ribbon_chart.py\<close> the span is computed from the period values themselves:
  \<open>x_start = p_i + 0.35 / 2\<close> and \<open>x_end = p_{i+1} - 0.35 / 2\<close>.
\<close>

theorem ribbon_span:
  fixes df :: "('p::linorder, 'c::linorder) frame"
    and hdf :: "('q, 'd) frame"
    and cdf :: "(real, 'e::linorder) frame"
  shows
   "(engine_layout palette df x_col category_col value_col gap bw colors asc sl ht
       = Inr (coords, tr) \<longrightarrow>
     (\<forall>s. Scatter s \<in> set tr \<longrightarrow>
        (\<exists>i. i + 1 < length (engine_periods df) \<and>
           has_segment coords (engine_periods df ! i) (s_legendgroup s) \<and>
           has_segment coords (engine_periods df ! (i + 1)) (s_legendgroup s) \<and>
           s_x s = span_xs 30 (real i + bw / 2) (real (i + 1) - bw / 2) @
                   rev (span_xs 30 (real i + bw / 2) (real (i + 1) - bw / 2)) \<and>
           hd (s_x s) = real i + bw / 2 \<and> s_x s ! 29 = real (i + 1) - bw / 2))) \<and>
    (hours_layout tie hpalette hdf hx_col hcategory_col hvalue_col hgap = Inr (hcoords, htr) \<longrightarrow>
     (\<forall>s. Scatter s \<in> set htr \<longrightarrow>
        (\<exists>i. i + 1 < length (hours_periods hdf) \<and>
           has_segment hcoords (hours_periods hdf ! i) (s_legendgroup s) \<and>
           has_segment hcoords (hours_periods hdf ! (i + 1)) (s_legendgroup s) \<and>
           s_x s = span_xs 30 (real i + 0.4 / 2) (real (i + 1) - 0.4 / 2) @
                   rev (span_xs 30 (real i + 0.4 / 2) (real (i + 1) - 0.4 / 2)) \<and>
           hd (s_x s) = real i + 0.4 / 2 \<and> s_x s ! 29 = real (i + 1) - 0.4 / 2))) \<and>
    (scenario_layout cpalette fig cdf cx_col ccategory_col cvalue_col scenario_name cgap
       = Inr (ccoords, ctr, n) \<longrightarrow>
     (\<forall>s. Scatter s \<in> set (drop (length fig) ctr) \<longrightarrow>
        (\<exists>i. i + 1 < length (chart_periods cdf) \<and>
           has_segment ccoords (chart_periods cdf ! i) (s_legendgroup s) \<and>
           has_segment ccoords (chart_periods cdf ! (i + 1)) (s_legendgroup s) \<and>
           s_x s = span_xs 30 (chart_periods cdf ! i + 0.35 / 2)
                     (chart_periods cdf ! (i + 1) - 0.35 / 2) @
                   rev (span_xs 30 (chart_periods cdf ! i + 0.35 / 2)
                          (chart_periods cdf ! (i + 1) - 0.35 / 2)) \<and>
           hd (s_x s) = chart_periods cdf ! i + 0.35 / 2 \<and>
           s_x s ! 29 = chart_periods cdf ! (i + 1) - 0.35 / 2)))"
proof (intro conjI impI allI)
  fix s
  assume lay: "engine_layout palette df x_col category_col value_col gap bw colors asc sl ht
       = Inr (coords, tr)" and s: "Scatter s \<in> set tr"
  from engine_scatter_span[OF lay s] obtain i where
    i: "i + 1 < length (engine_periods df)"
       "has_segment coords (engine_periods df ! i) (s_legendgroup s)"
       "has_segment coords (engine_periods df ! (i + 1)) (s_legendgroup s)" and
    x: "s_x s = span_xs 30 (real i + bw / 2) ((real i + 1) - bw / 2) @
             rev (span_xs 30 (real i + bw / 2) ((real i + 1) - bw / 2))" by blast
  have e: "(real i + 1) - bw / 2 = real (i + 1) - bw / 2" by simp
  from span_polygon_ends(1,2)[OF x] x i
  show "\<exists>i. i + 1 < length (engine_periods df) \<and>
           has_segment coords (engine_periods df ! i) (s_legendgroup s) \<and>
           has_segment coords (engine_periods df ! (i + 1)) (s_legendgroup s) \<and>
           s_x s = span_xs 30 (real i + bw / 2) (real (i + 1) - bw / 2) @
                   rev (span_xs 30 (real i + bw / 2) (real (i + 1) - bw / 2)) \<and>
           hd (s_x s) = real i + bw / 2 \<and> s_x s ! 29 = real (i + 1) - bw / 2"
    unfolding e by blast
next
  fix s
  assume lay: "hours_layout tie hpalette hdf hx_col hcategory_col hvalue_col hgap = Inr (hcoords, htr)"
    and s: "Scatter s \<in> set htr"
  from hours_scatter_span[OF lay s] obtain i where
    i: "i + 1 < length (hours_periods hdf)"
       "has_segment hcoords (hours_periods hdf ! i) (s_legendgroup s)"
       "has_segment hcoords (hours_periods hdf ! (i + 1)) (s_legendgroup s)" and
    x: "s_x s = span_xs 30 (real i + 0.4 / 2) ((real i + 1) - 0.4 / 2) @
             rev (span_xs 30 (real i + 0.4 / 2) ((real i + 1) - 0.4 / 2))" by blast
  have e: "(real i + 1) - 0.4 / 2 = real (i + 1) - 0.4 / 2" by simp
  from span_polygon_ends(1,2)[OF x] x i
  show "\<exists>i. i + 1 < length (hours_periods hdf) \<and>
           has_segment hcoords (hours_periods hdf ! i) (s_legendgroup s) \<and>
           has_segment hcoords (hours_periods hdf ! (i + 1)) (s_legendgroup s) \<and>
           s_x s = span_xs 30 (real i + 0.4 / 2) (real (i + 1) - 0.4 / 2) @
                   rev (span_xs 30 (real i + 0.4 / 2) (real (i + 1) - 0.4 / 2)) \<and>
           hd (s_x s) = real i + 0.4 / 2 \<and> s_x s ! 29 = real (i + 1) - 0.4 / 2"
    unfolding e by blast
next
  fix s
  assume lay: "scenario_layout cpalette fig cdf cx_col ccategory_col cvalue_col scenario_name cgap
       = Inr (ccoords, ctr, n)" and s: "Scatter s \<in> set (drop (length fig) ctr)"
  from chart_scatter_span[OF lay s] obtain i where
    i: "i + 1 < length (chart_periods cdf)"
       "has_segment ccoords (chart_periods cdf ! i) (s_legendgroup s)"
       "has_segment ccoords (chart_periods cdf ! (i + 1)) (s_legendgroup s)" and
    x: "s_x s = span_xs 30 (chart_periods cdf ! i + 0.35 / 2) (chart_periods cdf ! (i + 1) - 0.35 / 2) @
             rev (span_xs 30 (chart_periods cdf ! i + 0.35 / 2)
                    (chart_periods cdf ! (i + 1) - 0.35 / 2))" by blast
  from span_polygon_ends(1,2)[OF x] x i
  show "\<exists>i. i + 1 < length (chart_periods cdf) \<and>
           has_segment ccoords (chart_periods cdf ! i) (s_legendgroup s) \<and>
           has_segment ccoords (chart_periods cdf ! (i + 1)) (s_legendgroup s) \<and>
           s_x s = span_xs 30 (chart_periods cdf ! i + 0.35 / 2)
                     (chart_periods cdf ! (i + 1) - 0.35 / 2) @
                   rev (span_xs 30 (chart_periods cdf ! i + 0.35 / 2)
                          (chart_periods cdf ! (i + 1) - 0.35 / 2)) \<and>
           hd (s_x s) = chart_periods cdf ! i + 0.35 / 2 \<and>
           s_x s ! 29 = chart_periods cdf ! (i + 1) - 0.35 / 2"
    by blast
qed

text \<open>
  C6, amended, on the example frames: a ribbon of each script with its span.
\<close>

theorem ribbon_span_witness:
  "(\<exists>i. i + 1 < length (engine_periods example_df) \<and>
        hd (s_x example_ribbon_A) = real i + 0.4 / 2 \<and>
        s_x example_ribbon_A ! 29 = real (i + 1) - 0.4 / 2) \<and>
   (\<exists>coords tr s i.
        hours_layout (\<lambda>rs r. 0) [''rgb(95, 70, 144)''] hours_df ''Week'' ''Employee'' ''Hours'' 2
          = Inr (coords, tr) \<and>
        Scatter s \<in> set tr \<and> i + 1 < length (hours_periods hours_df) \<and>
        hd (s_x s) = real i + 0.4 / 2 \<and> s_x s ! 29 = real (i + 1) - 0.4 / 2) \<and>
   (\<exists>coords tr n s i.
        scenario_layout [''#1F77B4''] [] chart_df ''Year'' ''Category'' ''Value'' ''S'' 2
          = Inr (coords, tr, n) \<and>
        Scatter s \<in> set tr \<and> i + 1 < length (chart_periods chart_df) \<and>
        hd (s_x s) = chart_periods chart_df ! i + 0.35 / 2 \<and>
        s_x s ! 29 = chart_periods chart_df ! (i + 1) - 0.35 / 2)"
proof (intro conjI)
  obtain hcoords htr where
    hl: "hours_layout (\<lambda>rs r. 0) [''rgb(95, 70, 144)''] hours_df ''Week'' ''Employee'' ''Hours'' 2
          = Inr (hcoords, htr)"
    using hours_example_run[of "\<lambda>rs r. 0" "''rgb(95, 70, 144)''" "[]" 2] by blast
  from ribbon_drawn_scatter[OF hours_example_facts(6)[OF hl]] obtain hs where
    hs: "Scatter hs \<in> set htr" by blast
  obtain ccoords ctr n where
    cl: "scenario_layout [''#1F77B4''] [] chart_df ''Year'' ''Category'' ''Value'' ''S'' 2
          = Inr (ccoords, ctr, n)"
    using chart_example_run[of "''#1F77B4''" "[]" "[]" "''S''" 2] by blast
  from ribbon_drawn_scatter[OF chart_example_facts(3)[OF cl]] obtain cs where
    cs: "Scatter cs \<in> set ctr" by blast
  then have cs': "Scatter cs \<in> set (drop (length ([] :: (real, string, num) trace list)) ctr)"
    by simp
  note t = ribbon_span[of "[]" example_df "''Period''" "''Category''" "''Value''" 2 "0.4"
      "ColorList [''red'', ''blue'']" True True None example_coords example_traces
      "\<lambda>rs r. 0" "[''rgb(95, 70, 144)'']" hours_df "''Week''" "''Employee''" "''Hours''" 2 hcoords htr
      "[''#1F77B4'']" "[]" chart_df "''Year''" "''Category''" "''Value''" "''S''" 2 ccoords ctr n]
  from t example_layout example_ribbons_mem(1)
  show "\<exists>i. i + 1 < length (engine_periods example_df) \<and>
        hd (s_x example_ribbon_A) = real i + 0.4 / 2 \<and>
        s_x example_ribbon_A ! 29 = real (i + 1) - 0.4 / 2"
    by blast
  from t hl hs
  have "\<exists>i. i + 1 < length (hours_periods hours_df) \<and>
        hd (s_x hs) = real i + 0.4 / 2 \<and> s_x hs ! 29 = real (i + 1) - 0.4 / 2"
    by blast
  with hl hs show "\<exists>coords tr s i.
        hours_layout (\<lambda>rs r. 0) [''rgb(95, 70, 144)''] hours_df ''Week'' ''Employee'' ''Hours'' 2
          = Inr (coords, tr) \<and>
        Scatter s \<in> set tr \<and> i + 1 < length (hours_periods hours_df) \<and>
        hd (s_x s) = real i + 0.4 / 2 \<and> s_x s ! 29 = real (i + 1) - 0.4 / 2"
    by blast
  from t cl cs'
  have "\<exists>i. i + 1 < length (chart_periods chart_df) \<and>
        hd (s_x cs) = chart_periods chart_df ! i + 0.35 / 2 \<and>
        s_x cs ! 29 = chart_periods chart_df ! (i + 1) - 0.35 / 2"
    by blast
  with cl cs show "\<exists>coords tr n s i.
        scenario_layout [''#1F77B4''] [] chart_df ''Year'' ''Category'' ''Value'' ''S'' 2
          = Inr (coords, tr, n) \<and>
        Scatter s \<in> set tr \<and> i + 1 < length (chart_periods chart_df) \<and>
        hd (s_x s) = chart_periods chart_df ! i + 0.35 / 2 \<and>
        s_x s ! 29 = chart_periods chart_df ! (i + 1) - 0.35 / 2"
    by blast
qed

text \<open>
  C6 as stated fails for \<open>ribbon_chart.py\<close>.  In the two-year frame the periods at
  positions 0 and 1 are 2020 and 2021 and category \<open>A\<close> has a segment in both, so its
  ribbon should start at \<open>0 + 0.35 / 2\<close>; the ribbon starts at \<open>2020 + 0.35 / 2\<close> and no
  ribbon of \<open>A\<close> starts at \<open>0 + 0.35 / 2\<close>, whatever the palette and the scenario name.
\<close>

theorem ribbon_span_by_label_counterexample:
  "\<forall>c pal sn. \<exists>coords tr n.
     scenario_layout (c # pal) [] chart_df ''Year'' ''Category'' ''Value'' sn 2
       = Inr (coords, tr, n) \<and>
     chart_periods chart_df ! 0 = 2020 \<and> chart_periods chart_df ! 1 = 2021 \<and>
     has_segment coords 2020 ''A'' \<and> has_segment coords 2021 ''A'' \<and>
     ribbon_drawn tr ''A'' (2020 + 0.35 / 2) \<and>
     \<not> ribbon_drawn tr ''A'' (0 + 0.35 / 2)"
proof (intro allI)
  fix c pal sn
  obtain coords tr n where
    lay: "scenario_layout (c # pal) [] chart_df ''Year'' ''Category'' ''Value'' sn 2
          = Inr (coords, tr, n)"
    using chart_example_run[of c pal "[]" sn 2] by blast
  note f = chart_example_facts[OF lay]
  have hs: "has_segment coords 2020 ''A''" "has_segment coords 2021 ''A''"
    unfolding has_segment_def f(1) f(2) by simp_all
  have "\<not> ribbon_drawn tr ''A'' (0 + 0.35 / 2)"
  proof
    assume "ribbon_drawn tr ''A'' (0 + 0.35 / 2)"
    from f(6)[OF this] show False by simp
  qed
  with lay hs f(3) show "\<exists>coords tr n.
     scenario_layout (c # pal) [] chart_df ''Year'' ''Category'' ''Value'' sn 2
       = Inr (coords, tr, n) \<and>
     chart_periods chart_df ! 0 = 2020 \<and> chart_periods chart_df ! 1 = 2021 \<and>
     has_segment coords 2020 ''A'' \<and> has_segment coords 2021 ''A'' \<and>
     ribbon_drawn tr ''A'' (2020 + 0.35 / 2) \<and>
     \<not> ribbon_drawn tr ''A'' (0 + 0.35 / 2)"
    by (simp add: chart_example_periods)
qed

section \<open>Which ribbons exist (C3)\<close>




section \<open>Ribbons between segments of zero height (C8)\<close>




section \<open>Which observations get a segment (C1)\<close>




end
